theory Spec2Isabelle
  imports Main "HOL-Library.AList" "HOL-Library.Char_ord" "HOL-Library.List_Lexorder"
    "HOL-Library.Sublist"
begin

section \<open>Controller kinds and the tie-break policy\<close>

text \<open>
  Modelled from the spec: the kind constants of package \<open>kubernetes\<close>
  (\<open>kubernetes.DeploymentType\<close> and its siblings), which \<open>business/workloads.go\<close>
  uses in its \<open>switch\<close> statements. The spec names the kinds; the source writes the
  same strings as literals in \<open>controllerOrder\<close> and in the orphan completion.
\<close>

definition DeploymentType :: string where "DeploymentType = ''Deployment''"
definition DeploymentConfigType :: string where "DeploymentConfigType = ''DeploymentConfig''"
definition ReplicaSetType :: string where "ReplicaSetType = ''ReplicaSet''"
definition ReplicationControllerType :: string where
  "ReplicationControllerType = ''ReplicationController''"
definition StatefulSetType :: string where "StatefulSetType = ''StatefulSet''"
definition JobType :: string where "JobType = ''Job''"
definition CronJobType :: string where "CronJobType = ''CronJob''"
definition DaemonSetType :: string where "DaemonSetType = ''DaemonSet''"
definition PodType :: string where "PodType = ''Pod''"

text \<open>\<open>var controllerOrder = map[string]int{...}\<close>, the literal of the source.\<close>

definition controllerOrder :: "(string \<times> int) list" where
  "controllerOrder =
     [(''Deployment'', 6),
      (''DeploymentConfig'', 5),
      (''ReplicaSet'', 4),
      (''ReplicationController'', 3),
      (''StatefulSet'', 2),
      (''Job'', 1),
      (''DaemonSet'', 0),
      (''Pod'', - 1)]"

text \<open>
  Go's two-valued map read \<open>w, e := controllerOrder[k]\<close>: for a key that is absent
  \<open>e\<close> is false and \<open>w\<close> is the zero value of \<open>int\<close>.
\<close>

definition orderLookup :: "string \<Rightarrow> int \<times> bool" where
  "orderLookup k = (case map_of controllerOrder k of Some w \<Rightarrow> (w, True) | None \<Rightarrow> (0, False))"

text \<open>
  \<open>controllerPriority\<close>: both reads only log when the kind is absent; the comparison
  then runs on the two values read.
\<close>

definition controllerPriority :: "string \<Rightarrow> string \<Rightarrow> string" where
  "controllerPriority type1 type2 =
     (let (w1, e1) = orderLookup type1;
          (w2, e2) = orderLookup type2
      in if w1 \<ge> w2 then type1 else type2)"

section \<open>Data model\<close>

text \<open>
  The objects of the orchestration platform, as far as \<open>business/workloads.go\<close> reads
  them. \<open>ref.Controller\<close> is a \<open>*bool\<close>: nil, or a pointer to a flag.
\<close>

type_synonym labels = "(string \<times> string) list"

record OwnerReference =
  refName :: string
  refKind :: string
  refController :: "bool option"

definition isController :: "OwnerReference \<Rightarrow> bool" where
  "isController ref = (refController ref = Some True)"

record ObjectMeta =
  Name :: string
  Labels :: labels
  OwnerReferences :: "OwnerReference list"

text \<open>
  A pod carries the names of its injected containers, as \<open>models.Pod.Parse\<close> decodes
  them from the sidecar annotation; \<open>HasIstioSidecar\<close> tests that list.
\<close>

record Pod = ObjectMeta +
  IstioContainers :: "string list"

definition HasIstioSidecar :: "Pod \<Rightarrow> bool" where
  "HasIstioSidecar pod = (length (IstioContainers pod) > 0)"

text \<open>
  A controller object of any of the nine kinds. \<open>TemplateLabels\<close> is
  \<open>Spec.Template.Labels\<close>, and \<open>Spec.JobTemplate.Spec.Template.Labels\<close> for a cron-job.
\<close>

record Controller = ObjectMeta +
  TemplateLabels :: labels

text \<open>
  Modelled from the spec: the errors of the listers and the typed Not-Found condition
  that \<open>kubernetes.NewNotFound\<close> builds (package \<open>kubernetes\<close> is not among the
  sources). \<open>IsNotFound\<close> is the test \<open>errors.IsNotFound\<close>.
\<close>

datatype error = NotFound string string string | ApiError string

definition NewNotFound :: "string \<Rightarrow> string \<Rightarrow> string \<Rightarrow> error" where
  "NewNotFound name grp resource = NotFound name grp resource"

fun IsNotFound :: "error \<Rightarrow> bool" where
  "IsNotFound (NotFound name grp resource) = True"
| "IsNotFound (ApiError msg) = False"

text \<open>
  Modelled from the spec: \<open>models.Workload\<close> and its methods \<open>SetPods\<close>,
  \<open>ParseDeployment\<close> ... \<open>ParseDaemonSet\<close>, \<open>ParsePod\<close>, \<open>ParseReplicaSetParent\<close>
  and \<open>ParsePods\<close> (package \<open>models\<close> is not among the sources). A workload has a
  name, a kind, labels and its matched pods, each with an optional proxy status. A typed
  object gives the workload its name, its kind and its template labels; the parent variant
  takes the labels of the replica-set and keeps the name and kind it is given; the minimal
  variant sets name, kind and pods only.
\<close>

record WorkloadPod =
  SourcePod :: Pod
  ProxyStatus :: "string option"

record Workload =
  WorkloadName :: string
  WorkloadType :: string
  WorkloadLabels :: labels
  Pods :: "WorkloadPod list"

definition emptyWorkload :: Workload where
  "emptyWorkload = \<lparr>WorkloadName = [], WorkloadType = [], WorkloadLabels = [], Pods = []\<rparr>"

definition SetPods :: "Pod list \<Rightarrow> Workload \<Rightarrow> Workload" where
  "SetPods ps w = w\<lparr>Pods := map (\<lambda>p. \<lparr>SourcePod = p, ProxyStatus = None\<rparr>) ps\<rparr>"

definition ParseController :: "string \<Rightarrow> Controller \<Rightarrow> Workload \<Rightarrow> Workload" where
  "ParseController kind c w =
     w\<lparr>WorkloadName := Name c, WorkloadType := kind, WorkloadLabels := TemplateLabels c\<rparr>"

definition ParsePod :: "Pod \<Rightarrow> Workload \<Rightarrow> Workload" where
  "ParsePod pod w =
     w\<lparr>WorkloadName := Name pod, WorkloadType := PodType, WorkloadLabels := Labels pod\<rparr>"

definition ParseReplicaSetParent :: "Controller \<Rightarrow> string \<Rightarrow> string \<Rightarrow> Workload \<Rightarrow> Workload" where
  "ParseReplicaSetParent rs workloadName workloadType w =
     w\<lparr>WorkloadName := workloadName, WorkloadType := workloadType,
       WorkloadLabels := TemplateLabels rs\<rparr>"

definition ParsePods :: "string \<Rightarrow> string \<Rightarrow> Pod list \<Rightarrow> Workload \<Rightarrow> Workload" where
  "ParsePods controllerName controllerType ps w =
     (SetPods ps w)\<lparr>WorkloadName := controllerName, WorkloadType := controllerType\<rparr>"

section \<open>The collaborators of the resolution core\<close>

text \<open>
  The listers of one client, for the namespace of the call. A lister returns its list or
  an error (with an empty list). The single-object getters are those \<open>fetchWorkload\<close>
  calls with the requested name.
\<close>

record Client =
  GetPods :: "string \<Rightarrow> error + Pod list"
  GetDeployments :: "error + Controller list"
  GetReplicaSets :: "error + Controller list"
  GetReplicationControllers :: "error + Controller list"
  GetDeploymentConfigs :: "error + Controller list"
  GetStatefulSets :: "error + Controller list"
  GetCronJobs :: "error + Controller list"
  GetJobs :: "error + Controller list"
  GetDaemonSets :: "error + Controller list"
  GetDeployment :: "string \<Rightarrow> error + Controller"
  GetDeploymentConfig :: "string \<Rightarrow> error + Controller"
  GetStatefulSet :: "string \<Rightarrow> error + Controller"
  GetDaemonSet :: "string \<Rightarrow> error + Controller"
  IsOpenShift :: bool

text \<open>
  What a call of the core can see: the live client \<open>layer.k8s\<close>, the cache
  \<open>kialiCache\<close>, whether the namespace is cached, the outcome of the namespace access
  check, the global exclusion set \<open>excludedWorkloads\<close> (a \<open>map[string]bool\<close>, possibly
  nil), the proxy status lookup, and the two functions of the label library the code calls:
  \<open>labels.Parse\<close>, and whether \<open>labels.Set(s).AsSelector()\<close> matches a label set.
\<close>

record Layer =
  k8s :: Client
  kialiCache :: Client
  IsNamespaceCached :: bool
  GetNamespace :: "error option"
  excludedWorkloads :: "(string \<times> bool) list option"
  GetPodProxyStatus :: "string \<Rightarrow> error + string"
  labelsParse :: "string \<Rightarrow> error + (labels \<Rightarrow> bool)"
  AsSelectorMatches :: "labels \<Rightarrow> labels \<Rightarrow> bool"

definition isWorkloadIncluded :: "Layer \<Rightarrow> string \<Rightarrow> bool" where
  "isWorkloadIncluded layer workload =
     (case excludedWorkloads layer of
        None \<Rightarrow> True
      | Some m \<Rightarrow> \<not> (case map_of m workload of Some b \<Rightarrow> b | None \<Rightarrow> False))"

text \<open>
  Modelled from the spec: \<open>kubernetes.FilterPodsForSelector\<close> keeps the pods whose
  labels the selector matches, and \<open>kubernetes.FilterPodsForController\<close> keeps the pods
  with an owner reference of the given name and kind.
\<close>

definition FilterPodsForSelector :: "Layer \<Rightarrow> labels \<Rightarrow> Pod list \<Rightarrow> Pod list" where
  "FilterPodsForSelector layer selector allPods =
     filter (\<lambda>pod. AsSelectorMatches layer selector (Labels pod)) allPods"

definition FilterPodsForController :: "string \<Rightarrow> string \<Rightarrow> Pod list \<Rightarrow> Pod list" where
  "FilterPodsForController controllerName controllerType allPods =
     filter (\<lambda>pod. \<exists>ref \<in> set (OwnerReferences pod).
                      refName ref = controllerName \<and> refKind ref = controllerType) allPods"

section \<open>The fetch phase\<close>

text \<open>
  The variables the goroutines fill. In \<open>fetchWorkloads\<close> the deployment,
  deployment-config, stateful-set and daemon-set variables are lists, in \<open>fetchWorkload\<close>
  they are pointers to one object (\<open>ds\<close> there is \<open>daeset\<close> here); the type parameter
  is that type.
\<close>

record 'c Fetched =
  pods :: "Pod list"
  repcon :: "Controller list"
  dep :: 'c
  repset :: "Controller list"
  depcon :: 'c
  fulset :: 'c
  jbs :: "Controller list"
  conjbs :: "Controller list"
  daeset :: 'c

text \<open>
  Each goroutine of \<open>fetchWorkloads\<close> yields the value of its variable and the error
  it sends on \<open>errChan\<close>, if any. A variable keeps its zero value when its fetch is
  skipped or fails.
\<close>

definition forwarded :: "error + 'a list \<Rightarrow> 'a list \<times> error option" where
  "forwarded r = (case r of Inr xs \<Rightarrow> (xs, None) | Inl err \<Rightarrow> ([], Some err))"

definition loggedOnly :: "error + 'a list \<Rightarrow> 'a list \<times> error option" where
  "loggedOnly r = (case r of Inr xs \<Rightarrow> (xs, None) | Inl err \<Rightarrow> ([], None))"

definition skipped :: "'a list \<times> error option" where
  "skipped = ([], None)"

definition source :: "Layer \<Rightarrow> Client" where
  "source layer = (if IsNamespaceCached layer then kialiCache layer else k8s layer)"

definition fetchPods :: "Layer \<Rightarrow> string \<Rightarrow> Pod list \<times> error option" where
  "fetchPods layer labelSelector = forwarded (GetPods (source layer) labelSelector)"

definition fetchDeployments :: "Layer \<Rightarrow> Controller list \<times> error option" where
  "fetchDeployments layer = forwarded (GetDeployments (source layer))"

definition fetchReplicaSets :: "Layer \<Rightarrow> Controller list \<times> error option" where
  "fetchReplicaSets layer = forwarded (GetReplicaSets (source layer))"

definition fetchReplicationControllers :: "Layer \<Rightarrow> Controller list \<times> error option" where
  "fetchReplicationControllers layer =
     (if isWorkloadIncluded layer ReplicationControllerType
      then forwarded (GetReplicationControllers (k8s layer)) else skipped)"

definition fetchDeploymentConfigs :: "Layer \<Rightarrow> Controller list \<times> error option" where
  "fetchDeploymentConfigs layer =
     (if IsOpenShift (k8s layer) \<and> isWorkloadIncluded layer DeploymentConfigType
      then forwarded (GetDeploymentConfigs (k8s layer)) else skipped)"

definition fetchStatefulSets :: "Layer \<Rightarrow> Controller list \<times> error option" where
  "fetchStatefulSets layer =
     (if isWorkloadIncluded layer StatefulSetType
      then forwarded (GetStatefulSets (source layer)) else skipped)"

definition fetchCronJobs :: "Layer \<Rightarrow> Controller list \<times> error option" where
  "fetchCronJobs layer =
     (if isWorkloadIncluded layer CronJobType
      then forwarded (GetCronJobs (k8s layer)) else skipped)"

definition fetchJobs :: "Layer \<Rightarrow> Controller list \<times> error option" where
  "fetchJobs layer =
     (if isWorkloadIncluded layer JobType
      then forwarded (GetJobs (k8s layer)) else skipped)"

text \<open>The daemon-set goroutine logs its error and sends nothing on \<open>errChan\<close>.\<close>

definition fetchDaemonSets :: "Layer \<Rightarrow> Controller list \<times> error option" where
  "fetchDaemonSets layer =
     (if isWorkloadIncluded layer DaemonSetType
      then loggedOnly (GetDaemonSets (source layer)) else skipped)"

definition fetchAll :: "Layer \<Rightarrow> string \<Rightarrow> (Controller list) Fetched" where
  "fetchAll layer labelSelector =
     \<lparr>pods = fst (fetchPods layer labelSelector),
      repcon = fst (fetchReplicationControllers layer),
      dep = fst (fetchDeployments layer),
      repset = fst (fetchReplicaSets layer),
      depcon = fst (fetchDeploymentConfigs layer),
      fulset = fst (fetchStatefulSets layer),
      jbs = fst (fetchJobs layer),
      conjbs = fst (fetchCronJobs layer),
      daeset = fst (fetchDaemonSets layer)\<rparr>"

text \<open>The errors the nine goroutines send, in the order the source starts them.\<close>

definition sentErrors :: "Layer \<Rightarrow> string \<Rightarrow> error option list" where
  "sentErrors layer labelSelector =
     [snd (fetchPods layer labelSelector),
      snd (fetchDeployments layer),
      snd (fetchReplicaSets layer),
      snd (fetchReplicationControllers layer),
      snd (fetchDeploymentConfigs layer),
      snd (fetchStatefulSets layer),
      snd (fetchCronJobs layer),
      snd (fetchJobs layer),
      snd (fetchDaemonSets layer)]"

text \<open>
  The content of the buffered channel after \<open>wg.Wait()\<close>: the goroutines send in the
  order in which they happen to run, which the schedule \<open>sched\<close> lists (goroutine
  numbers, counted from 0).
\<close>

definition errChan :: "error option list \<Rightarrow> nat list \<Rightarrow> error list" where
  "errChan sent sched =
     concat (map (\<lambda>i. if i < length sent then (case sent ! i of Some err \<Rightarrow> [err] | None \<Rightarrow> [])
                       else []) sched)"

section \<open>The ownership resolver\<close>

type_synonym ControllerIndex = "(string \<times> string) list"

text \<open>
  The block that records an owner in \<open>controllers\<close>; the source repeats it at each of
  its four uses.
\<close>

definition recordOwner :: "ControllerIndex \<Rightarrow> OwnerReference \<Rightarrow> ControllerIndex" where
  "recordOwner controllers ref =
     (case map_of controllers (refName ref) of
        None \<Rightarrow> AList.update (refName ref) (refKind ref) controllers
      | Some existing \<Rightarrow>
          if existing \<noteq> refKind ref
          then AList.update (refName ref) (controllerPriority existing (refKind ref)) controllers
          else controllers)"

text \<open>Find controllers from pods.\<close>

definition podControllers :: "ControllerIndex \<Rightarrow> Pod \<Rightarrow> ControllerIndex" where
  "podControllers controllers pod =
     (if length (OwnerReferences pod) \<noteq> 0
      then foldl (\<lambda>cs ref. if isController ref then recordOwner cs ref else cs)
             controllers (OwnerReferences pod)
      else if map_of controllers (Name pod) = None
           then AList.update (Name pod) ''Pod'' controllers
           else controllers)"

definition findControllers :: "Pod list \<Rightarrow> ControllerIndex" where
  "findControllers ps = foldl podControllers [] ps"

text \<open>
  The one-hop resolution. A replica-set or replication-controller entry is deleted for
  each controller reference of its object; a job entry only when a cron-job of the
  referenced name was fetched.
\<close>

definition resolveOwned :: "string \<Rightarrow> ControllerIndex \<Rightarrow> OwnerReference list \<Rightarrow> ControllerIndex" where
  "resolveOwned cname controllers refs =
     foldl (\<lambda>cs ref. if isController ref then AList.delete cname (recordOwner cs ref) else cs)
       controllers refs"

definition resolveJob ::
  "Controller list \<Rightarrow> string \<Rightarrow> ControllerIndex \<Rightarrow> OwnerReference list \<Rightarrow> ControllerIndex" where
  "resolveJob cronJobs cname controllers refs =
     foldl (\<lambda>cs ref.
              if isController ref
              then (let cs' = recordOwner cs ref;
                        cnExist = (\<exists>cnj \<in> set cronJobs. Name cnj = refName ref)
                    in if cnExist then AList.delete cname cs' else cs')
              else cs)
       controllers refs"

definition resolveEntry :: "'c Fetched \<Rightarrow> ControllerIndex \<Rightarrow> string \<Rightarrow> string \<Rightarrow> ControllerIndex" where
  "resolveEntry f controllers cname ctype =
     (let c1 = (if ctype = ReplicaSetType
                then (case find (\<lambda>rs. Name rs = cname) (repset f) of
                        Some rs \<Rightarrow>
                          if length (OwnerReferences rs) > 0
                          then resolveOwned cname controllers (OwnerReferences rs)
                          else controllers
                      | None \<Rightarrow> controllers)
                else controllers);
          c2 = (if ctype = ReplicationControllerType
                then (case find (\<lambda>rc. Name rc = cname) (repcon f) of
                        Some rc \<Rightarrow>
                          if length (OwnerReferences rc) > 0
                          then resolveOwned cname c1 (OwnerReferences rc)
                          else c1
                      | None \<Rightarrow> c1)
                else c1)
      in if ctype = JobType
         then (case find (\<lambda>jb. Name jb = cname) (jbs f) of
                 Some jb \<Rightarrow>
                   if length (OwnerReferences jb) > 0
                   then resolveJob (conjbs f) cname c2 (OwnerReferences jb)
                   else c2
               | None \<Rightarrow> c2)
         else c2)"

text \<open>
  \<open>for cname, ctype := range controllers\<close> runs while the body inserts into and deletes
  from the map. Go leaves the order open: an entry deleted before it is reached is not
  produced, an entry created during the loop may be produced or skipped, and the kind
  produced is the one stored when the entry is reached. The list \<open>order\<close> is the
  sequence of names the loop reaches; a name that is not in the map at its turn is passed
  over. An order covers the loop of a map when it holds every name the map starts with.
\<close>

definition resolveControllers ::
  "'c Fetched \<Rightarrow> string list \<Rightarrow> ControllerIndex \<Rightarrow> ControllerIndex" where
  "resolveControllers f order controllers =
     foldl (\<lambda>cs cname. case map_of cs cname of
                          None \<Rightarrow> cs
                        | Some ctype \<Rightarrow> resolveEntry f cs cname ctype)
       controllers order"

definition covers :: "string list \<Rightarrow> ControllerIndex \<Rightarrow> bool" where
  "covers order controllers = (\<forall>cname \<in> set (map fst controllers). cname \<in> set order)"

section \<open>Orphan completion\<close>

definition parseSelector :: "Layer \<Rightarrow> string \<Rightarrow> (labels \<Rightarrow> bool) option" where
  "parseSelector layer labelSelector =
     (if labelSelector \<noteq> ''''
      then (case labelsParse layer labelSelector of Inr sel \<Rightarrow> Some sel | Inl selErr \<Rightarrow> None)
      else None)"

definition selectorCheck :: "(labels \<Rightarrow> bool) option \<Rightarrow> Controller \<Rightarrow> bool" where
  "selectorCheck selector c =
     (case selector of None \<Rightarrow> True | Some sel \<Rightarrow> sel (TemplateLabels c))"

text \<open>The body of the loops over deployments, deployment-configs, stateful-sets and daemon-sets.\<close>

definition addController ::
  "string \<Rightarrow> (labels \<Rightarrow> bool) option \<Rightarrow> ControllerIndex \<Rightarrow> Controller \<Rightarrow> ControllerIndex" where
  "addController kind selector controllers c =
     (if map_of controllers (Name c) = None \<and> selectorCheck selector c
      then AList.update (Name c) kind controllers else controllers)"

text \<open>The body of the loops over replica-sets and replication-controllers.\<close>

definition addUnownedController ::
  "string \<Rightarrow> (labels \<Rightarrow> bool) option \<Rightarrow> ControllerIndex \<Rightarrow> Controller \<Rightarrow> ControllerIndex" where
  "addUnownedController kind selector controllers c =
     (if map_of controllers (Name c) = None \<and> length (OwnerReferences c) = 0 \<and>
         selectorCheck selector c
      then AList.update (Name c) kind controllers else controllers)"

definition addOrphans ::
  "(labels \<Rightarrow> bool) option \<Rightarrow> (Controller list) Fetched \<Rightarrow> ControllerIndex \<Rightarrow> ControllerIndex" where
  "addOrphans selector f controllers =
     (let c1 = foldl (addController ''Deployment'' selector) controllers (dep f);
          c2 = foldl (addUnownedController ''ReplicaSet'' selector) c1 (repset f);
          c3 = foldl (addController ''DeploymentConfig'' selector) c2 (depcon f);
          c4 = foldl (addUnownedController ''ReplicationController'' selector) c3 (repcon f);
          c5 = foldl (addController ''StatefulSet'' selector) c4 (fulset f)
      in foldl (addController ''DaemonSet'' selector) c5 (daeset f))"

section \<open>The workload materializer\<close>

text \<open>
  A branch of a known kind: the selector of the object's pod template filters the
  fetched pods, and the typed object populates the workload.
\<close>

definition selectorWorkload :: "Layer \<Rightarrow> string \<Rightarrow> Controller \<Rightarrow> Pod list \<Rightarrow> Workload" where
  "selectorWorkload layer kind c allPods =
     ParseController kind c
       (SetPods (FilterPodsForSelector layer (TemplateLabels c) allPods) emptyWorkload)"

definition podWorkload :: "Pod \<Rightarrow> Workload" where
  "podWorkload pod = ParsePod pod (SetPods [pod] emptyWorkload)"

text \<open>
  The default branch, for a kind that is none of the nine. The flag the source calls
  \<open>unknownType\<close> is true when the kind \<^emph>\<open>is\<close> a key of \<open>controllerOrder\<close>.
\<close>

definition customWorkload :: "'c Fetched \<Rightarrow> string \<Rightarrow> string \<Rightarrow> Workload" where
  "customWorkload f cname ctype =
     (let childType = (if \<not> snd (orderLookup ctype) then ReplicaSetType else ctype);
          cPods = FilterPodsForController cname childType (pods f);
          w = SetPods cPods emptyWorkload
      in case find (\<lambda>rs. prefix cname (Name rs)) (repset f) of
           Some rs \<Rightarrow> ParseReplicaSetParent rs cname ctype w
         | None \<Rightarrow> ParsePods cname ctype cPods w)"

text \<open>
  The \<open>switch ctype\<close> of \<open>fetchWorkloads\<close>, in the order of its cases. The result is
  \<open>None\<close> where the source sets \<open>cnFound = false\<close>.
\<close>

definition buildWorkload ::
  "Layer \<Rightarrow> (Controller list) Fetched \<Rightarrow> string \<Rightarrow> string \<Rightarrow> Workload option" where
  "buildWorkload layer f cname ctype =
     (if ctype = DeploymentType then
        map_option (\<lambda>dp. selectorWorkload layer DeploymentType dp (pods f))
          (find (\<lambda>dp. Name dp = cname) (dep f))
      else if ctype = ReplicaSetType then
        map_option (\<lambda>rs. selectorWorkload layer ReplicaSetType rs (pods f))
          (find (\<lambda>rs. Name rs = cname) (repset f))
      else if ctype = ReplicationControllerType then
        map_option (\<lambda>rc. selectorWorkload layer ReplicationControllerType rc (pods f))
          (find (\<lambda>rc. Name rc = cname) (repcon f))
      else if ctype = DeploymentConfigType then
        map_option (\<lambda>dc. selectorWorkload layer DeploymentConfigType dc (pods f))
          (find (\<lambda>dc. Name dc = cname) (depcon f))
      else if ctype = StatefulSetType then
        map_option (\<lambda>fs. selectorWorkload layer StatefulSetType fs (pods f))
          (find (\<lambda>fs. Name fs = cname) (fulset f))
      else if ctype = PodType then
        map_option podWorkload (find (\<lambda>pod. Name pod = cname) (pods f))
      else if ctype = JobType then
        map_option (\<lambda>jb. selectorWorkload layer JobType jb (pods f))
          (find (\<lambda>jb. Name jb = cname) (jbs f))
      else if ctype = CronJobType then
        map_option (\<lambda>cjb. selectorWorkload layer CronJobType cjb (pods f))
          (find (\<lambda>cjb. Name cjb = cname) (conjbs f))
      else if ctype = DaemonSetType then
        map_option (\<lambda>ds. selectorWorkload layer DaemonSetType ds (pods f))
          (find (\<lambda>ds. Name ds = cname) (daeset f))
      else Some (customWorkload f cname ctype))"

text \<open>
  The proxy status of every pod with a sidecar; a failed lookup is logged and leaves the
  status absent.
\<close>

definition attachProxyStatus :: "Layer \<Rightarrow> Workload \<Rightarrow> Workload" where
  "attachProxyStatus layer w =
     w\<lparr>Pods := map (\<lambda>pod. if HasIstioSidecar (SourcePod pod)
                          then pod\<lparr>ProxyStatus :=
                                 (case GetPodProxyStatus layer (Name (SourcePod pod)) of
                                    Inr ps \<Rightarrow> Some ps | Inl err \<Rightarrow> None)\<rparr>
                          else pod) (Pods w)\<rparr>"

text \<open>Build workloads from controllers: over the sorted names, keeping what was found.\<close>

definition buildWorkloads ::
  "Layer \<Rightarrow> (Controller list) Fetched \<Rightarrow> ControllerIndex \<Rightarrow> Workload list" where
  "buildWorkloads layer f controllers =
     List.map_filter
       (\<lambda>cname. case map_of controllers cname of
                   None \<Rightarrow> None
                 | Some ctype \<Rightarrow> map_option (attachProxyStatus layer) (buildWorkload layer f cname ctype))
       (sort (map fst controllers))"

section \<open>fetchWorkloads\<close>

text \<open>The index that the materializer receives.\<close>

definition resolvedControllers ::
  "Layer \<Rightarrow> (Controller list) Fetched \<Rightarrow> string \<Rightarrow> string list \<Rightarrow> ControllerIndex" where
  "resolvedControllers layer f labelSelector order =
     addOrphans (parseSelector layer labelSelector) f
       (resolveControllers f order (findControllers (pods f)))"

text \<open>
  \<open>fetchWorkloads\<close> returns a pair: the workload list and the error (\<open>None\<close> for nil).
  Besides the layer and the label selector, the model takes what Go leaves open: the
  schedule of the nine goroutines and the order of the resolution loop.
\<close>

definition fetchWorkloads ::
  "Layer \<Rightarrow> string \<Rightarrow> nat list \<Rightarrow> string list \<Rightarrow> Workload list \<times> error option" where
  "fetchWorkloads layer labelSelector sched order =
     (case GetNamespace layer of
        Some err \<Rightarrow> ([], Some err)
      | None \<Rightarrow>
          (case errChan (sentErrors layer labelSelector) sched of
             err # rest \<Rightarrow> ([], Some err)
           | [] \<Rightarrow>
               (let f = fetchAll layer labelSelector
                in (buildWorkloads layer f (resolvedControllers layer f labelSelector order),
                    None))))"

section \<open>fetchWorkload\<close>

text \<open>
  The goroutines of \<open>fetchWorkload\<close>. A non-empty \<open>workloadType\<close> skips the fetches of
  the other kinds; the replica-sets are also fetched for a kind that is not a key of
  \<open>controllerOrder\<close>. The getters of one object leave a nil pointer on an error, and
  only the deployment getter sends an error that is not Not-Found.
\<close>

definition forwardedObject :: "error + Controller \<Rightarrow> Controller option \<times> error option" where
  "forwardedObject r =
     (case r of
        Inr c \<Rightarrow> (Some c, None)
      | Inl err \<Rightarrow> if IsNotFound err then (None, None) else (None, Some err))"

definition droppedObject :: "error + Controller \<Rightarrow> Controller option \<times> error option" where
  "droppedObject r = (case r of Inr c \<Rightarrow> (Some c, None) | Inl err \<Rightarrow> (None, None))"

definition fetchPodsFor :: "Layer \<Rightarrow> Pod list \<times> error option" where
  "fetchPodsFor layer = forwarded (GetPods (source layer) '''')"

definition fetchDeploymentFor :: "Layer \<Rightarrow> string \<Rightarrow> string \<Rightarrow> Controller option \<times> error option" where
  "fetchDeploymentFor layer workloadName workloadType =
     (if workloadType \<noteq> '''' \<and> workloadType \<noteq> DeploymentType then (None, None)
      else forwardedObject (GetDeployment (source layer) workloadName))"

definition fetchReplicaSetsFor :: "Layer \<Rightarrow> string \<Rightarrow> Controller list \<times> error option" where
  "fetchReplicaSetsFor layer workloadType =
     (let knownWorkloadType = snd (orderLookup workloadType)
      in if workloadType \<noteq> '''' \<and> workloadType \<noteq> ReplicaSetType \<and> knownWorkloadType
         then skipped
         else forwarded (GetReplicaSets (source layer)))"

definition fetchReplicationControllersFor :: "Layer \<Rightarrow> string \<Rightarrow> Controller list \<times> error option" where
  "fetchReplicationControllersFor layer workloadType =
     (if workloadType \<noteq> '''' \<and> workloadType \<noteq> ReplicationControllerType then skipped
      else if isWorkloadIncluded layer ReplicationControllerType
           then forwarded (GetReplicationControllers (k8s layer)) else skipped)"

definition fetchDeploymentConfigFor ::
  "Layer \<Rightarrow> string \<Rightarrow> string \<Rightarrow> Controller option \<times> error option" where
  "fetchDeploymentConfigFor layer workloadName workloadType =
     (if workloadType \<noteq> '''' \<and> workloadType \<noteq> DeploymentConfigType then (None, None)
      else if IsOpenShift (k8s layer) \<and> isWorkloadIncluded layer DeploymentConfigType
           then droppedObject (GetDeploymentConfig (k8s layer) workloadName) else (None, None))"

definition fetchStatefulSetFor ::
  "Layer \<Rightarrow> string \<Rightarrow> string \<Rightarrow> Controller option \<times> error option" where
  "fetchStatefulSetFor layer workloadName workloadType =
     (if workloadType \<noteq> '''' \<and> workloadType \<noteq> StatefulSetType then (None, None)
      else if isWorkloadIncluded layer StatefulSetType
           then droppedObject (GetStatefulSet (source layer) workloadName) else (None, None))"

definition fetchCronJobsFor :: "Layer \<Rightarrow> string \<Rightarrow> Controller list \<times> error option" where
  "fetchCronJobsFor layer workloadType =
     (if workloadType \<noteq> '''' \<and> workloadType \<noteq> CronJobType then skipped
      else if isWorkloadIncluded layer CronJobType
           then forwarded (GetCronJobs (k8s layer)) else skipped)"

definition fetchJobsFor :: "Layer \<Rightarrow> string \<Rightarrow> Controller list \<times> error option" where
  "fetchJobsFor layer workloadType =
     (if workloadType \<noteq> '''' \<and> workloadType \<noteq> JobType then skipped
      else if isWorkloadIncluded layer JobType
           then forwarded (GetJobs (k8s layer)) else skipped)"

definition fetchDaemonSetFor ::
  "Layer \<Rightarrow> string \<Rightarrow> string \<Rightarrow> Controller option \<times> error option" where
  "fetchDaemonSetFor layer workloadName workloadType =
     (if workloadType \<noteq> '''' \<and> workloadType \<noteq> DaemonSetType then (None, None)
      else if isWorkloadIncluded layer DaemonSetType
           then droppedObject (GetDaemonSet (k8s layer) workloadName) else (None, None))"

definition fetchOne :: "Layer \<Rightarrow> string \<Rightarrow> string \<Rightarrow> (Controller option) Fetched" where
  "fetchOne layer workloadName workloadType =
     \<lparr>pods = fst (fetchPodsFor layer),
      repcon = fst (fetchReplicationControllersFor layer workloadType),
      dep = fst (fetchDeploymentFor layer workloadName workloadType),
      repset = fst (fetchReplicaSetsFor layer workloadType),
      depcon = fst (fetchDeploymentConfigFor layer workloadName workloadType),
      fulset = fst (fetchStatefulSetFor layer workloadName workloadType),
      jbs = fst (fetchJobsFor layer workloadType),
      conjbs = fst (fetchCronJobsFor layer workloadType),
      daeset = fst (fetchDaemonSetFor layer workloadName workloadType)\<rparr>"

definition sentErrorsFor :: "Layer \<Rightarrow> string \<Rightarrow> string \<Rightarrow> error option list" where
  "sentErrorsFor layer workloadName workloadType =
     [snd (fetchPodsFor layer),
      snd (fetchDeploymentFor layer workloadName workloadType),
      snd (fetchReplicaSetsFor layer workloadType),
      snd (fetchReplicationControllersFor layer workloadType),
      snd (fetchDeploymentConfigFor layer workloadName workloadType),
      snd (fetchStatefulSetFor layer workloadName workloadType),
      snd (fetchCronJobsFor layer workloadType),
      snd (fetchJobsFor layer workloadType),
      snd (fetchDaemonSetFor layer workloadName workloadType)]"

text \<open>Controllers without pods, in \<open>fetchWorkload\<close>: no selector, and pointers for four kinds.\<close>

definition addObject :: "string \<Rightarrow> ControllerIndex \<Rightarrow> Controller option \<Rightarrow> ControllerIndex" where
  "addObject kind controllers obj =
     (case obj of
        Some c \<Rightarrow> if map_of controllers (Name c) = None
                  then AList.update (Name c) kind controllers else controllers
      | None \<Rightarrow> controllers)"

definition addUnowned :: "string \<Rightarrow> ControllerIndex \<Rightarrow> Controller \<Rightarrow> ControllerIndex" where
  "addUnowned kind controllers c =
     (if map_of controllers (Name c) = None \<and> length (OwnerReferences c) = 0
      then AList.update (Name c) kind controllers else controllers)"

definition addOrphansFor :: "(Controller option) Fetched \<Rightarrow> ControllerIndex \<Rightarrow> ControllerIndex" where
  "addOrphansFor f controllers =
     (let c1 = addObject DeploymentType controllers (dep f);
          c2 = foldl (addUnowned ReplicaSetType) c1 (repset f);
          c3 = addObject DeploymentConfigType c2 (depcon f);
          c4 = foldl (addUnowned ReplicationControllerType) c3 (repcon f);
          c5 = addObject StatefulSetType c4 (fulset f)
      in addObject DaemonSetType c5 (daeset f))"

text \<open>
  The kind that selects the branch: the kind found in the index, unless a different
  \<open>workloadType\<close> was passed.
\<close>

definition controllerTypeFor :: "string \<Rightarrow> string \<Rightarrow> string" where
  "controllerTypeFor workloadType ctype =
     (if workloadType \<noteq> '''' \<and> ctype \<noteq> workloadType then workloadType else ctype)"

definition namedObject :: "string \<Rightarrow> Controller option \<Rightarrow> Controller option" where
  "namedObject workloadName obj =
     (case obj of Some c \<Rightarrow> if Name c = workloadName then Some c else None | None \<Rightarrow> None)"

text \<open>
  The \<open>switch controllerType\<close> of \<open>fetchWorkload\<close>; its default branch works with the
  kind found in the index.
\<close>

definition buildWorkloadFor ::
  "Layer \<Rightarrow> (Controller option) Fetched \<Rightarrow> string \<Rightarrow> string \<Rightarrow> string \<Rightarrow> Workload option" where
  "buildWorkloadFor layer f workloadName controllerType ctype =
     (if controllerType = DeploymentType then
        map_option (\<lambda>dp. selectorWorkload layer DeploymentType dp (pods f))
          (namedObject workloadName (dep f))
      else if controllerType = ReplicaSetType then
        map_option (\<lambda>rs. selectorWorkload layer ReplicaSetType rs (pods f))
          (find (\<lambda>rs. Name rs = workloadName) (repset f))
      else if controllerType = ReplicationControllerType then
        map_option (\<lambda>rc. selectorWorkload layer ReplicationControllerType rc (pods f))
          (find (\<lambda>rc. Name rc = workloadName) (repcon f))
      else if controllerType = DeploymentConfigType then
        map_option (\<lambda>dc. selectorWorkload layer DeploymentConfigType dc (pods f))
          (namedObject workloadName (depcon f))
      else if controllerType = StatefulSetType then
        map_option (\<lambda>fs. selectorWorkload layer StatefulSetType fs (pods f))
          (namedObject workloadName (fulset f))
      else if controllerType = PodType then
        map_option podWorkload (find (\<lambda>pod. Name pod = workloadName) (pods f))
      else if controllerType = JobType then
        map_option (\<lambda>jb. selectorWorkload layer JobType jb (pods f))
          (find (\<lambda>jb. Name jb = workloadName) (jbs f))
      else if controllerType = CronJobType then
        map_option (\<lambda>cjb. selectorWorkload layer CronJobType cjb (pods f))
          (find (\<lambda>cjb. Name cjb = workloadName) (conjbs f))
      else if controllerType = DaemonSetType then
        map_option (\<lambda>ds. selectorWorkload layer DaemonSetType ds (pods f))
          (namedObject workloadName (daeset f))
      else Some (customWorkload f workloadName ctype))"

definition resolvedControllersFor ::
  "(Controller option) Fetched \<Rightarrow> string list \<Rightarrow> ControllerIndex" where
  "resolvedControllersFor f order =
     addOrphansFor f (resolveControllers f order (findControllers (pods f)))"

text \<open>
  \<open>fetchWorkload\<close> returns a pair: the workload pointer and the error. It returns the
  empty workload \<open>wl\<close> with every error but that of the namespace check.
\<close>

definition fetchWorkload ::
  "Layer \<Rightarrow> string \<Rightarrow> string \<Rightarrow> nat list \<Rightarrow> string list \<Rightarrow> Workload option \<times> error option" where
  "fetchWorkload layer workloadName workloadType sched order =
     (case GetNamespace layer of
        Some err \<Rightarrow> (None, Some err)
      | None \<Rightarrow>
          (case errChan (sentErrorsFor layer workloadName workloadType) sched of
             err # rest \<Rightarrow> (Some emptyWorkload, Some err)
           | [] \<Rightarrow>
               (let f = fetchOne layer workloadName workloadType;
                    controllers = resolvedControllersFor f order;
                    notFound = (Some emptyWorkload,
                                Some (NewNotFound workloadName ''Kiali'' ''Workload''))
                in case map_of controllers workloadName of
                     Some ctype \<Rightarrow>
                       (case buildWorkloadFor layer f workloadName
                               (controllerTypeFor workloadType ctype) ctype of
                          Some w \<Rightarrow> (Some (attachProxyStatus layer w), None)
                        | None \<Rightarrow> notFound)
                   | None \<Rightarrow> notFound)))"

section \<open>Vocabulary of the properties\<close>

text \<open>
  The names that the controller references of a list of objects mention, and whether a
  name is mentioned by a fetched replica-set, replication-controller or job: the objects
  whose references the one-hop resolution reads.
\<close>

definition ownerNames :: "'a ObjectMeta_scheme list \<Rightarrow> string list" where
  "ownerNames objs = concat (map (\<lambda>c. map refName (filter isController (OwnerReferences c))) objs)"

definition namedAsOwner :: "'c Fetched \<Rightarrow> string \<Rightarrow> bool" where
  "namedAsOwner f n \<longleftrightarrow>
     n \<in> set (ownerNames (repset f)) \<or> n \<in> set (ownerNames (repcon f)) \<or>
     n \<in> set (ownerNames (jbs f))"

text \<open>
  Whether the one-hop resolution deletes the entry of a name when it reaches it with a
  kind: the object of that kind and name was fetched and has a controller reference (for
  a job: one that names a fetched cron-job).
\<close>

definition subsumed :: "'c Fetched \<Rightarrow> string \<Rightarrow> string \<Rightarrow> bool" where
  "subsumed f cname ctype \<longleftrightarrow>
     (ctype = ReplicaSetType \<and>
      (case find (\<lambda>rs. Name rs = cname) (repset f) of
         Some rs \<Rightarrow> \<exists>r \<in> set (OwnerReferences rs). isController r
       | None \<Rightarrow> False)) \<or>
     (ctype = ReplicationControllerType \<and>
      (case find (\<lambda>rc. Name rc = cname) (repcon f) of
         Some rc \<Rightarrow> \<exists>r \<in> set (OwnerReferences rc). isController r
       | None \<Rightarrow> False)) \<or>
     (ctype = JobType \<and>
      (case find (\<lambda>jb. Name jb = cname) (jbs f) of
         Some jb \<Rightarrow> \<exists>r \<in> set (OwnerReferences jb).
                      isController r \<and> (\<exists>cnj \<in> set (conjbs f). Name cnj = refName r)
       | None \<Rightarrow> False))"

text \<open>The names that the orphan completion can add to the index.\<close>

definition orphanNames :: "(Controller list) Fetched \<Rightarrow> string list" where
  "orphanNames f =
     map Name (dep f) @ map Name (filter (\<lambda>c. OwnerReferences c = []) (repset f)) @
     map Name (depcon f) @ map Name (filter (\<lambda>c. OwnerReferences c = []) (repcon f)) @
     map Name (fulset f) @ map Name (daeset f)"

text \<open>The names that the orphan completion of \<open>fetchWorkload\<close> can add to the index.\<close>

definition orphanNamesFor :: "(Controller option) Fetched \<Rightarrow> string list" where
  "orphanNamesFor f =
     map Name (case dep f of Some c \<Rightarrow> [c] | None \<Rightarrow> []) @
     map Name (filter (\<lambda>c. OwnerReferences c = []) (repset f)) @
     map Name (case depcon f of Some c \<Rightarrow> [c] | None \<Rightarrow> []) @
     map Name (filter (\<lambda>c. OwnerReferences c = []) (repcon f)) @
     map Name (case fulset f of Some c \<Rightarrow> [c] | None \<Rightarrow> []) @
     map Name (case daeset f of Some c \<Rightarrow> [c] | None \<Rightarrow> [])"


text \<open>
  Whether every controller reference that names \<open>n\<close>, among those of the fetched
  replica-sets, replication-controllers and jobs, gives it the kind \<open>kind\<close>.
\<close>

definition namedOnlyAs :: "'c Fetched \<Rightarrow> string \<Rightarrow> string \<Rightarrow> bool" where
  "namedOnlyAs f n kind \<longleftrightarrow>
     (\<forall>c \<in> set (repset f @ repcon f @ jbs f).
        \<forall>r \<in> set (OwnerReferences c). isController r \<and> refName r = n \<longrightarrow> refKind r = kind)"

section \<open>Example namespaces\<close>

text \<open>
  Small namespaces on which the properties below are instantiated. The label library is
  taken with the usual reading: a selector made from a label set matches the label sets
  that contain it, and every selector string fails to parse.
\<close>

definition controllerRef :: "string \<Rightarrow> string \<Rightarrow> OwnerReference" where
  "controllerRef kind name = \<lparr>refName = name, refKind = kind, refController = Some True\<rparr>"

definition plainRef :: "string \<Rightarrow> string \<Rightarrow> OwnerReference" where
  "plainRef kind name = \<lparr>refName = name, refKind = kind, refController = None\<rparr>"

definition examplePod :: "string \<Rightarrow> labels \<Rightarrow> OwnerReference list \<Rightarrow> Pod" where
  "examplePod name ls refs =
     \<lparr>Name = name, Labels = ls, OwnerReferences = refs, IstioContainers = []\<rparr>"

definition exampleController :: "string \<Rightarrow> labels \<Rightarrow> OwnerReference list \<Rightarrow> Controller" where
  "exampleController name ls refs =
     \<lparr>Name = name, Labels = [], OwnerReferences = refs, TemplateLabels = ls\<rparr>"

definition exampleClient ::
  "Pod list \<Rightarrow> Controller list \<Rightarrow> Controller list \<Rightarrow> Controller list \<Rightarrow> Controller list \<Rightarrow> Client" where
  "exampleClient ps deployments replicaSets jobs cronJobs =
     \<lparr>GetPods = (\<lambda>labelSelector. Inr ps),
      GetDeployments = Inr deployments,
      GetReplicaSets = Inr replicaSets,
      GetReplicationControllers = Inr [],
      GetDeploymentConfigs = Inr [],
      GetStatefulSets = Inr [],
      GetCronJobs = Inr cronJobs,
      GetJobs = Inr jobs,
      GetDaemonSets = Inr [],
      GetDeployment = (\<lambda>name. case find (\<lambda>d. Name d = name) deployments of
                                  Some d \<Rightarrow> Inr d
                                | None \<Rightarrow> Inl (NotFound name ''apps'' ''deployments'')),
      GetDeploymentConfig = (\<lambda>name. Inl (NotFound name ''apps'' ''deploymentconfigs'')),
      GetStatefulSet = (\<lambda>name. Inl (NotFound name ''apps'' ''statefulsets'')),
      GetDaemonSet = (\<lambda>name. Inl (NotFound name ''apps'' ''daemonsets'')),
      IsOpenShift = False\<rparr>"

definition exampleLayer :: "Client \<Rightarrow> Layer" where
  "exampleLayer client =
     \<lparr>k8s = client,
      kialiCache = client,
      IsNamespaceCached = False,
      GetNamespace = None,
      excludedWorkloads = None,
      GetPodProxyStatus = (\<lambda>podName. Inl (ApiError ''no proxy'')),
      labelsParse = (\<lambda>s. Inl (ApiError ''no selector'')),
      AsSelectorMatches = (\<lambda>selector ls. set selector \<subseteq> set ls)\<rparr>"

definition everyOrder :: "nat list" where
  "everyOrder = [0, 1, 2, 3, 4, 5, 6, 7, 8]"

text \<open>A pod whose only owner reference is not a controller reference.\<close>

definition looselyOwnedPod :: Pod where
  "looselyOwnedPod = examplePod ''kept-pod'' [] [plainRef ''ConfigMap'' ''settings'']"

definition looselyOwnedLayer :: Layer where
  "looselyOwnedLayer = exampleLayer (exampleClient [looselyOwnedPod] [] [] [] [])"

text \<open>A pod without owner references.\<close>

definition orphanPod :: Pod where
  "orphanPod = examplePod ''orphan-pod'' [(''app'', ''orphan'')] []"

definition orphanLayer :: Layer where
  "orphanLayer = exampleLayer (exampleClient [orphanPod] [] [] [] [])"

text \<open>
  A deployment \<open>app1\<close> that owns the replica-set \<open>app1-abc123\<close>, which owns two pods;
  and the same namespace after the deployment is gone.
\<close>

definition app1Pods :: "Pod list" where
  "app1Pods =
     [examplePod ''app1-abc123-x1'' [(''app'', ''app1'')] [controllerRef ''ReplicaSet'' ''app1-abc123''],
      examplePod ''app1-abc123-x2'' [(''app'', ''app1'')] [controllerRef ''ReplicaSet'' ''app1-abc123'']]"

definition app1ReplicaSet :: Controller where
  "app1ReplicaSet =
     exampleController ''app1-abc123'' [(''app'', ''app1'')] [controllerRef ''Deployment'' ''app1'']"

definition app1Deployment :: Controller where
  "app1Deployment = exampleController ''app1'' [(''app'', ''app1'')] []"

definition app1Layer :: Layer where
  "app1Layer = exampleLayer (exampleClient app1Pods [app1Deployment] [app1ReplicaSet] [] [])"

definition parentlessLayer :: Layer where
  "parentlessLayer = exampleLayer (exampleClient app1Pods [] [app1ReplicaSet] [] [])"

text \<open>
  A job \<open>backup-001\<close> of the cron-job \<open>backup\<close> with one pod; and the same namespace
  after the cron-job is deleted.
\<close>

definition backupPod :: Pod where
  "backupPod =
     examplePod ''backup-001-x'' [(''job'', ''backup-001'')] [controllerRef ''Job'' ''backup-001'']"

definition backupJob :: Controller where
  "backupJob =
     exampleController ''backup-001'' [(''job'', ''backup-001'')] [controllerRef ''CronJob'' ''backup'']"

definition backupCronJob :: Controller where
  "backupCronJob = exampleController ''backup'' [(''job'', ''backup-001'')] []"

definition backupLayer :: Layer where
  "backupLayer = exampleLayer (exampleClient [backupPod] [] [] [backupJob] [backupCronJob])"

definition staleJobLayer :: Layer where
  "staleJobLayer = exampleLayer (exampleClient [backupPod] [] [] [backupJob] [])"

text \<open>
  Fetched controllers for the orphan completion: a deployment that has an owner, a
  replica-set that has one (\<open>app1-abc123\<close>) and a replica-set that has none.
\<close>

definition managedDeployment :: Controller where
  "managedDeployment = exampleController ''managed'' [] [controllerRef ''Operator'' ''op'']"

definition bareReplicaSet :: Controller where
  "bareReplicaSet = exampleController ''bare'' [] []"

definition orphanFetched :: "(Controller list) Fetched" where
  "orphanFetched =
     \<lparr>pods = [], repcon = [], dep = [managedDeployment],
      repset = [app1ReplicaSet, bareReplicaSet], depcon = [], fulset = [], jbs = [],
      conjbs = [], daeset = []\<rparr>"

text \<open>A layer whose label library parses every selector string as \<open>app=app1\<close>.\<close>

definition selectingLayer :: Layer where
  "selectingLayer =
     (exampleLayer (exampleClient [] [] [] [] []))
       \<lparr>labelsParse := (\<lambda>s. Inr (\<lambda>ls. (''app'', ''app1'') \<in> set ls))\<rparr>"

definition selectedFetched :: "(Controller list) Fetched" where
  "selectedFetched =
     \<lparr>pods = [], repcon = [], dep = [app1Deployment, managedDeployment],
      repset = [], depcon = [], fulset = [], jbs = [], conjbs = [], daeset = []\<rparr>"

text \<open>
  The namespace of the pod without owner references, where one lister fails: that of the
  daemon-sets, and that of the jobs.
\<close>

definition daemonSetErrorLayer :: Layer where
  "daemonSetErrorLayer =
     exampleLayer ((exampleClient [orphanPod] [] [] [] [])
       \<lparr>GetDaemonSets := Inl (ApiError ''daemon-sets unavailable'')\<rparr>)"

definition jobErrorLayer :: Layer where
  "jobErrorLayer =
     exampleLayer ((exampleClient [orphanPod] [] [] [] [])
       \<lparr>GetJobs := Inl (ApiError ''jobs unavailable'')\<rparr>)"

text \<open>
  A deployment \<open>web\<close> beside a replica-set of the same name that owns a pod: the pod
  scan resolves the name \<open>web\<close> to a replica-set.
\<close>

definition webPod :: Pod where
  "webPod = examplePod ''web-x1'' [(''app'', ''web'')] [controllerRef ''ReplicaSet'' ''web'']"

definition webDeployment :: Controller where
  "webDeployment = exampleController ''web'' [(''app'', ''web'')] []"

definition webReplicaSet :: Controller where
  "webReplicaSet = exampleController ''web'' [(''app'', ''web'')] []"

definition webLayer :: Layer where
  "webLayer = exampleLayer (exampleClient [webPod] [webDeployment] [webReplicaSet] [] [])"

text \<open>
  A job \<open>foo\<close> of a deleted cron-job \<open>nightly\<close>, beside a deployment of the same
  name \<open>foo\<close> with its replica-set \<open>foo-abc\<close>; each controller has one pod.
\<close>

definition fooJobPod :: Pod where
  "fooJobPod = examplePod ''foo-job-x'' [(''job'', ''foo'')] [controllerRef ''Job'' ''foo'']"

definition fooPod :: Pod where
  "fooPod = examplePod ''foo-abc-x'' [(''app'', ''foo'')] [controllerRef ''ReplicaSet'' ''foo-abc'']"

definition fooJob :: Controller where
  "fooJob = exampleController ''foo'' [(''job'', ''foo'')] [controllerRef ''CronJob'' ''nightly'']"

definition fooReplicaSet :: Controller where
  "fooReplicaSet = exampleController ''foo-abc'' [(''app'', ''foo'')] [controllerRef ''Deployment'' ''foo'']"

definition fooDeployment :: Controller where
  "fooDeployment = exampleController ''foo'' [(''app'', ''foo'')] []"

definition fooLayer :: Layer where
  "fooLayer =
     exampleLayer (exampleClient [fooJobPod, fooPod] [fooDeployment] [fooReplicaSet] [fooJob] [])"



section \<open>Lemmas on the tie-break policy\<close>

lemmas kind_defs = DeploymentType_def DeploymentConfigType_def ReplicaSetType_def
  ReplicationControllerType_def StatefulSetType_def JobType_def CronJobType_def
  DaemonSetType_def PodType_def

lemma orderLookup_ranked:
  "snd (orderLookup k) \<Longrightarrow>
     k = ''Deployment'' \<or> k = ''DeploymentConfig'' \<or> k = ''ReplicaSet'' \<or>
     k = ''ReplicationController'' \<or> k = ''StatefulSet'' \<or> k = ''Job'' \<or>
     k = ''DaemonSet'' \<or> k = ''Pod''"
  unfolding orderLookup_def controllerOrder_def
  by (simp split: if_splits)

lemma orderLookup_unranked: "\<not> snd (orderLookup k) \<Longrightarrow> fst (orderLookup k) = 0"
  unfolding orderLookup_def by (simp split: option.splits)

lemma orderLookup_table:
  "orderLookup ''Deployment'' = (6, True)"
  "orderLookup ''DeploymentConfig'' = (5, True)"
  "orderLookup ''ReplicaSet'' = (4, True)"
  "orderLookup ''ReplicationController'' = (3, True)"
  "orderLookup ''StatefulSet'' = (2, True)"
  "orderLookup ''Job'' = (1, True)"
  "orderLookup ''DaemonSet'' = (0, True)"
  "orderLookup ''Pod'' = (- 1, True)"
  unfolding orderLookup_def controllerOrder_def by simp_all

lemma controllerPriority_eq:
  "controllerPriority a b = (if fst (orderLookup a) \<ge> fst (orderLookup b) then a else b)"
  unfolding controllerPriority_def by (simp add: case_prod_beta)

section \<open>Lemmas on the controller index\<close>

lemma orderLookup_le_6: "fst (orderLookup k) \<le> 6"
  unfolding orderLookup_def controllerOrder_def by simp

lemma orderLookup_6: "fst (orderLookup k) \<ge> 6 \<Longrightarrow> k = ''Deployment''"
  unfolding orderLookup_def controllerOrder_def by (simp split: if_splits)

lemma controllerPriority_Deployment_left [simp]:
  "controllerPriority ''Deployment'' k = ''Deployment''"
  using orderLookup_le_6 [of k] by (simp add: controllerPriority_eq orderLookup_table)

lemma controllerPriority_Deployment_right [simp]:
  "controllerPriority k ''Deployment'' = ''Deployment''"
  using orderLookup_6 [of k] by (auto simp: controllerPriority_eq orderLookup_table)

lemma recordOwner_other:
  "refName ref \<noteq> n \<Longrightarrow> map_of (recordOwner cs ref) n = map_of cs n"
  by (auto simp: recordOwner_def update_conv' split: option.splits)

lemma recordOwner_Deployment:
  "refKind ref = ''Deployment'' \<Longrightarrow> map_of (recordOwner cs ref) (refName ref) = Some ''Deployment''"
  by (simp add: recordOwner_def update_conv' split: option.splits)

lemma recordOwner_Deployment_sticky:
  "map_of cs n = Some ''Deployment'' \<Longrightarrow> map_of (recordOwner cs ref) n = Some ''Deployment''"
  by (auto simp: recordOwner_def update_conv' split: option.splits)

lemma recordOwner_distinct:
  "distinct (map fst cs) \<Longrightarrow> distinct (map fst (recordOwner cs ref))"
  by (simp add: recordOwner_def distinct_update split: option.splits)

lemma ownerNames_mem:
  "c \<in> set objs \<Longrightarrow> ref \<in> set (OwnerReferences c) \<Longrightarrow> isController ref \<Longrightarrow>
     refName ref \<in> set (ownerNames objs)"
  by (auto simp: ownerNames_def)

lemma find_mem: "find P xs = Some x \<Longrightarrow> x \<in> set xs \<and> P x"
  by (induction xs) (auto split: if_splits)

subsection \<open>Finding controllers from pods\<close>

lemma recordOwners_other:
  "\<forall>r \<in> set refs. isController r \<longrightarrow> refName r \<noteq> n \<Longrightarrow>
     map_of (foldl (\<lambda>cs ref. if isController ref then recordOwner cs ref else cs) cs refs) n
       = map_of cs n"
  by (induction refs arbitrary: cs) (simp_all add: recordOwner_other)

lemma recordOwners_distinct:
  "distinct (map fst cs) \<Longrightarrow>
     distinct (map fst (foldl (\<lambda>cs ref. if isController ref then recordOwner cs ref else cs) cs refs))"
  by (induction refs arbitrary: cs) (auto simp: recordOwner_distinct)

lemma podControllers_distinct:
  "distinct (map fst cs) \<Longrightarrow> distinct (map fst (podControllers cs pod))"
  by (simp add: podControllers_def recordOwners_distinct distinct_update)

lemma foldl_podControllers_distinct:
  "distinct (map fst cs) \<Longrightarrow> distinct (map fst (foldl podControllers cs ps))"
  by (induction ps arbitrary: cs) (auto simp: podControllers_distinct)

lemma findControllers_distinct: "distinct (map fst (findControllers ps))"
  by (simp add: findControllers_def foldl_podControllers_distinct)

lemma podControllers_unnamed:
  assumes "n \<notin> set (ownerNames [pod])"
  shows "map_of (podControllers cs pod) n =
           (case map_of cs n of
              Some k \<Rightarrow> Some k
            | None \<Rightarrow> if OwnerReferences pod = [] \<and> Name pod = n then Some ''Pod'' else None)"
proof (cases "OwnerReferences pod = []")
  case True
  then show ?thesis
    by (auto simp: podControllers_def update_conv' split: option.splits)
next
  case False
  from assms have "\<forall>r \<in> set (OwnerReferences pod). isController r \<longrightarrow> refName r \<noteq> n"
    by (auto simp: ownerNames_def)
  with False show ?thesis
    by (simp add: podControllers_def recordOwners_other split: option.splits)
qed

lemma foldl_podControllers_unnamed:
  "n \<notin> set (ownerNames ps) \<Longrightarrow>
     map_of (foldl podControllers cs ps) n =
       (case map_of cs n of
          Some k \<Rightarrow> Some k
        | None \<Rightarrow> if \<exists>p \<in> set ps. OwnerReferences p = [] \<and> Name p = n then Some ''Pod'' else None)"
proof (induction ps arbitrary: cs)
  case Nil
  then show ?case by (simp split: option.splits)
next
  case (Cons p ps)
  from Cons.prems have p: "n \<notin> set (ownerNames [p])" and ps: "n \<notin> set (ownerNames ps)"
    by (auto simp: ownerNames_def)
  show ?case
    using Cons.IH [OF ps, of "podControllers cs p"] podControllers_unnamed [OF p, of cs]
    by (auto split: option.splits if_splits)
qed

lemma findControllers_unnamed:
  "n \<notin> set (ownerNames ps) \<Longrightarrow>
     map_of (findControllers ps) n =
       (if \<exists>p \<in> set ps. OwnerReferences p = [] \<and> Name p = n then Some ''Pod'' else None)"
  by (simp add: findControllers_def foldl_podControllers_unnamed)

subsection \<open>The one-hop resolution\<close>

lemma resolveOwned_unnamed:
  "\<forall>r \<in> set refs. isController r \<longrightarrow> refName r \<noteq> n \<Longrightarrow>
     map_of (resolveOwned cname cs refs) n =
       (if n = cname \<and> (\<exists>r \<in> set refs. isController r) then None else map_of cs n)"
  unfolding resolveOwned_def
proof (induction refs arbitrary: cs)
  case Nil
  then show ?case by simp
next
  case (Cons r refs)
  then show ?case
    by (auto simp: recordOwner_other delete_conv')
qed


lemma resolveOwned_Deployment_sticky:
  "map_of cs d = Some ''Deployment'' \<Longrightarrow> d \<noteq> cname \<Longrightarrow>
     map_of (resolveOwned cname cs refs) d = Some ''Deployment''"
  unfolding resolveOwned_def
  by (induction refs arbitrary: cs) (simp_all add: recordOwner_Deployment_sticky)

lemma resolveOwned_parent:
  "ref \<in> set refs \<Longrightarrow> isController ref \<Longrightarrow> refKind ref = ''Deployment'' \<Longrightarrow>
   refName ref \<noteq> cname \<Longrightarrow>
     map_of (resolveOwned cname cs refs) (refName ref) = Some ''Deployment''"
proof (induction refs arbitrary: cs)
  case Nil
  then show ?case by simp
next
  case (Cons r refs)
  show ?case
  proof (cases "ref = r")
    case True
    with Cons.prems
    have "map_of (AList.delete cname (recordOwner cs r)) (refName ref) = Some ''Deployment''"
      by (simp add: recordOwner_Deployment)
    from resolveOwned_Deployment_sticky [OF this Cons.prems(4), of refs] True Cons.prems(2)
    show ?thesis by (simp add: resolveOwned_def)
  next
    case False
    with Cons.prems have "ref \<in> set refs" by simp
    from Cons.IH [OF this Cons.prems(2,3,4)]
    show ?thesis by (simp add: resolveOwned_def)
  qed
qed

lemma resolveOwned_distinct:
  "distinct (map fst cs) \<Longrightarrow> distinct (map fst (resolveOwned cname cs refs))"
  unfolding resolveOwned_def
  by (induction refs arbitrary: cs) (simp_all add: recordOwner_distinct distinct_delete)

lemma resolveJob_unnamed:
  "\<forall>r \<in> set refs. isController r \<longrightarrow> refName r \<noteq> n \<Longrightarrow>
     map_of (resolveJob cronJobs cname cs refs) n =
       (if n = cname \<and>
           (\<exists>r \<in> set refs. isController r \<and> (\<exists>cnj \<in> set cronJobs. Name cnj = refName r))
        then None else map_of cs n)"
  unfolding resolveJob_def
proof (induction refs arbitrary: cs)
  case Nil
  then show ?case by simp
next
  case (Cons r refs)
  then show ?case
    by (auto simp: recordOwner_other delete_conv' Let_def)
qed

lemma resolveJob_Deployment_sticky:
  "map_of cs d = Some ''Deployment'' \<Longrightarrow> d \<noteq> cname \<Longrightarrow>
     map_of (resolveJob cronJobs cname cs refs) d = Some ''Deployment''"
  unfolding resolveJob_def
  by (induction refs arbitrary: cs) (simp_all add: recordOwner_Deployment_sticky Let_def)

lemma resolveJob_distinct:
  "distinct (map fst cs) \<Longrightarrow> distinct (map fst (resolveJob cronJobs cname cs refs))"
  unfolding resolveJob_def
  by (induction refs arbitrary: cs) (simp_all add: recordOwner_distinct distinct_delete Let_def)


lemma unnamed_repset:
  "\<not> namedAsOwner f n \<Longrightarrow> find P (repset f) = Some c \<Longrightarrow>
     \<forall>r \<in> set (OwnerReferences c). isController r \<longrightarrow> refName r \<noteq> n"
  by (auto simp: namedAsOwner_def dest!: find_mem dest: ownerNames_mem)

lemma unnamed_repcon:
  "\<not> namedAsOwner f n \<Longrightarrow> find P (repcon f) = Some c \<Longrightarrow>
     \<forall>r \<in> set (OwnerReferences c). isController r \<longrightarrow> refName r \<noteq> n"
  by (auto simp: namedAsOwner_def dest!: find_mem dest: ownerNames_mem)

lemma unnamed_jbs:
  "\<not> namedAsOwner f n \<Longrightarrow> find P (jbs f) = Some c \<Longrightarrow>
     \<forall>r \<in> set (OwnerReferences c). isController r \<longrightarrow> refName r \<noteq> n"
  by (auto simp: namedAsOwner_def dest!: find_mem dest: ownerNames_mem)

text \<open>The entry step, kind by kind. The loops over no references change nothing.\<close>

lemma resolveEntry_ReplicaSet:
  "resolveEntry f cs cname ''ReplicaSet'' =
     (case find (\<lambda>rs. Name rs = cname) (repset f) of
        Some rs \<Rightarrow> resolveOwned cname cs (OwnerReferences rs)
      | None \<Rightarrow> cs)"
  by (simp add: resolveEntry_def kind_defs resolveOwned_def split: option.splits)

lemma resolveEntry_ReplicationController:
  "resolveEntry f cs cname ''ReplicationController'' =
     (case find (\<lambda>rc. Name rc = cname) (repcon f) of
        Some rc \<Rightarrow> resolveOwned cname cs (OwnerReferences rc)
      | None \<Rightarrow> cs)"
  by (simp add: resolveEntry_def kind_defs resolveOwned_def split: option.splits)

lemma resolveEntry_Job:
  "resolveEntry f cs cname ''Job'' =
     (case find (\<lambda>jb. Name jb = cname) (jbs f) of
        Some jb \<Rightarrow> resolveJob (conjbs f) cname cs (OwnerReferences jb)
      | None \<Rightarrow> cs)"
  by (simp add: resolveEntry_def kind_defs resolveJob_def split: option.splits)

lemma resolveEntry_other:
  "ctype \<noteq> ''ReplicaSet'' \<Longrightarrow> ctype \<noteq> ''ReplicationController'' \<Longrightarrow> ctype \<noteq> ''Job'' \<Longrightarrow>
     resolveEntry f cs cname ctype = cs"
  by (simp add: resolveEntry_def kind_defs)

lemma subsumed_ReplicaSet:
  "subsumed f cname ''ReplicaSet'' \<longleftrightarrow>
     (case find (\<lambda>rs. Name rs = cname) (repset f) of
        Some rs \<Rightarrow> \<exists>r \<in> set (OwnerReferences rs). isController r
      | None \<Rightarrow> False)"
  by (simp add: subsumed_def kind_defs)

lemma subsumed_ReplicationController:
  "subsumed f cname ''ReplicationController'' \<longleftrightarrow>
     (case find (\<lambda>rc. Name rc = cname) (repcon f) of
        Some rc \<Rightarrow> \<exists>r \<in> set (OwnerReferences rc). isController r
      | None \<Rightarrow> False)"
  by (simp add: subsumed_def kind_defs)

lemma subsumed_Job:
  "subsumed f cname ''Job'' \<longleftrightarrow>
     (case find (\<lambda>jb. Name jb = cname) (jbs f) of
        Some jb \<Rightarrow> \<exists>r \<in> set (OwnerReferences jb).
                     isController r \<and> (\<exists>cnj \<in> set (conjbs f). Name cnj = refName r)
      | None \<Rightarrow> False)"
  by (simp add: subsumed_def kind_defs)

lemma subsumed_other:
  "ctype \<noteq> ''ReplicaSet'' \<Longrightarrow> ctype \<noteq> ''ReplicationController'' \<Longrightarrow> ctype \<noteq> ''Job'' \<Longrightarrow>
     \<not> subsumed f cname ctype"
  by (simp add: subsumed_def kind_defs)

lemma resolveEntry_unnamed:
  assumes "\<not> namedAsOwner f n"
  shows "map_of (resolveEntry f cs cname ctype) n =
           (if n = cname \<and> subsumed f cname ctype then None else map_of cs n)"
proof -
  consider (rs) "ctype = ''ReplicaSet''" | (rc) "ctype = ''ReplicationController''"
    | (jb) "ctype = ''Job''"
    | (other) "ctype \<noteq> ''ReplicaSet''" "ctype \<noteq> ''ReplicationController''" "ctype \<noteq> ''Job''"
    by blast
  then show ?thesis
  proof cases
    case rs
    show ?thesis
    proof (cases "find (\<lambda>rs. Name rs = cname) (repset f)")
      case None
      with rs show ?thesis
        by (simp add: resolveEntry_ReplicaSet subsumed_ReplicaSet)
    next
      case (Some c)
      from resolveOwned_unnamed [OF unnamed_repset [OF assms Some], of cname cs] rs Some
      show ?thesis
        by (simp add: resolveEntry_ReplicaSet subsumed_ReplicaSet)
    qed
  next
    case rc
    show ?thesis
    proof (cases "find (\<lambda>rc. Name rc = cname) (repcon f)")
      case None
      with rc show ?thesis
        by (simp add: resolveEntry_ReplicationController subsumed_ReplicationController)
    next
      case (Some c)
      from resolveOwned_unnamed [OF unnamed_repcon [OF assms Some], of cname cs] rc Some
      show ?thesis
        by (simp add: resolveEntry_ReplicationController subsumed_ReplicationController)
    qed
  next
    case jb
    show ?thesis
    proof (cases "find (\<lambda>jb. Name jb = cname) (jbs f)")
      case None
      with jb show ?thesis
        by (simp add: resolveEntry_Job subsumed_Job)
    next
      case (Some c)
      from resolveJob_unnamed [OF unnamed_jbs [OF assms Some], of "conjbs f" cname cs] jb Some
      show ?thesis
        by (simp add: resolveEntry_Job subsumed_Job)
    qed
  next
    case other
    then show ?thesis
      by (simp add: resolveEntry_other subsumed_other)
  qed
qed

lemma resolveEntry_Deployment_sticky:
  assumes "map_of cs d = Some ''Deployment''" and "cname = d \<longrightarrow> ctype = ''Deployment''"
  shows "map_of (resolveEntry f cs cname ctype) d = Some ''Deployment''"
proof (cases "cname = d")
  case True
  with assms show ?thesis
    by (simp add: resolveEntry_other)
next
  case False
  then have ne: "d \<noteq> cname" by blast
  consider (rs) "ctype = ''ReplicaSet''" | (rc) "ctype = ''ReplicationController''"
    | (jb) "ctype = ''Job''"
    | (other) "ctype \<noteq> ''ReplicaSet''" "ctype \<noteq> ''ReplicationController''" "ctype \<noteq> ''Job''"
    by blast
  then show ?thesis
  proof cases
    case rs
    with assms(1) ne show ?thesis
      by (simp add: resolveEntry_ReplicaSet resolveOwned_Deployment_sticky split: option.splits)
  next
    case rc
    with assms(1) ne show ?thesis
      by (simp add: resolveEntry_ReplicationController resolveOwned_Deployment_sticky
            split: option.splits)
  next
    case jb
    with assms(1) ne show ?thesis
      by (simp add: resolveEntry_Job resolveJob_Deployment_sticky split: option.splits)
  next
    case other
    with assms(1) show ?thesis
      by (simp add: resolveEntry_other)
  qed
qed

lemma resolveEntry_distinct:
  assumes "distinct (map fst cs)"
  shows "distinct (map fst (resolveEntry f cs cname ctype))"
proof -
  consider (rs) "ctype = ''ReplicaSet''" | (rc) "ctype = ''ReplicationController''"
    | (jb) "ctype = ''Job''"
    | (other) "ctype \<noteq> ''ReplicaSet''" "ctype \<noteq> ''ReplicationController''" "ctype \<noteq> ''Job''"
    by blast
  then show ?thesis
  proof cases
    case rs
    with assms show ?thesis
      by (simp add: resolveEntry_ReplicaSet resolveOwned_distinct split: option.splits)
  next
    case rc
    with assms show ?thesis
      by (simp add: resolveEntry_ReplicationController resolveOwned_distinct split: option.splits)
  next
    case jb
    with assms show ?thesis
      by (simp add: resolveEntry_Job resolveJob_distinct split: option.splits)
  next
    case other
    with assms show ?thesis
      by (simp add: resolveEntry_other)
  qed
qed

lemma resolveControllers_Nil [simp]: "resolveControllers f [] cs = cs"
  by (simp add: resolveControllers_def)

lemma resolveControllers_Cons:
  "resolveControllers f (k # order) cs =
     resolveControllers f order
       (case map_of cs k of None \<Rightarrow> cs | Some ctype \<Rightarrow> resolveEntry f cs k ctype)"
  by (simp add: resolveControllers_def)

lemma resolveControllers_distinct:
  "distinct (map fst cs) \<Longrightarrow> distinct (map fst (resolveControllers f order cs))"
  by (induction order arbitrary: cs)
     (auto simp: resolveControllers_Cons resolveEntry_distinct split: option.splits)

lemma resolveControllers_Deployment_sticky:
  "map_of cs d = Some ''Deployment'' \<Longrightarrow>
     map_of (resolveControllers f order cs) d = Some ''Deployment''"
proof (induction order arbitrary: cs)
  case Nil
  then show ?case by simp
next
  case (Cons k order)
  show ?case
  proof (cases "map_of cs k")
    case None
    with Cons show ?thesis by (simp add: resolveControllers_Cons)
  next
    case (Some ctype)
    with Cons.prems have "k = d \<longrightarrow> ctype = ''Deployment''" by auto
    from resolveEntry_Deployment_sticky [OF Cons.prems this]
    have "map_of (resolveEntry f cs k ctype) d = Some ''Deployment''" .
    from Cons.IH [OF this] Some
    show ?thesis by (simp add: resolveControllers_Cons)
  qed
qed

text \<open>An entry that no reference names stays as it is unless the loop subsumes it.\<close>

lemma resolveControllers_kept:
  assumes "\<not> namedAsOwner f n"
    and "\<forall>ctype. map_of cs n = Some ctype \<longrightarrow> \<not> subsumed f n ctype"
  shows "map_of (resolveControllers f order cs) n = map_of cs n"
  using assms(2)
proof (induction order arbitrary: cs)
  case Nil
  then show ?case by simp
next
  case (Cons k order)
  let ?cs' = "case map_of cs k of None \<Rightarrow> cs | Some ctype \<Rightarrow> resolveEntry f cs k ctype"
  have same: "map_of ?cs' n = map_of cs n"
    using Cons.prems resolveEntry_unnamed [OF assms(1)]
    by (auto split: option.splits)
  with Cons.prems have "\<forall>ctype. map_of ?cs' n = Some ctype \<longrightarrow> \<not> subsumed f n ctype"
    by simp
  from Cons.IH [OF this] same show ?case
    by (simp add: resolveControllers_Cons)
qed

lemma resolveControllers_deleted:
  assumes "\<not> namedAsOwner f n"
  shows "map_of cs n = Some ctype \<Longrightarrow> subsumed f n ctype \<Longrightarrow> n \<in> set order \<Longrightarrow>
           map_of (resolveControllers f order cs) n = None"
proof (induction order arbitrary: cs)
  case Nil
  then show ?case by simp
next
  case (Cons k order)
  let ?cs' = "case map_of cs k of None \<Rightarrow> cs | Some ctype \<Rightarrow> resolveEntry f cs k ctype"
  show ?case
  proof (cases "k = n")
    case True
    with Cons.prems have "map_of ?cs' n = None"
      using resolveEntry_unnamed [OF assms, of cs n ctype] by simp
    then have "map_of (resolveControllers f order ?cs') n = map_of ?cs' n"
      by (intro resolveControllers_kept [OF assms]) simp
    with \<open>map_of ?cs' n = None\<close> show ?thesis
      by (simp add: resolveControllers_Cons)
  next
    case False
    have same: "map_of ?cs' n = map_of cs n"
      using False resolveEntry_unnamed [OF assms]
      by (auto split: option.splits)
    from False Cons.prems have "n \<in> set order" by simp
    from Cons.IH [OF _ Cons.prems(2) this, of ?cs'] same Cons.prems(1)
    show ?thesis by (simp add: resolveControllers_Cons)
  qed
qed

lemma resolveEntry_parent:
  assumes "find (\<lambda>rs. Name rs = cname) (repset f) = Some rs"
    and "ref \<in> set (OwnerReferences rs)" "isController ref" "refKind ref = ''Deployment''"
    and "refName ref \<noteq> cname"
  shows "map_of (resolveEntry f cs cname ''ReplicaSet'') (refName ref) = Some ''Deployment''"
proof -
  from assms(1) resolveOwned_parent [OF assms(2,3,4,5), of cs] show ?thesis
    by (simp add: resolveEntry_ReplicaSet)
qed

text \<open>
  A replica-set entry that the loop reaches as such leaves its deployment in the index.
\<close>

lemma resolveControllers_parent:
  assumes "\<not> namedAsOwner f n"
    and "find (\<lambda>rs. Name rs = n) (repset f) = Some rs"
    and "ref \<in> set (OwnerReferences rs)" "isController ref" "refKind ref = ''Deployment''"
    and "refName ref \<noteq> n"
  shows "map_of cs n = Some ''ReplicaSet'' \<Longrightarrow> n \<in> set order \<Longrightarrow>
           map_of (resolveControllers f order cs) (refName ref) = Some ''Deployment''"
proof (induction order arbitrary: cs)
  case Nil
  then show ?case by simp
next
  case (Cons k order)
  let ?cs' = "case map_of cs k of None \<Rightarrow> cs | Some ctype \<Rightarrow> resolveEntry f cs k ctype"
  show ?case
  proof (cases "k = n")
    case True
    with Cons.prems(1) have "map_of ?cs' (refName ref) = Some ''Deployment''"
      using resolveEntry_parent [OF assms(2-6), of cs] by simp
    from resolveControllers_Deployment_sticky [OF this] show ?thesis
      by (simp add: resolveControllers_Cons)
  next
    case False
    have "map_of ?cs' n = map_of cs n"
      using False resolveEntry_unnamed [OF assms(1)]
      by (auto split: option.splits)
    with Cons.prems(1) have rs: "map_of ?cs' n = Some ''ReplicaSet''" by simp
    from False Cons.prems have "n \<in> set order" by simp
    from Cons.IH [OF rs this] show ?thesis
      by (simp add: resolveControllers_Cons)
  qed
qed

subsection \<open>Orphan completion\<close>

lemma foldl_addController:
  "map_of (foldl (addController kind sel) cs objs) n =
     (case map_of cs n of
        Some k \<Rightarrow> Some k
      | None \<Rightarrow> if \<exists>c \<in> set objs. Name c = n \<and> selectorCheck sel c then Some kind else None)"
proof (induction objs arbitrary: cs)
  case Nil
  then show ?case by (simp split: option.splits)
next
  case (Cons c objs)
  show ?case
    unfolding foldl_Cons Cons.IH
    by (auto simp: addController_def update_conv' split: option.splits)
qed

lemma foldl_addUnownedController:
  "map_of (foldl (addUnownedController kind sel) cs objs) n =
     (case map_of cs n of
        Some k \<Rightarrow> Some k
      | None \<Rightarrow> if \<exists>c \<in> set objs. Name c = n \<and> OwnerReferences c = [] \<and> selectorCheck sel c
                then Some kind else None)"
proof (induction objs arbitrary: cs)
  case Nil
  then show ?case by (simp split: option.splits)
next
  case (Cons c objs)
  show ?case
    unfolding foldl_Cons Cons.IH
    by (auto simp: addUnownedController_def update_conv' split: option.splits)
qed

lemma foldl_addController_distinct:
  "distinct (map fst cs) \<Longrightarrow> distinct (map fst (foldl (addController kind sel) cs objs))"
  by (induction objs arbitrary: cs) (simp_all add: addController_def distinct_update)

lemma foldl_addUnownedController_distinct:
  "distinct (map fst cs) \<Longrightarrow> distinct (map fst (foldl (addUnownedController kind sel) cs objs))"
  by (induction objs arbitrary: cs) (simp_all add: addUnownedController_def distinct_update)

lemma addOrphans_distinct:
  "distinct (map fst cs) \<Longrightarrow> distinct (map fst (addOrphans sel f cs))"
  by (simp add: addOrphans_def Let_def foldl_addController_distinct
        foldl_addUnownedController_distinct)

lemma addOrphans_lookup:
  "map_of (addOrphans sel f cs) n =
     (case map_of cs n of
        Some k \<Rightarrow> Some k
      | None \<Rightarrow>
          if \<exists>c \<in> set (dep f). Name c = n \<and> selectorCheck sel c then Some ''Deployment''
          else if \<exists>c \<in> set (repset f). Name c = n \<and> OwnerReferences c = [] \<and> selectorCheck sel c
          then Some ''ReplicaSet''
          else if \<exists>c \<in> set (depcon f). Name c = n \<and> selectorCheck sel c
          then Some ''DeploymentConfig''
          else if \<exists>c \<in> set (repcon f). Name c = n \<and> OwnerReferences c = [] \<and> selectorCheck sel c
          then Some ''ReplicationController''
          else if \<exists>c \<in> set (fulset f). Name c = n \<and> selectorCheck sel c then Some ''StatefulSet''
          else if \<exists>c \<in> set (daeset f). Name c = n \<and> selectorCheck sel c then Some ''DaemonSet''
          else None)"
proof -
  define c1 where "c1 = foldl (addController ''Deployment'' sel) cs (dep f)"
  define c2 where "c2 = foldl (addUnownedController ''ReplicaSet'' sel) c1 (repset f)"
  define c3 where "c3 = foldl (addController ''DeploymentConfig'' sel) c2 (depcon f)"
  define c4 where "c4 = foldl (addUnownedController ''ReplicationController'' sel) c3 (repcon f)"
  define c5 where "c5 = foldl (addController ''StatefulSet'' sel) c4 (fulset f)"
  define c6 where "c6 = foldl (addController ''DaemonSet'' sel) c5 (daeset f)"
  define e1 where "e1 \<longleftrightarrow> (\<exists>c \<in> set (dep f). Name c = n \<and> selectorCheck sel c)"
  define e2 where
    "e2 \<longleftrightarrow> (\<exists>c \<in> set (repset f). Name c = n \<and> OwnerReferences c = [] \<and> selectorCheck sel c)"
  define e3 where "e3 \<longleftrightarrow> (\<exists>c \<in> set (depcon f). Name c = n \<and> selectorCheck sel c)"
  define e4 where
    "e4 \<longleftrightarrow> (\<exists>c \<in> set (repcon f). Name c = n \<and> OwnerReferences c = [] \<and> selectorCheck sel c)"
  define e5 where "e5 \<longleftrightarrow> (\<exists>c \<in> set (fulset f). Name c = n \<and> selectorCheck sel c)"
  define e6 where "e6 \<longleftrightarrow> (\<exists>c \<in> set (daeset f). Name c = n \<and> selectorCheck sel c)"
  have s1: "map_of c1 n = (case map_of cs n of Some k \<Rightarrow> Some k
              | None \<Rightarrow> if e1 then Some ''Deployment'' else None)"
    unfolding c1_def e1_def by (rule foldl_addController)
  have s2: "map_of c2 n = (case map_of c1 n of Some k \<Rightarrow> Some k
              | None \<Rightarrow> if e2 then Some ''ReplicaSet'' else None)"
    unfolding c2_def e2_def by (rule foldl_addUnownedController)
  have s3: "map_of c3 n = (case map_of c2 n of Some k \<Rightarrow> Some k
              | None \<Rightarrow> if e3 then Some ''DeploymentConfig'' else None)"
    unfolding c3_def e3_def by (rule foldl_addController)
  have s4: "map_of c4 n = (case map_of c3 n of Some k \<Rightarrow> Some k
              | None \<Rightarrow> if e4 then Some ''ReplicationController'' else None)"
    unfolding c4_def e4_def by (rule foldl_addUnownedController)
  have s5: "map_of c5 n = (case map_of c4 n of Some k \<Rightarrow> Some k
              | None \<Rightarrow> if e5 then Some ''StatefulSet'' else None)"
    unfolding c5_def e5_def by (rule foldl_addController)
  have s6: "map_of c6 n = (case map_of c5 n of Some k \<Rightarrow> Some k
              | None \<Rightarrow> if e6 then Some ''DaemonSet'' else None)"
    unfolding c6_def e6_def by (rule foldl_addController)
  have all: "map_of c6 n =
     (case map_of cs n of
        Some k \<Rightarrow> Some k
      | None \<Rightarrow>
          if e1 then Some ''Deployment'' else if e2 then Some ''ReplicaSet''
          else if e3 then Some ''DeploymentConfig'' else if e4 then Some ''ReplicationController''
          else if e5 then Some ''StatefulSet'' else if e6 then Some ''DaemonSet'' else None)"
    unfolding s6 s5 s4 s3 s2 s1 by (cases "map_of cs n") simp_all
  have "addOrphans sel f cs = c6"
    by (simp only: addOrphans_def Let_def c1_def c2_def c3_def c4_def c5_def c6_def)
  with all show ?thesis
    by (simp only: e1_def e2_def e3_def e4_def e5_def e6_def)
qed

lemma addOrphans_keeps:
  "map_of cs n = Some k \<Longrightarrow> map_of (addOrphans sel f cs) n = Some k"
  by (simp add: addOrphans_lookup)

subsection \<open>Building the workloads\<close>

lemma attachProxyStatus_simps [simp]:
  "WorkloadName (attachProxyStatus layer w) = WorkloadName w"
  "WorkloadType (attachProxyStatus layer w) = WorkloadType w"
  "WorkloadLabels (attachProxyStatus layer w) = WorkloadLabels w"
  "map SourcePod (Pods (attachProxyStatus layer w)) = map SourcePod (Pods w)"
  by (simp_all add: attachProxyStatus_def comp_def)

lemma selectorWorkload_simps [simp]:
  "WorkloadName (selectorWorkload layer kind c ps) = Name c"
  "WorkloadType (selectorWorkload layer kind c ps) = kind"
  "map SourcePod (Pods (selectorWorkload layer kind c ps)) =
     FilterPodsForSelector layer (TemplateLabels c) ps"
  by (simp_all add: selectorWorkload_def ParseController_def SetPods_def comp_def)

lemma podWorkload_simps [simp]:
  "WorkloadName (podWorkload pod) = Name pod"
  "WorkloadType (podWorkload pod) = PodType"
  "map SourcePod (Pods (podWorkload pod)) = [pod]"
  by (simp_all add: podWorkload_def ParsePod_def SetPods_def)

lemma customWorkload_simps [simp]:
  "WorkloadName (customWorkload f cname ctype) = cname"
  "WorkloadType (customWorkload f cname ctype) = ctype"
  "map SourcePod (Pods (customWorkload f cname ctype)) =
     FilterPodsForController cname
       (if \<not> snd (orderLookup ctype) then ReplicaSetType else ctype) (pods f)"
  by (simp_all add: customWorkload_def ParseReplicaSetParent_def ParsePods_def SetPods_def
        comp_def Let_def split: option.splits)

lemma buildWorkload_name:
  "buildWorkload layer f cname ctype = Some w \<Longrightarrow> WorkloadName w = cname"
  unfolding buildWorkload_def
  by (auto split: if_splits dest!: find_mem)

lemma buildWorkload_type:
  "buildWorkload layer f cname ctype = Some w \<Longrightarrow> WorkloadType w = ctype"
  unfolding buildWorkload_def
  by (auto split: if_splits)

lemma filter_eq_distinct:
  "distinct xs \<Longrightarrow> filter (\<lambda>k. k = n) xs = (if n \<in> set xs then [n] else [])"
  by (induction xs) auto

lemma filter_map_filter_named:
  assumes "\<And>k w. g k = Some w \<Longrightarrow> nm w = k"
  shows "filter (\<lambda>w. nm w = n) (List.map_filter g ks) = List.map_filter g (filter (\<lambda>k. k = n) ks)"
proof (induction ks)
  case Nil
  then show ?case by (simp add: List.map_filter_simps)
next
  case (Cons k ks)
  then show ?case
    using assms [of k] by (cases "g k") (auto simp: List.map_filter_simps)
qed

text \<open>The workloads of a name in the list that \<open>fetchWorkloads\<close> builds.\<close>

lemma buildWorkloads_named:
  assumes "distinct (map fst cs)"
  shows "filter (\<lambda>w. WorkloadName w = n) (buildWorkloads layer f cs) =
           (case map_of cs n of
              None \<Rightarrow> []
            | Some ctype \<Rightarrow>
                (case buildWorkload layer f n ctype of
                   None \<Rightarrow> []
                 | Some w \<Rightarrow> [attachProxyStatus layer w]))"
proof -
  let ?g = "\<lambda>cname. case map_of cs cname of
                     None \<Rightarrow> None
                   | Some ctype \<Rightarrow> map_option (attachProxyStatus layer) (buildWorkload layer f cname ctype)"
  have nm: "\<And>k w. ?g k = Some w \<Longrightarrow> WorkloadName w = k"
    by (auto split: option.splits dest: buildWorkload_name)
  have keys: "filter (\<lambda>k. k = n) (sort (map fst cs)) = (if map_of cs n = None then [] else [n])"
    using assms by (simp add: filter_eq_distinct map_of_eq_None_iff)
  have "filter (\<lambda>w. WorkloadName w = n) (List.map_filter ?g (sort (map fst cs))) =
          List.map_filter ?g (filter (\<lambda>k. k = n) (sort (map fst cs)))"
    by (rule filter_map_filter_named) (rule nm)
  also have "\<dots> = List.map_filter ?g (if map_of cs n = None then [] else [n])"
    by (simp only: keys)
  also have "\<dots> = (case map_of cs n of
              None \<Rightarrow> []
            | Some ctype \<Rightarrow>
                (case buildWorkload layer f n ctype of
                   None \<Rightarrow> []
                 | Some w \<Rightarrow> [attachProxyStatus layer w]))"
    by (simp add: List.map_filter_simps split: option.splits)
  finally show ?thesis
    by (simp only: buildWorkloads_def)
qed


subsection \<open>A parent that every reference names with one kind\<close>

lemma foldl_preserves:
  "(\<And>cs r. r \<in> set refs \<Longrightarrow> P cs \<Longrightarrow> P (g cs r)) \<Longrightarrow> P cs \<Longrightarrow> P (foldl g cs refs)"
  by (induction refs arbitrary: cs) simp_all

lemma recordOwner_only:
  assumes "refName r = n \<longrightarrow> refKind r = K"
  shows "map_of cs n \<in> {None, Some K} \<Longrightarrow> map_of (recordOwner cs r) n \<in> {None, Some K}"
    and "map_of cs n = Some K \<Longrightarrow> map_of (recordOwner cs r) n = Some K"
    and "refName r = n \<Longrightarrow> map_of cs n \<in> {None, Some K} \<Longrightarrow> map_of (recordOwner cs r) n = Some K"
  using assms by (auto simp: recordOwner_def update_conv' split: option.splits)

lemma resolveOwned_only:
  assumes "cname \<noteq> n"
    and "\<forall>r \<in> set refs. isController r \<and> refName r = n \<longrightarrow> refKind r = K"
  shows "map_of cs n \<in> {None, Some K} \<Longrightarrow> map_of (resolveOwned cname cs refs) n \<in> {None, Some K}"
    and "map_of cs n = Some K \<Longrightarrow> map_of (resolveOwned cname cs refs) n = Some K"
proof -
  let ?g = "\<lambda>cs ref. if isController ref then AList.delete cname (recordOwner cs ref) else cs"
  have kind: "refName r = n \<longrightarrow> refKind r = K" if "r \<in> set refs" "isController r" for r
    using assms(2) that by blast
  have 1: "map_of (?g cs r) n \<in> {None, Some K}"
    if "r \<in> set refs" "map_of cs n \<in> {None, Some K}" for cs r
  proof (cases "isController r")
    case True
    from recordOwner_only(1) [OF kind [OF that(1) True] that(2)] True assms(1) show ?thesis
      by (simp add: delete_conv')
  next
    case False
    with that show ?thesis by simp
  qed
  have 2: "map_of (?g cs r) n = Some K"
    if "r \<in> set refs" "map_of cs n = Some K" for cs r
  proof (cases "isController r")
    case True
    from recordOwner_only(2) [OF kind [OF that(1) True] that(2)] True assms(1) show ?thesis
      by (simp add: delete_conv')
  next
    case False
    with that show ?thesis by simp
  qed
  show "map_of (resolveOwned cname cs refs) n \<in> {None, Some K}" if "map_of cs n \<in> {None, Some K}"
    unfolding resolveOwned_def
    by (rule foldl_preserves [where P = "\<lambda>cs. map_of cs n \<in> {None, Some K}" and g = ?g,
          OF 1 that])
  show "map_of (resolveOwned cname cs refs) n = Some K" if "map_of cs n = Some K"
    unfolding resolveOwned_def
    by (rule foldl_preserves [where P = "\<lambda>cs. map_of cs n = Some K" and g = ?g, OF 2 that])
qed

lemma resolveJob_only:
  assumes "cname \<noteq> n"
    and "\<forall>r \<in> set refs. isController r \<and> refName r = n \<longrightarrow> refKind r = K"
  shows "map_of cs n \<in> {None, Some K} \<Longrightarrow>
           map_of (resolveJob cronJobs cname cs refs) n \<in> {None, Some K}"
    and "map_of cs n = Some K \<Longrightarrow> map_of (resolveJob cronJobs cname cs refs) n = Some K"
proof -
  let ?g = "\<lambda>cs ref.
              if isController ref
              then (let cs' = recordOwner cs ref;
                        cnExist = (\<exists>cnj \<in> set cronJobs. Name cnj = refName ref)
                    in if cnExist then AList.delete cname cs' else cs')
              else cs"
  have kind: "refName r = n \<longrightarrow> refKind r = K" if "r \<in> set refs" "isController r" for r
    using assms(2) that by blast
  have 1: "map_of (?g cs r) n \<in> {None, Some K}"
    if "r \<in> set refs" "map_of cs n \<in> {None, Some K}" for cs r
  proof (cases "isController r")
    case True
    from recordOwner_only(1) [OF kind [OF that(1) True] that(2)] True assms(1) show ?thesis
      by (simp add: delete_conv' Let_def)
  next
    case False
    with that show ?thesis by simp
  qed
  have 2: "map_of (?g cs r) n = Some K"
    if "r \<in> set refs" "map_of cs n = Some K" for cs r
  proof (cases "isController r")
    case True
    from recordOwner_only(2) [OF kind [OF that(1) True] that(2)] True assms(1) show ?thesis
      by (simp add: delete_conv' Let_def)
  next
    case False
    with that show ?thesis by simp
  qed
  show "map_of (resolveJob cronJobs cname cs refs) n \<in> {None, Some K}" if "map_of cs n \<in> {None, Some K}"
    unfolding resolveJob_def
    by (rule foldl_preserves [where P = "\<lambda>cs. map_of cs n \<in> {None, Some K}" and g = ?g,
          OF 1 that])
  show "map_of (resolveJob cronJobs cname cs refs) n = Some K" if "map_of cs n = Some K"
    unfolding resolveJob_def
    by (rule foldl_preserves [where P = "\<lambda>cs. map_of cs n = Some K" and g = ?g, OF 2 that])
qed

text \<open>The step of a job records the owner that a controller reference names.\<close>

lemma resolveJob_parent:
  assumes "cname \<noteq> refName ref"
  shows "ref \<in> set refs \<Longrightarrow> isController ref \<Longrightarrow>
     \<forall>r \<in> set refs. isController r \<and> refName r = refName ref \<longrightarrow> refKind r = K \<Longrightarrow>
     map_of cs (refName ref) \<in> {None, Some K} \<Longrightarrow>
       map_of (resolveJob cronJobs cname cs refs) (refName ref) = Some K"
proof (induction refs arbitrary: cs)
  case Nil
  then show ?case by simp
next
  case (Cons r refs)
  let ?cs = "if isController r
             then (if \<exists>cnj \<in> set cronJobs. Name cnj = refName r
                   then AList.delete cname (recordOwner cs r) else recordOwner cs r)
             else cs"
  have step: "resolveJob cronJobs cname cs (r # refs) = resolveJob cronJobs cname ?cs refs"
    by (simp add: resolveJob_def Let_def)
  from Cons.prems(3) have kind: "refName r = refName ref \<longrightarrow> isController r \<longrightarrow> refKind r = K"
    and rest: "\<forall>r \<in> set refs. isController r \<and> refName r = refName ref \<longrightarrow> refKind r = K"
    by simp_all
  show ?case
  proof (cases "ref = r")
    case True
    with Cons.prems(2) kind have "refName r = refName ref \<longrightarrow> refKind r = K"
      by simp
    from recordOwner_only(3) [OF this, of cs] True Cons.prems(4)
    have "map_of (recordOwner cs r) (refName ref) = Some K"
      by simp
    with True Cons.prems(2) assms have "map_of ?cs (refName ref) = Some K"
      by (simp add: delete_conv')
    from resolveJob_only(2) [OF assms rest this] show ?thesis
      by (simp only: step)
  next
    case False
    with Cons.prems(1) have mem: "ref \<in> set refs" by simp
    have "map_of ?cs (refName ref) \<in> {None, Some K}"
    proof (cases "isController r")
      case True
      with kind have "refName r = refName ref \<longrightarrow> refKind r = K" by simp
      from recordOwner_only(1) [OF this Cons.prems(4)] True assms show ?thesis
        by (simp add: delete_conv')
    next
      case False
      with Cons.prems(4) show ?thesis by simp
    qed
    from Cons.IH [OF mem Cons.prems(2) rest this] show ?thesis
      by (simp only: step)
  qed
qed

lemma namedOnlyAs_repset:
  "namedOnlyAs f n K \<Longrightarrow> find P (repset f) = Some c \<Longrightarrow>
     \<forall>r \<in> set (OwnerReferences c). isController r \<and> refName r = n \<longrightarrow> refKind r = K"
  by (auto simp: namedOnlyAs_def dest!: find_mem)

lemma namedOnlyAs_repcon:
  "namedOnlyAs f n K \<Longrightarrow> find P (repcon f) = Some c \<Longrightarrow>
     \<forall>r \<in> set (OwnerReferences c). isController r \<and> refName r = n \<longrightarrow> refKind r = K"
  by (auto simp: namedOnlyAs_def dest!: find_mem)

lemma namedOnlyAs_jbs:
  "namedOnlyAs f n K \<Longrightarrow> find P (jbs f) = Some c \<Longrightarrow>
     \<forall>r \<in> set (OwnerReferences c). isController r \<and> refName r = n \<longrightarrow> refKind r = K"
  by (auto simp: namedOnlyAs_def dest!: find_mem)

lemma resolveEntry_only:
  assumes "namedOnlyAs f n K" and "cname \<noteq> n"
  shows "map_of cs n \<in> {None, Some K} \<Longrightarrow> map_of (resolveEntry f cs cname ctype) n \<in> {None, Some K}"
    and "map_of cs n = Some K \<Longrightarrow> map_of (resolveEntry f cs cname ctype) n = Some K"
proof -
  consider (rs) "ctype = ''ReplicaSet''" | (rc) "ctype = ''ReplicationController''"
    | (jb) "ctype = ''Job''"
    | (other) "ctype \<noteq> ''ReplicaSet''" "ctype \<noteq> ''ReplicationController''" "ctype \<noteq> ''Job''"
    by blast
  note cases = this
  show "map_of (resolveEntry f cs cname ctype) n \<in> {None, Some K}"
    if cs: "map_of cs n \<in> {None, Some K}"
    using cases
  proof cases
    case rs
    show ?thesis
    proof (cases "find (\<lambda>rs. Name rs = cname) (repset f)")
      case None
      with rs cs show ?thesis by (simp add: resolveEntry_ReplicaSet)
    next
      case (Some c)
      from resolveOwned_only(1) [OF assms(2) namedOnlyAs_repset [OF assms(1) Some] cs] rs Some
      show ?thesis by (simp add: resolveEntry_ReplicaSet)
    qed
  next
    case rc
    show ?thesis
    proof (cases "find (\<lambda>rc. Name rc = cname) (repcon f)")
      case None
      with rc cs show ?thesis by (simp add: resolveEntry_ReplicationController)
    next
      case (Some c)
      from resolveOwned_only(1) [OF assms(2) namedOnlyAs_repcon [OF assms(1) Some] cs] rc Some
      show ?thesis by (simp add: resolveEntry_ReplicationController)
    qed
  next
    case jb
    show ?thesis
    proof (cases "find (\<lambda>jb. Name jb = cname) (jbs f)")
      case None
      with jb cs show ?thesis by (simp add: resolveEntry_Job)
    next
      case (Some c)
      from resolveJob_only(1) [OF assms(2) namedOnlyAs_jbs [OF assms(1) Some] cs] jb Some
      show ?thesis by (simp add: resolveEntry_Job)
    qed
  next
    case other
    with cs show ?thesis by (simp add: resolveEntry_other)
  qed
  show "map_of (resolveEntry f cs cname ctype) n = Some K"
    if cs: "map_of cs n = Some K"
    using cases
  proof cases
    case rs
    show ?thesis
    proof (cases "find (\<lambda>rs. Name rs = cname) (repset f)")
      case None
      with rs cs show ?thesis by (simp add: resolveEntry_ReplicaSet)
    next
      case (Some c)
      from resolveOwned_only(2) [OF assms(2) namedOnlyAs_repset [OF assms(1) Some] cs] rs Some
      show ?thesis by (simp add: resolveEntry_ReplicaSet)
    qed
  next
    case rc
    show ?thesis
    proof (cases "find (\<lambda>rc. Name rc = cname) (repcon f)")
      case None
      with rc cs show ?thesis by (simp add: resolveEntry_ReplicationController)
    next
      case (Some c)
      from resolveOwned_only(2) [OF assms(2) namedOnlyAs_repcon [OF assms(1) Some] cs] rc Some
      show ?thesis by (simp add: resolveEntry_ReplicationController)
    qed
  next
    case jb
    show ?thesis
    proof (cases "find (\<lambda>jb. Name jb = cname) (jbs f)")
      case None
      with jb cs show ?thesis by (simp add: resolveEntry_Job)
    next
      case (Some c)
      from resolveJob_only(2) [OF assms(2) namedOnlyAs_jbs [OF assms(1) Some] cs] jb Some
      show ?thesis by (simp add: resolveEntry_Job)
    qed
  next
    case other
    with cs show ?thesis by (simp add: resolveEntry_other)
  qed
qed

text \<open>
  The loop leaves such an entry alone when its kind is none of the three that the loop
  resolves.
\<close>

lemma resolveControllers_only:
  assumes "namedOnlyAs f n K"
    and "K \<noteq> ''ReplicaSet''" "K \<noteq> ''ReplicationController''" "K \<noteq> ''Job''"
  shows "map_of cs n \<in> {None, Some K} \<Longrightarrow>
           map_of (resolveControllers f order cs) n \<in> {None, Some K}"
    and "map_of cs n = Some K \<Longrightarrow> map_of (resolveControllers f order cs) n = Some K"
proof -
  have step: "map_of (case map_of cs k of None \<Rightarrow> cs | Some ctype \<Rightarrow> resolveEntry f cs k ctype) n
                \<in> {None, Some K}"
    if "map_of cs n \<in> {None, Some K}" for cs k
  proof (cases "map_of cs k")
    case None
    with that show ?thesis by simp
  next
    case (Some ctype)
    show ?thesis
    proof (cases "k = n")
      case True
      with Some that have "ctype = K" by auto
      with assms(2-4) Some that show ?thesis by (simp add: resolveEntry_other)
    next
      case False
      from resolveEntry_only(1) [OF assms(1) False that] Some show ?thesis by simp
    qed
  qed
  have step': "map_of (case map_of cs k of None \<Rightarrow> cs | Some ctype \<Rightarrow> resolveEntry f cs k ctype) n
                = Some K"
    if "map_of cs n = Some K" for cs k
  proof (cases "map_of cs k")
    case None
    with that show ?thesis by simp
  next
    case (Some ctype)
    show ?thesis
    proof (cases "k = n")
      case True
      with Some that have "ctype = K" by auto
      with assms(2-4) Some that show ?thesis by (simp add: resolveEntry_other)
    next
      case False
      from resolveEntry_only(2) [OF assms(1) False that] Some show ?thesis by simp
    qed
  qed
  show "map_of (resolveControllers f order cs) n \<in> {None, Some K}"
    if "map_of cs n \<in> {None, Some K}"
    unfolding resolveControllers_def
    by (rule foldl_preserves [where P = "\<lambda>cs. map_of cs n \<in> {None, Some K}", OF step that])
  show "map_of (resolveControllers f order cs) n = Some K"
    if "map_of cs n = Some K"
    unfolding resolveControllers_def
    by (rule foldl_preserves [where P = "\<lambda>cs. map_of cs n = Some K", OF step' that])
qed

text \<open>A job entry that the loop reaches as such leaves its owner in the index.\<close>

lemma resolveControllers_job_parent:
  assumes "\<not> namedAsOwner f n"
    and "find (\<lambda>jb. Name jb = n) (jbs f) = Some jb"
    and "ref \<in> set (OwnerReferences jb)" "isController ref"
    and "namedOnlyAs f (refName ref) K"
    and "K \<noteq> ''ReplicaSet''" "K \<noteq> ''ReplicationController''" "K \<noteq> ''Job''"
  shows "map_of cs n = Some ''Job'' \<Longrightarrow> n \<in> set order \<Longrightarrow>
         map_of cs (refName ref) \<in> {None, Some K} \<Longrightarrow>
           map_of (resolveControllers f order cs) (refName ref) = Some K"
proof (induction order arbitrary: cs)
  case Nil
  then show ?case by simp
next
  case (Cons k order)
  let ?cs' = "case map_of cs k of None \<Rightarrow> cs | Some ctype \<Rightarrow> resolveEntry f cs k ctype"
  from unnamed_jbs [OF assms(1,2)] assms(3,4) have ne: "n \<noteq> refName ref"
    by blast
  show ?case
  proof (cases "k = n")
    case True
    from resolveJob_parent [OF ne assms(3,4) namedOnlyAs_jbs [OF assms(5,2)] Cons.prems(3)]
    have "map_of (resolveJob (conjbs f) n cs (OwnerReferences jb)) (refName ref) = Some K" .
    with True Cons.prems(1) assms(2) have "map_of ?cs' (refName ref) = Some K"
      by (simp add: resolveEntry_Job)
    from resolveControllers_only(2) [OF assms(5-8) this] show ?thesis
      by (simp add: resolveControllers_Cons)
  next
    case False
    have "map_of ?cs' n = map_of cs n"
      using False resolveEntry_unnamed [OF assms(1)]
      by (auto split: option.splits)
    with Cons.prems(1) have jb: "map_of ?cs' n = Some ''Job''" by simp
    from False Cons.prems have mem: "n \<in> set order" by simp
    from resolveControllers_only(1) [OF assms(5-8) Cons.prems(3), of "[k]"]
    have "map_of ?cs' (refName ref) \<in> {None, Some K}"
      by (simp add: resolveControllers_Cons)
    from Cons.IH [OF jb mem this] show ?thesis
      by (simp add: resolveControllers_Cons)
  qed
qed

subsection \<open>The fetch phase and the whole function\<close>

lemma fetchWorkloads_ok:
  "GetNamespace layer = None \<Longrightarrow> errChan (sentErrors layer labelSelector) sched = [] \<Longrightarrow>
     fetchWorkloads layer labelSelector sched order =
       (buildWorkloads layer (fetchAll layer labelSelector)
          (resolvedControllers layer (fetchAll layer labelSelector) labelSelector order), None)"
  by (simp add: fetchWorkloads_def Let_def)

lemma resolvedControllers_distinct:
  "distinct (map fst (resolvedControllers layer f labelSelector order))"
  by (simp add: resolvedControllers_def addOrphans_distinct resolveControllers_distinct
        findControllers_distinct)

lemma fetchWorkloads_named:
  assumes "GetNamespace layer = None" and "errChan (sentErrors layer labelSelector) sched = []"
    and "f = fetchAll layer labelSelector"
  shows "filter (\<lambda>w. WorkloadName w = n) (fst (fetchWorkloads layer labelSelector sched order)) =
           (case map_of (resolvedControllers layer f labelSelector order) n of
              None \<Rightarrow> []
            | Some ctype \<Rightarrow>
                (case buildWorkload layer f n ctype of
                   None \<Rightarrow> []
                 | Some w \<Rightarrow> [attachProxyStatus layer w]))"
  using buildWorkloads_named [where cs = "resolvedControllers layer f labelSelector order"
      and n = n and layer = layer and f = f, OF resolvedControllers_distinct]
  by (simp add: fetchWorkloads_ok [OF assms(1,2)] assms(3))

text \<open>Evaluating the fetch phase of the example namespaces.\<close>

lemma exampleLayer_fetch:
  "GetNamespace (exampleLayer (exampleClient ps ds rss js cjs)) = None"
  "sentErrors (exampleLayer (exampleClient ps ds rss js cjs)) labelSelector =
     [None, None, None, None, None, None, None, None, None]"
  "fetchAll (exampleLayer (exampleClient ps ds rss js cjs)) labelSelector =
     \<lparr>pods = ps, repcon = [], dep = ds, repset = rss, depcon = [], fulset = [],
      jbs = js, conjbs = cjs, daeset = []\<rparr>"
  by (simp_all add: exampleLayer_def exampleClient_def sentErrors_def fetchAll_def
        fetchPods_def fetchDeployments_def fetchReplicaSets_def fetchReplicationControllers_def
        fetchDeploymentConfigs_def fetchStatefulSets_def fetchCronJobs_def fetchJobs_def
        fetchDaemonSets_def forwarded_def loggedOnly_def skipped_def source_def
        isWorkloadIncluded_def)

lemma errChan_empty: "set sent \<subseteq> {None} \<Longrightarrow> errChan sent sched = []"
proof -
  assume sent: "set sent \<subseteq> {None}"
  have "sent ! i = None" if "i < length sent" for i
    using nth_mem [OF that] sent by auto
  then show ?thesis
    by (auto simp: errChan_def)
qed

lemma errChan_nothing_sent [simp]:
  "errChan [None, None, None, None, None, None, None, None, None] sched = []"
  by (rule errChan_empty) simp

lemma exampleLayer_matches:
  "AsSelectorMatches (exampleLayer client) selector ls \<longleftrightarrow> set selector \<subseteq> set ls"
  by (simp add: exampleLayer_def)

lemma addOrphans_other:
  assumes "n \<notin> set (orphanNames f)"
  shows "map_of (addOrphans sel f cs) n = map_of cs n"
proof -
  from assms have
    "\<not> (\<exists>c \<in> set (dep f). Name c = n \<and> selectorCheck sel c)"
    "\<not> (\<exists>c \<in> set (repset f). Name c = n \<and> OwnerReferences c = [] \<and> selectorCheck sel c)"
    "\<not> (\<exists>c \<in> set (depcon f). Name c = n \<and> selectorCheck sel c)"
    "\<not> (\<exists>c \<in> set (repcon f). Name c = n \<and> OwnerReferences c = [] \<and> selectorCheck sel c)"
    "\<not> (\<exists>c \<in> set (fulset f). Name c = n \<and> selectorCheck sel c)"
    "\<not> (\<exists>c \<in> set (daeset f). Name c = n \<and> selectorCheck sel c)"
    by (auto simp: orphanNames_def)
  then show ?thesis
    unfolding addOrphans_lookup by (cases "map_of cs n") simp_all
qed

lemma covers_mem: "covers order cs \<Longrightarrow> map_of cs n = Some k \<Longrightarrow> n \<in> set order"
proof -
  assume c: "covers order cs" and m: "map_of cs n = Some k"
  from m have "(n, k) \<in> set cs" by (rule map_of_SomeD)
  then have "n \<in> set (map fst cs)" by force
  with c show ?thesis unfolding covers_def by blast
qed

subsection \<open>The single-workload function\<close>

lemma addObject_lookup:
  "map_of (addObject kind cs obj) n =
     (case map_of cs n of
        Some k \<Rightarrow> Some k
      | None \<Rightarrow> if \<exists>c. obj = Some c \<and> Name c = n then Some kind else None)"
  by (cases obj) (auto simp: addObject_def update_conv' split: option.splits)

lemma foldl_addUnowned:
  "map_of (foldl (addUnowned kind) cs objs) n =
     (case map_of cs n of
        Some k \<Rightarrow> Some k
      | None \<Rightarrow> if \<exists>c \<in> set objs. Name c = n \<and> OwnerReferences c = [] then Some kind else None)"
proof (induction objs arbitrary: cs)
  case Nil
  then show ?case by (simp split: option.splits)
next
  case (Cons c objs)
  show ?case
    unfolding foldl_Cons Cons.IH
    by (auto simp: addUnowned_def update_conv' split: option.splits)
qed

lemma addOrphansFor_other:
  assumes "n \<notin> set (orphanNamesFor f)"
  shows "map_of (addOrphansFor f cs) n = map_of cs n"
proof -
  from assms have
    "\<not> (\<exists>c. dep f = Some c \<and> Name c = n)"
    "\<not> (\<exists>c \<in> set (repset f). Name c = n \<and> OwnerReferences c = [])"
    "\<not> (\<exists>c. depcon f = Some c \<and> Name c = n)"
    "\<not> (\<exists>c \<in> set (repcon f). Name c = n \<and> OwnerReferences c = [])"
    "\<not> (\<exists>c. fulset f = Some c \<and> Name c = n)"
    "\<not> (\<exists>c. daeset f = Some c \<and> Name c = n)"
    by (auto simp: orphanNamesFor_def)
  then show ?thesis
    unfolding addOrphansFor_def Let_def addObject_lookup foldl_addUnowned
    by (cases "map_of cs n") simp_all
qed

lemma buildWorkloadFor_name:
  "buildWorkloadFor layer f workloadName controllerType ctype = Some w \<Longrightarrow>
     WorkloadName w = workloadName"
  unfolding buildWorkloadFor_def namedObject_def
  by (auto split: if_splits option.splits dest!: find_mem)

lemma fetchWorkload_ok:
  "GetNamespace layer = None \<Longrightarrow>
   errChan (sentErrorsFor layer workloadName workloadType) sched = [] \<Longrightarrow>
     fetchWorkload layer workloadName workloadType sched order =
       (case map_of (resolvedControllersFor (fetchOne layer workloadName workloadType) order)
               workloadName of
          Some ctype \<Rightarrow>
            (case buildWorkloadFor layer (fetchOne layer workloadName workloadType) workloadName
                    (controllerTypeFor workloadType ctype) ctype of
               Some w \<Rightarrow> (Some (attachProxyStatus layer w), None)
             | None \<Rightarrow> (Some emptyWorkload, Some (NewNotFound workloadName ''Kiali'' ''Workload'')))
        | None \<Rightarrow> (Some emptyWorkload, Some (NewNotFound workloadName ''Kiali'' ''Workload'')))"
  by (simp add: fetchWorkload_def Let_def)

lemma buildWorkloadFor_type:
  assumes "buildWorkloadFor layer f workloadName controllerType ctype = Some w"
    and "controllerType \<in> set [DeploymentType, ReplicaSetType, ReplicationControllerType,
           DeploymentConfigType, StatefulSetType, PodType, JobType, CronJobType, DaemonSetType]"
  shows "WorkloadType w = controllerType"
  using assms unfolding buildWorkloadFor_def
  by (auto split: if_splits)

text \<open>Evaluating the fetch phase of \<open>fetchWorkload\<close> on the example namespaces.\<close>

lemma exampleLayer_fetchOne:
  "GetNamespace (exampleLayer (exampleClient ps ds rss js cjs)) = None"
  "sentErrorsFor (exampleLayer (exampleClient ps ds rss js cjs)) workloadName workloadType =
     [None, None, None, None, None, None, None, None, None]"
  "fetchOne (exampleLayer (exampleClient ps ds rss js cjs)) workloadName [] =
     \<lparr>pods = ps, repcon = [], dep = find (\<lambda>d. Name d = workloadName) ds, repset = rss,
      depcon = None, fulset = None, jbs = js, conjbs = cjs, daeset = None\<rparr>"
  "fetchOne (exampleLayer (exampleClient ps ds rss js cjs)) workloadName ''Deployment'' =
     \<lparr>pods = ps, repcon = [], dep = find (\<lambda>d. Name d = workloadName) ds, repset = [],
      depcon = None, fulset = None, jbs = [], conjbs = [], daeset = None\<rparr>"
  by (simp_all add: exampleLayer_def exampleClient_def sentErrorsFor_def fetchOne_def
        fetchPodsFor_def fetchDeploymentFor_def fetchReplicaSetsFor_def
        fetchReplicationControllersFor_def fetchDeploymentConfigFor_def fetchStatefulSetFor_def
        fetchCronJobsFor_def fetchJobsFor_def fetchDaemonSetFor_def forwarded_def
        forwardedObject_def droppedObject_def skipped_def source_def isWorkloadIncluded_def
        kind_defs orderLookup_table split: option.splits)


text \<open>The branches of the \<open>switch controllerType\<close>, kind by kind.\<close>

lemma buildWorkloadFor_known:
  "buildWorkloadFor layer f n ''Deployment'' ctype =
     map_option (\<lambda>c. selectorWorkload layer ''Deployment'' c (pods f)) (namedObject n (dep f))"
  "buildWorkloadFor layer f n ''ReplicaSet'' ctype =
     map_option (\<lambda>c. selectorWorkload layer ''ReplicaSet'' c (pods f))
       (find (\<lambda>c. Name c = n) (repset f))"
  "buildWorkloadFor layer f n ''ReplicationController'' ctype =
     map_option (\<lambda>c. selectorWorkload layer ''ReplicationController'' c (pods f))
       (find (\<lambda>c. Name c = n) (repcon f))"
  "buildWorkloadFor layer f n ''DeploymentConfig'' ctype =
     map_option (\<lambda>c. selectorWorkload layer ''DeploymentConfig'' c (pods f))
       (namedObject n (depcon f))"
  "buildWorkloadFor layer f n ''StatefulSet'' ctype =
     map_option (\<lambda>c. selectorWorkload layer ''StatefulSet'' c (pods f)) (namedObject n (fulset f))"
  "buildWorkloadFor layer f n ''Pod'' ctype =
     map_option podWorkload (find (\<lambda>p. Name p = n) (pods f))"
  "buildWorkloadFor layer f n ''Job'' ctype =
     map_option (\<lambda>c. selectorWorkload layer ''Job'' c (pods f)) (find (\<lambda>c. Name c = n) (jbs f))"
  "buildWorkloadFor layer f n ''CronJob'' ctype =
     map_option (\<lambda>c. selectorWorkload layer ''CronJob'' c (pods f))
       (find (\<lambda>c. Name c = n) (conjbs f))"
  "buildWorkloadFor layer f n ''DaemonSet'' ctype =
     map_option (\<lambda>c. selectorWorkload layer ''DaemonSet'' c (pods f)) (namedObject n (daeset f))"
  by (simp_all add: buildWorkloadFor_def kind_defs)

lemma buildWorkloadFor_custom:
  "k \<notin> set [''Deployment'', ''ReplicaSet'', ''ReplicationController'', ''DeploymentConfig'',
             ''StatefulSet'', ''Pod'', ''Job'', ''CronJob'', ''DaemonSet''] \<Longrightarrow>
     buildWorkloadFor layer f n k ctype = Some (customWorkload f n ctype)"
  by (simp add: buildWorkloadFor_def kind_defs)

lemma namedObject_Some: "namedObject n obj = Some c \<Longrightarrow> obj = Some c \<and> Name c = n"
  by (auto simp: namedObject_def split: option.splits if_splits)

lemma selectorWorkload_labels [simp]:
  "WorkloadLabels (selectorWorkload layer kind c ps) = TemplateLabels c"
  by (simp add: selectorWorkload_def ParseController_def SetPods_def)

subsection \<open>The pods of a workload\<close>






section \<open>The tie-break policy: claims C4 and C5\<close>

text \<open>
  Claim C4, as the code has it. The rank table is Deployment=6, DeploymentConfig=5,
  ReplicaSet=4, ReplicationController=3, StatefulSet=2, Job=1, DaemonSet=0, Pod=-1, and
  of two ranked kinds the higher-ranked one is returned (the first on equal rank). A kind
  absent from the table is not ranked lowest: it is compared with the value 0 that the
  map read yields for it. Against a ranked kind \<open>r\<close> an unranked kind \<open>u\<close> therefore
  loses in both argument orders exactly when the rank of \<open>r\<close> is positive; it ties with
  DaemonSet (the first argument is returned) and it wins against Pod.
\<close>

theorem controllerPriority_rank_table:
  "orderLookup ''Deployment'' = (6, True) \<and>
   orderLookup ''DeploymentConfig'' = (5, True) \<and>
   orderLookup ''ReplicaSet'' = (4, True) \<and>
   orderLookup ''ReplicationController'' = (3, True) \<and>
   orderLookup ''StatefulSet'' = (2, True) \<and>
   orderLookup ''Job'' = (1, True) \<and>
   orderLookup ''DaemonSet'' = (0, True) \<and>
   orderLookup ''Pod'' = (- 1, True) \<and>
   (\<forall>a b. snd (orderLookup a) \<and> snd (orderLookup b) \<longrightarrow>
      controllerPriority a b = (if fst (orderLookup a) \<ge> fst (orderLookup b) then a else b)) \<and>
   (\<forall>u r. \<not> snd (orderLookup u) \<and> snd (orderLookup r) \<longrightarrow>
      controllerPriority u r = (if 0 < fst (orderLookup r) then r else u) \<and>
      controllerPriority r u = (if 0 \<le> fst (orderLookup r) then r else u))"
proof -
  have unranked: "controllerPriority u r = (if 0 < fst (orderLookup r) then r else u) \<and>
      controllerPriority r u = (if 0 \<le> fst (orderLookup r) then r else u)"
    if "\<not> snd (orderLookup u)" for u r
    using orderLookup_unranked [OF that] by (auto simp: controllerPriority_eq)
  show ?thesis
    using unranked by (simp add: orderLookup_table controllerPriority_eq)
qed

theorem controllerPriority_rank_table_witness:
  "\<not> snd (orderLookup ''Rollout'') \<and> snd (orderLookup ''Job'') \<and>
   controllerPriority ''Rollout'' ''Job'' = ''Job'' \<and>
   controllerPriority ''Job'' ''Rollout'' = ''Job'' \<and>
   snd (orderLookup ''Deployment'') \<and>
   controllerPriority ''Job'' ''Deployment'' = ''Deployment''"
proof -
  have u: "\<not> snd (orderLookup ''Rollout'')"
    unfolding orderLookup_def controllerOrder_def by simp
  have j: "snd (orderLookup ''Job'')" and d: "snd (orderLookup ''Deployment'')"
    by (simp_all add: orderLookup_table)
  from controllerPriority_rank_table
  have ranked: "\<And>a b. snd (orderLookup a) \<and> snd (orderLookup b) \<longrightarrow>
      controllerPriority a b = (if fst (orderLookup a) \<ge> fst (orderLookup b) then a else b)"
    and unranked: "\<And>u r. \<not> snd (orderLookup u) \<and> snd (orderLookup r) \<longrightarrow>
      controllerPriority u r = (if 0 < fst (orderLookup r) then r else u) \<and>
      controllerPriority r u = (if 0 \<le> fst (orderLookup r) then r else u)"
    by blast+
  from unranked [of "''Rollout''" "''Job''"] ranked [of "''Job''" "''Deployment''"] u j d
  show ?thesis by (simp add: orderLookup_table)
qed

text \<open>
  Counterexample to claim C4 as stated: \<open>Rollout\<close> is absent from the rank table and
  \<open>Pod\<close> is ranked, yet \<open>controllerPriority\<close> returns \<open>Rollout\<close>, not the ranked kind.
\<close>

theorem controllerPriority_unranked_beats_Pod:
  "\<not> snd (orderLookup ''Rollout'') \<and> snd (orderLookup ''Pod'') \<and>
   controllerPriority ''Rollout'' ''Pod'' \<noteq> ''Pod'' \<and>
   controllerPriority ''Pod'' ''Rollout'' \<noteq> ''Pod''"
  unfolding controllerPriority_def orderLookup_def controllerOrder_def by simp

text \<open>
  Claim C5, as the code has it. \<open>controllerPriority\<close> compares the two values it reads
  from \<open>controllerOrder\<close>: the rank of a ranked kind, and 0 for a kind that is absent from
  the table, which is the rank of DaemonSet. Both argument orders name the same winner
  exactly when the two kinds are the same or the two values differ: so for two ranked
  kinds, which never tie, and for an unranked kind against a ranked kind other than
  DaemonSet. When the two values are equal the first argument wins in each order: for an
  unranked kind against DaemonSet and for two unranked kinds. And
  \<open>controllerPriority("Deployment", "Pod")\<close> is \<open>"Deployment"\<close>.
\<close>

theorem controllerPriority_commutes_off_ties:
  "(controllerPriority a b = controllerPriority b a \<longleftrightarrow>
      a = b \<or> fst (orderLookup a) \<noteq> fst (orderLookup b)) \<and>
   (fst (orderLookup a) = fst (orderLookup b) \<longrightarrow>
      controllerPriority a b = a \<and> controllerPriority b a = b) \<and>
   (snd (orderLookup a) \<and> snd (orderLookup b) \<and> a \<noteq> b \<longrightarrow>
      fst (orderLookup a) \<noteq> fst (orderLookup b)) \<and>
   (\<not> snd (orderLookup a) \<longrightarrow> fst (orderLookup a) = fst (orderLookup ''DaemonSet'')) \<and>
   (\<not> snd (orderLookup a) \<and> snd (orderLookup b) \<and> b \<noteq> ''DaemonSet'' \<longrightarrow>
      fst (orderLookup a) \<noteq> fst (orderLookup b)) \<and>
   controllerPriority ''Deployment'' ''Pod'' = ''Deployment''"
proof (intro conjI impI)
  show "controllerPriority a b = controllerPriority b a \<longleftrightarrow>
      a = b \<or> fst (orderLookup a) \<noteq> fst (orderLookup b)"
    by (auto simp: controllerPriority_eq)
  show "controllerPriority ''Deployment'' ''Pod'' = ''Deployment''"
    by (simp add: controllerPriority_eq orderLookup_table)
  show "controllerPriority a b = a"  "controllerPriority b a = b"
    if "fst (orderLookup a) = fst (orderLookup b)"
    using that by (simp_all add: controllerPriority_eq)
  show "fst (orderLookup a) = fst (orderLookup ''DaemonSet'')" if "\<not> snd (orderLookup a)"
    using orderLookup_unranked [OF that] by (simp add: orderLookup_table)
  show "fst (orderLookup a) \<noteq> fst (orderLookup b)"
    if "snd (orderLookup a) \<and> snd (orderLookup b) \<and> a \<noteq> b"
  proof -
    from that have "snd (orderLookup a)" and "snd (orderLookup b)" and "a \<noteq> b"
      by simp_all
    from orderLookup_ranked [OF this(1)] orderLookup_ranked [OF this(2)] this(3)
    show ?thesis
      by (elim disjE) (simp_all add: orderLookup_table)
  qed
  show "fst (orderLookup a) \<noteq> fst (orderLookup b)"
    if "\<not> snd (orderLookup a) \<and> snd (orderLookup b) \<and> b \<noteq> ''DaemonSet''"
  proof -
    from that have 0: "fst (orderLookup a) = 0"
      by (simp add: orderLookup_unranked)
    from that have "snd (orderLookup b)" and "b \<noteq> ''DaemonSet''"
      by simp_all
    from orderLookup_ranked [OF this(1)] this(2) 0 show ?thesis
      by (elim disjE) (simp_all add: orderLookup_table)
  qed
qed

theorem controllerPriority_commutes_off_ties_witness:
  "fst (orderLookup ''Job'') \<noteq> fst (orderLookup ''ReplicaSet'') \<and>
   controllerPriority ''Job'' ''ReplicaSet'' = controllerPriority ''ReplicaSet'' ''Job'' \<and>
   \<not> snd (orderLookup ''CronJob'') \<and> snd (orderLookup ''Job'') \<and>
   controllerPriority ''CronJob'' ''Job'' = controllerPriority ''Job'' ''CronJob'' \<and>
   fst (orderLookup ''Rollout'') = fst (orderLookup ''DaemonSet'') \<and>
   controllerPriority ''Rollout'' ''DaemonSet'' = ''Rollout''"
proof -
  have ne: "fst (orderLookup ''Job'') \<noteq> fst (orderLookup ''ReplicaSet'')"
    by (simp add: orderLookup_table)
  have u: "\<not> snd (orderLookup ''CronJob'')" "\<not> snd (orderLookup ''Rollout'')"
    unfolding orderLookup_def controllerOrder_def by simp_all
  have j: "snd (orderLookup ''Job'')" "''Job'' \<noteq> ''DaemonSet''"
    by (simp_all add: orderLookup_table)
  from controllerPriority_commutes_off_ties [of "''Job''" "''ReplicaSet''"] ne
  have 1: "controllerPriority ''Job'' ''ReplicaSet'' = controllerPriority ''ReplicaSet'' ''Job''"
    by blast
  from controllerPriority_commutes_off_ties [of "''CronJob''" "''Job''"] u(1) j
  have 2: "controllerPriority ''CronJob'' ''Job'' = controllerPriority ''Job'' ''CronJob''"
    by blast
  from controllerPriority_commutes_off_ties [of "''Rollout''" "''DaemonSet''"] u(2)
  have eq: "fst (orderLookup ''Rollout'') = fst (orderLookup ''DaemonSet'')"
    by blast
  with controllerPriority_commutes_off_ties [of "''Rollout''" "''DaemonSet''"]
  have 3: "controllerPriority ''Rollout'' ''DaemonSet'' = ''Rollout''"
    by blast
  from ne 1 u(1) j(1) 2 eq 3 show ?thesis by blast
qed

text \<open>
  Counterexample to claim C5 as stated: \<open>CronJob\<close> has no rank and \<open>DaemonSet\<close> has rank
  0, so the two kinds do not tie in rank, yet the two argument orders name different
  winners: each returns its first argument.
\<close>

theorem controllerPriority_order_decides_unranked_and_DaemonSet:
  "map_of controllerOrder ''CronJob'' = None \<and>
   map_of controllerOrder ''DaemonSet'' = Some 0 \<and>
   controllerPriority ''CronJob'' ''DaemonSet'' = ''CronJob'' \<and>
   controllerPriority ''DaemonSet'' ''CronJob'' = ''DaemonSet'' \<and>
   controllerPriority ''CronJob'' ''DaemonSet'' \<noteq> controllerPriority ''DaemonSet'' ''CronJob''"
  unfolding controllerPriority_def orderLookup_def controllerOrder_def by simp

section \<open>Replica-sets and their deployments: claim C1\<close>

text \<open>
  Claim C1, as the code has it. Take a replica-set name that the pod scan recorded as a
  replica-set, whose fetched object has a controller reference to a deployment. The
  resolution does not look the deployment up, so the claim needs it among the fetched
  deployments. It also needs the name of the replica-set to be unambiguous: no fetched
  replica-set, replication-controller or job names it as its controller, and the orphan
  completion finds no controller of that name to add. Then, whatever the order of the
  resolution loop, the returned list holds no workload named after the replica-set and
  exactly one named after the deployment, of kind \<open>Deployment\<close>, with the pods that
  the deployment's template selects.
\<close>

theorem replica_set_yields_to_fetched_deployment:
  assumes "GetNamespace layer = None"
    and "errChan (sentErrors layer labelSelector) sched = []"
    and "f = fetchAll layer labelSelector"
    and "map_of (findControllers (pods f)) rsName = Some ''ReplicaSet''"
    and "find (\<lambda>rs. Name rs = rsName) (repset f) = Some rs"
    and "ref \<in> set (OwnerReferences rs)" and "isController ref"
    and "refKind ref = ''Deployment''"
    and "find (\<lambda>dp. Name dp = refName ref) (dep f) = Some dp"
    and "\<not> namedAsOwner f rsName"
    and "rsName \<notin> set (orphanNames f)"
    and "covers order (findControllers (pods f))"
  shows "filter (\<lambda>w. WorkloadName w = rsName)
           (fst (fetchWorkloads layer labelSelector sched order)) = [] \<and>
         (\<exists>w. filter (\<lambda>w. WorkloadName w = refName ref)
                 (fst (fetchWorkloads layer labelSelector sched order)) = [w] \<and>
              WorkloadType w = ''Deployment'' \<and>
              map SourcePod (Pods w) = FilterPodsForSelector layer (TemplateLabels dp) (pods f))"
proof -
  let ?scan = "findControllers (pods f)"
  let ?final = "resolvedControllers layer f labelSelector order"
  from find_mem [OF assms(9)] have "refName ref \<in> Name ` set (dep f)"
    by force
  then have "refName ref \<in> set (orphanNames f)"
    by (simp add: orphanNames_def)
  with assms(11) have ne: "refName ref \<noteq> rsName" by auto
  from assms(5,6,7) have sub: "subsumed f rsName ''ReplicaSet''"
    by (auto simp: subsumed_ReplicaSet)
  from covers_mem [OF assms(12,4)] have reached: "rsName \<in> set order" .
  from resolveControllers_deleted [OF assms(10,4) sub reached]
  have "map_of (resolveControllers f order ?scan) rsName = None" .
  then have gone: "map_of ?final rsName = None"
    by (simp add: resolvedControllers_def addOrphans_other [OF assms(11)])
  from resolveControllers_parent [OF assms(10,5,6,7,8) ne assms(4) reached]
  have "map_of (resolveControllers f order ?scan) (refName ref) = Some ''Deployment''" .
  then have parent: "map_of ?final (refName ref) = Some ''Deployment''"
    by (simp add: resolvedControllers_def addOrphans_keeps)
  from assms(9)
  have build: "buildWorkload layer f (refName ref) ''Deployment''
      = Some (selectorWorkload layer ''Deployment'' dp (pods f))"
    by (simp add: buildWorkload_def kind_defs)
  from fetchWorkloads_named [OF assms(1,2,3), of rsName order] gone
  have 1: "filter (\<lambda>w. WorkloadName w = rsName)
             (fst (fetchWorkloads layer labelSelector sched order)) = []"
    by simp
  from fetchWorkloads_named [OF assms(1,2,3), of "refName ref" order] parent build
  have 2: "filter (\<lambda>w. WorkloadName w = refName ref)
             (fst (fetchWorkloads layer labelSelector sched order))
           = [attachProxyStatus layer (selectorWorkload layer ''Deployment'' dp (pods f))]"
    by simp
  from 1 2 show ?thesis by simp
qed

theorem replica_set_yields_to_fetched_deployment_witness:
  "filter (\<lambda>w. WorkloadName w = ''app1-abc123'')
     (fst (fetchWorkloads app1Layer [] everyOrder [''app1-abc123''])) = [] \<and>
   (\<exists>w. filter (\<lambda>w. WorkloadName w = ''app1'')
           (fst (fetchWorkloads app1Layer [] everyOrder [''app1-abc123''])) = [w] \<and>
        WorkloadType w = ''Deployment'' \<and> map SourcePod (Pods w) = app1Pods)"
proof -
  let ?f = "fetchAll app1Layer []"
  let ?ref = "controllerRef ''Deployment'' ''app1''"
  have f: "?f = \<lparr>pods = app1Pods, repcon = [], dep = [app1Deployment], repset = [app1ReplicaSet],
                 depcon = [], fulset = [], jbs = [], conjbs = [], daeset = []\<rparr>"
    by (simp add: app1Layer_def exampleLayer_fetch)
  have scan: "findControllers app1Pods = [(''app1-abc123'', ''ReplicaSet'')]"
    by code_simp
  have rs: "Name app1ReplicaSet = ''app1-abc123''"
    "OwnerReferences app1ReplicaSet = [?ref]"
    by (simp_all add: app1ReplicaSet_def exampleController_def)
  have dp: "Name app1Deployment = ''app1''" "OwnerReferences app1Deployment = []"
    "TemplateLabels app1Deployment = [(''app'', ''app1'')]"
    by (simp_all add: app1Deployment_def exampleController_def)
  have 1: "GetNamespace app1Layer = None"
    by (simp add: app1Layer_def exampleLayer_fetch)
  have 2: "errChan (sentErrors app1Layer []) everyOrder = []"
    by (simp add: app1Layer_def exampleLayer_fetch)
  have 4: "map_of (findControllers (pods ?f)) ''app1-abc123'' = Some ''ReplicaSet''"
    by (simp add: f scan)
  have 5: "find (\<lambda>rs. Name rs = ''app1-abc123'') (repset ?f) = Some app1ReplicaSet"
    by (simp add: f rs)
  have 6: "?ref \<in> set (OwnerReferences app1ReplicaSet)"
    by (simp add: rs)
  have 7: "isController ?ref"
    by (simp add: isController_def controllerRef_def)
  have 8: "refKind ?ref = ''Deployment''"
    by (simp add: controllerRef_def)
  have n: "refName ?ref = ''app1''"
    by (simp add: controllerRef_def)
  have 9: "find (\<lambda>dp. Name dp = refName ?ref) (dep ?f) = Some app1Deployment"
    by (simp add: f n dp)
  have 10: "\<not> namedAsOwner ?f ''app1-abc123''"
    by (simp add: f namedAsOwner_def ownerNames_def rs 7 n)
  have 11: "''app1-abc123'' \<notin> set (orphanNames ?f)"
    by (simp add: f orphanNames_def rs dp)
  have 12: "covers [''app1-abc123''] (findControllers (pods ?f))"
    by (simp add: f scan covers_def)
  have sel: "FilterPodsForSelector app1Layer (TemplateLabels app1Deployment) (pods ?f) = app1Pods"
    unfolding f FilterPodsForSelector_def
    by (simp add: dp app1Layer_def exampleLayer_matches app1Pods_def examplePod_def)
  from replica_set_yields_to_fetched_deployment [OF 1 2 refl 4 5 6 7 8 9 10 11 12]
  show ?thesis by (simp only: n sel)
qed

text \<open>
  Counterexample to claim C1 as stated: the replica-set \<open>app1-abc123\<close> is recorded from
  the owner references of the pods, its fetched object has a controller reference to the
  deployment \<open>app1\<close>, and the returned list is empty: it holds no workload for the
  deployment, which is not among the fetched deployments.
\<close>

theorem replica_set_of_unfetched_deployment:
  "findControllers (pods (fetchAll parentlessLayer [])) = [(''app1-abc123'', ''ReplicaSet'')] \<and>
   repset (fetchAll parentlessLayer []) = [app1ReplicaSet] \<and>
   dep (fetchAll parentlessLayer []) = [] \<and>
   Name app1ReplicaSet = ''app1-abc123'' \<and>
   OwnerReferences app1ReplicaSet = [controllerRef ''Deployment'' ''app1''] \<and>
   isController (controllerRef ''Deployment'' ''app1'') \<and>
   fetchWorkloads parentlessLayer [] everyOrder [''app1-abc123''] = ([], None)"
proof -
  have f: "fetchAll parentlessLayer [] =
      \<lparr>pods = app1Pods, repcon = [], dep = [], repset = [app1ReplicaSet],
       depcon = [], fulset = [], jbs = [], conjbs = [], daeset = []\<rparr>"
    by (simp add: parentlessLayer_def exampleLayer_fetch)
  have scan: "findControllers app1Pods = [(''app1-abc123'', ''ReplicaSet'')]"
    by code_simp
  have rs: "Name app1ReplicaSet = ''app1-abc123''"
    "OwnerReferences app1ReplicaSet = [controllerRef ''Deployment'' ''app1'']"
    by (simp_all add: app1ReplicaSet_def exampleController_def)
  have c: "isController (controllerRef ''Deployment'' ''app1'')"
    by (simp add: isController_def controllerRef_def)
  have out: "fetchWorkloads parentlessLayer [] everyOrder [''app1-abc123''] = ([], None)"
    by code_simp
  show ?thesis
    by (simp add: f scan rs c out)
qed

section \<open>Pods without owner references: claim C3\<close>

text \<open>
  Claim C3, as the code has it. The pod scan records a pod under its own name only when
  the pod has no owner references at all. For such a pod, the first of its name among the
  fetched pods, whose name no fetched pod, replica-set, replication-controller or job
  mentions in a controller reference, the list that \<open>fetchWorkloads\<close> returns holds
  exactly one workload of that name; its kind is \<open>Pod\<close> and it contains exactly that pod.
\<close>

theorem unowned_pod_is_one_Pod_workload:
  assumes "GetNamespace layer = None"
    and "errChan (sentErrors layer labelSelector) sched = []"
    and "f = fetchAll layer labelSelector"
    and "find (\<lambda>q. Name q = Name pod) (pods f) = Some pod"
    and "OwnerReferences pod = []"
    and "Name pod \<notin> set (ownerNames (pods f))"
    and "\<not> namedAsOwner f (Name pod)"
  shows "\<exists>w. filter (\<lambda>w. WorkloadName w = Name pod)
               (fst (fetchWorkloads layer labelSelector sched order)) = [w] \<and>
             WorkloadType w = ''Pod'' \<and> map SourcePod (Pods w) = [pod]"
proof -
  from assms(4) have mem: "pod \<in> set (pods f)"
    by (auto dest: find_mem)
  with assms(5,6) have scan: "map_of (findControllers (pods f)) (Name pod) = Some ''Pod''"
    by (auto simp: findControllers_unnamed)
  have "\<not> subsumed f (Name pod) ''Pod''"
    by (simp add: subsumed_def kind_defs)
  with scan have "map_of (resolveControllers f order (findControllers (pods f))) (Name pod)
      = Some ''Pod''"
    using resolveControllers_kept [OF assms(7), of "findControllers (pods f)" order] by simp
  then have idx: "map_of (resolvedControllers layer f labelSelector order) (Name pod) = Some ''Pod''"
    by (simp add: resolvedControllers_def addOrphans_keeps)
  from assms(4) have build: "buildWorkload layer f (Name pod) ''Pod'' = Some (podWorkload pod)"
    by (simp add: buildWorkload_def kind_defs)
  from fetchWorkloads_named [OF assms(1,2,3), of "Name pod" order] idx build
  have "filter (\<lambda>w. WorkloadName w = Name pod)
          (fst (fetchWorkloads layer labelSelector sched order))
        = [attachProxyStatus layer (podWorkload pod)]"
    by simp
  then show ?thesis
    by (simp add: kind_defs)
qed

theorem unowned_pod_is_one_Pod_workload_witness:
  "\<exists>w. filter (\<lambda>w. WorkloadName w = ''orphan-pod'')
          (fst (fetchWorkloads orphanLayer [] everyOrder [''orphan-pod''])) = [w] \<and>
        WorkloadType w = ''Pod'' \<and> map SourcePod (Pods w) = [orphanPod]"
proof -
  let ?f = "fetchAll orphanLayer []"
  have f: "?f = \<lparr>pods = [orphanPod], repcon = [], dep = [], repset = [], depcon = [],
                 fulset = [], jbs = [], conjbs = [], daeset = []\<rparr>"
    by (simp add: orphanLayer_def exampleLayer_fetch)
  have 1: "GetNamespace orphanLayer = None"
    by (simp add: orphanLayer_def exampleLayer_fetch)
  have 2: "errChan (sentErrors orphanLayer []) everyOrder = []"
    by (simp add: orphanLayer_def exampleLayer_fetch)
  have 4: "find (\<lambda>q. Name q = Name orphanPod) (pods ?f) = Some orphanPod"
    by (simp add: f)
  have 5: "OwnerReferences orphanPod = []"
    by (simp add: orphanPod_def examplePod_def)
  have 6: "Name orphanPod \<notin> set (ownerNames (pods ?f))"
    by (simp add: f ownerNames_def 5)
  have 7: "\<not> namedAsOwner ?f (Name orphanPod)"
    by (simp add: f namedAsOwner_def ownerNames_def)
  have n: "Name orphanPod = ''orphan-pod''"
    by (simp add: orphanPod_def examplePod_def)
  from unowned_pod_is_one_Pod_workload [OF 1 2 refl 4 5 6 7, of "[''orphan-pod'']"]
  show ?thesis by (simp only: n)
qed

text \<open>
  Counterexample to claim C3 as stated: the pod has no controller owner reference (its one
  reference is not a controller reference), and no workload is named after it.
\<close>

theorem loosely_owned_pod_has_no_workload:
  "filter isController (OwnerReferences looselyOwnedPod) = [] \<and>
   fetchAll looselyOwnedLayer [] =
     \<lparr>pods = [looselyOwnedPod], repcon = [], dep = [], repset = [], depcon = [],
      fulset = [], jbs = [], conjbs = [], daeset = []\<rparr> \<and>
   fetchWorkloads looselyOwnedLayer [] everyOrder [] = ([], None)"
proof -
  have refs: "OwnerReferences looselyOwnedPod = [plainRef ''ConfigMap'' ''settings'']"
    by (simp add: looselyOwnedPod_def examplePod_def)
  have 1: "filter isController (OwnerReferences looselyOwnedPod) = []"
    by (simp add: refs isController_def plainRef_def)
  have f: "fetchAll looselyOwnedLayer [] =
     \<lparr>pods = [looselyOwnedPod], repcon = [], dep = [], repset = [], depcon = [],
      fulset = [], jbs = [], conjbs = [], daeset = []\<rparr>"
    by (simp add: looselyOwnedLayer_def exampleLayer_fetch)
  have scan: "findControllers [looselyOwnedPod] = []"
    by (simp add: findControllers_def podControllers_def refs isController_def plainRef_def)
  have "resolvedControllers looselyOwnedLayer (fetchAll looselyOwnedLayer []) [] [] = []"
    by (simp add: f resolvedControllers_def scan addOrphans_def)
  then have fw: "fetchWorkloads looselyOwnedLayer [] everyOrder [] = ([], None)"
    using f by (simp add: fetchWorkloads_def Let_def looselyOwnedLayer_def exampleLayer_fetch(1,2)
          buildWorkloads_def List.map_filter_simps)
  show ?thesis
    by (rule conjI [OF 1 conjI [OF f fw]])
qed

section \<open>Jobs and their cron-jobs: claim C2\<close>

text \<open>
  Claim C2, as the code has it. Take a job that the pod scan recorded as a job, whose
  fetched object has a controller reference to a cron-job, and whose name no fetched
  replica-set, replication-controller or job names as its controller. Whatever the order
  of the resolution loop:

  \<^item> if a cron-job of the referenced name was fetched, the resolution deletes the entry of
    the job from the index. When moreover the pod scan recorded nothing else than a
    cron-job under the referenced name, and every controller reference of a fetched
    replica-set, replication-controller or job that names it has the kind \<open>CronJob\<close>,
    the index holds the cron-job, and the returned list holds exactly one workload of
    that name, of kind \<open>CronJob\<close>, with the pods that the template of the cron-job
    selects;

  \<^item> if no controller reference of the job names a fetched cron-job (for a job with one
    controller reference: if no cron-job of the referenced name was fetched), the entry
    stays, and the returned list holds exactly one workload named after the job, of kind
    \<open>Job\<close>, with the pods that the job's template selects.
\<close>

theorem job_follows_fetched_cron_job:
  assumes "GetNamespace layer = None"
    and "errChan (sentErrors layer labelSelector) sched = []"
    and "f = fetchAll layer labelSelector"
    and "out = fst (fetchWorkloads layer labelSelector sched order)"
    and "scan = findControllers (pods f)"
    and "map_of scan jobName = Some ''Job''"
    and "find (\<lambda>jb. Name jb = jobName) (jbs f) = Some jb"
    and "ref \<in> set (OwnerReferences jb)" and "isController ref"
    and "refKind ref = ''CronJob''"
    and "\<not> namedAsOwner f jobName"
    and "covers order scan"
  shows "((\<exists>cnj \<in> set (conjbs f). Name cnj = refName ref) \<longrightarrow>
           map_of (resolveControllers f order scan) jobName = None \<and>
           (namedOnlyAs f (refName ref) ''CronJob'' \<and>
            map_of scan (refName ref) \<in> {None, Some ''CronJob''} \<longrightarrow>
              map_of (resolveControllers f order scan) (refName ref) = Some ''CronJob'' \<and>
              (\<exists>cnj w. find (\<lambda>c. Name c = refName ref) (conjbs f) = Some cnj \<and>
                 filter (\<lambda>w. WorkloadName w = refName ref) out = [w] \<and>
                 WorkloadType w = ''CronJob'' \<and>
                 map SourcePod (Pods w) =
                   FilterPodsForSelector layer (TemplateLabels cnj) (pods f)))) \<and>
         ((\<forall>r \<in> set (OwnerReferences jb).
             isController r \<longrightarrow> \<not> (\<exists>cnj \<in> set (conjbs f). Name cnj = refName r)) \<longrightarrow>
           map_of (resolveControllers f order scan) jobName = Some ''Job'' \<and>
           (\<exists>w. filter (\<lambda>w. WorkloadName w = jobName) out = [w] \<and>
                WorkloadType w = ''Job'' \<and>
                map SourcePod (Pods w) = FilterPodsForSelector layer (TemplateLabels jb) (pods f)))"
proof (intro conjI impI)
  assume present: "\<exists>cnj \<in> set (conjbs f). Name cnj = refName ref"
  with assms(7,8,9) have "subsumed f jobName ''Job''"
    by (auto simp: subsumed_Job)
  from resolveControllers_deleted [OF assms(11,6) this covers_mem [OF assms(12,6)]]
  show "map_of (resolveControllers f order scan) jobName = None" .
  assume only: "namedOnlyAs f (refName ref) ''CronJob'' \<and>
            map_of scan (refName ref) \<in> {None, Some ''CronJob''}"
  then have o1: "namedOnlyAs f (refName ref) ''CronJob''"
    and o2: "map_of scan (refName ref) \<in> {None, Some ''CronJob''}"
    by blast+
  from resolveControllers_job_parent
         [OF assms(11,7,8,9) o1 _ _ _ assms(6) covers_mem [OF assms(12,6)] o2]
  show parent: "map_of (resolveControllers f order scan) (refName ref) = Some ''CronJob''"
    by simp
  then have idx: "map_of (resolvedControllers layer f labelSelector order) (refName ref)
      = Some ''CronJob''"
    by (simp add: resolvedControllers_def addOrphans_keeps assms(5))
  from present obtain cnj where cnj: "find (\<lambda>c. Name c = refName ref) (conjbs f) = Some cnj"
    by (cases "find (\<lambda>c. Name c = refName ref) (conjbs f)") (auto simp: find_None_iff)
  then have build: "buildWorkload layer f (refName ref) ''CronJob''
      = Some (selectorWorkload layer ''CronJob'' cnj (pods f))"
    by (simp add: buildWorkload_def kind_defs)
  from fetchWorkloads_named [OF assms(1,2,3), of "refName ref" order] idx build
  have "filter (\<lambda>w. WorkloadName w = refName ref) out
        = [attachProxyStatus layer (selectorWorkload layer ''CronJob'' cnj (pods f))]"
    by (simp add: assms(4))
  with cnj
  show "\<exists>cnj w. find (\<lambda>c. Name c = refName ref) (conjbs f) = Some cnj \<and>
          filter (\<lambda>w. WorkloadName w = refName ref) out = [w] \<and>
          WorkloadType w = ''CronJob'' \<and>
          map SourcePod (Pods w) = FilterPodsForSelector layer (TemplateLabels cnj) (pods f)"
    by simp
next
  assume absent: "\<forall>r \<in> set (OwnerReferences jb).
             isController r \<longrightarrow> \<not> (\<exists>cnj \<in> set (conjbs f). Name cnj = refName r)"
  with assms(7) have "\<not> subsumed f jobName ''Job''"
    by (auto simp: subsumed_Job)
  with assms(6) have "\<forall>ctype. map_of scan jobName = Some ctype \<longrightarrow> \<not> subsumed f jobName ctype"
    by simp
  from resolveControllers_kept [OF assms(11) this, of order] assms(6)
  show kept: "map_of (resolveControllers f order scan) jobName = Some ''Job''"
    by simp
  then have idx: "map_of (resolvedControllers layer f labelSelector order) jobName = Some ''Job''"
    by (simp add: resolvedControllers_def addOrphans_keeps assms(5))
  from assms(7)
  have build: "buildWorkload layer f jobName ''Job'' = Some (selectorWorkload layer ''Job'' jb (pods f))"
    by (simp add: buildWorkload_def kind_defs)
  from fetchWorkloads_named [OF assms(1,2,3), of jobName order] idx build
  have "filter (\<lambda>w. WorkloadName w = jobName) out
        = [attachProxyStatus layer (selectorWorkload layer ''Job'' jb (pods f))]"
    by (simp add: assms(4))
  then show "\<exists>w. filter (\<lambda>w. WorkloadName w = jobName) out = [w] \<and>
                WorkloadType w = ''Job'' \<and>
                map SourcePod (Pods w) = FilterPodsForSelector layer (TemplateLabels jb) (pods f)"
    by simp
qed

lemma backup_facts:
  "Name backupJob = ''backup-001''"
  "OwnerReferences backupJob = [controllerRef ''CronJob'' ''backup'']"
  "TemplateLabels backupJob = [(''job'', ''backup-001'')]"
  "Name backupCronJob = ''backup''"
  "isController (controllerRef ''CronJob'' ''backup'')"
  "refKind (controllerRef ''CronJob'' ''backup'') = ''CronJob''"
  "refName (controllerRef ''CronJob'' ''backup'') = ''backup''"
  "TemplateLabels backupCronJob = [(''job'', ''backup-001'')]"
  "findControllers [backupPod] = [(''backup-001'', ''Job'')]"
  by (simp_all add: backupJob_def backupCronJob_def exampleController_def isController_def
        controllerRef_def findControllers_def podControllers_def backupPod_def examplePod_def
        recordOwner_def)

theorem job_follows_fetched_cron_job_witness:
  "map_of (resolveControllers (fetchAll backupLayer []) [''backup-001'']
            (findControllers (pods (fetchAll backupLayer [])))) ''backup-001'' = None \<and>
   map_of (resolveControllers (fetchAll backupLayer []) [''backup-001'']
            (findControllers (pods (fetchAll backupLayer [])))) ''backup'' = Some ''CronJob'' \<and>
   (\<exists>w. filter (\<lambda>w. WorkloadName w = ''backup'')
           (fst (fetchWorkloads backupLayer [] everyOrder [''backup-001''])) = [w] \<and>
        WorkloadType w = ''CronJob'' \<and> map SourcePod (Pods w) = [backupPod]) \<and>
   map_of (resolveControllers (fetchAll staleJobLayer []) [''backup-001'']
            (findControllers (pods (fetchAll staleJobLayer [])))) ''backup-001'' = Some ''Job'' \<and>
   (\<exists>w. filter (\<lambda>w. WorkloadName w = ''backup-001'')
           (fst (fetchWorkloads staleJobLayer [] everyOrder [''backup-001''])) = [w] \<and>
        WorkloadType w = ''Job'' \<and> map SourcePod (Pods w) = [backupPod])"
proof -
  let ?ref = "controllerRef ''CronJob'' ''backup''"
  let ?f = "fetchAll backupLayer []"
  let ?g = "fetchAll staleJobLayer []"
  have f: "?f = \<lparr>pods = [backupPod], repcon = [], dep = [], repset = [], depcon = [],
                 fulset = [], jbs = [backupJob], conjbs = [backupCronJob], daeset = []\<rparr>"
    by (simp add: backupLayer_def exampleLayer_fetch)
  have g: "?g = \<lparr>pods = [backupPod], repcon = [], dep = [], repset = [], depcon = [],
                 fulset = [], jbs = [backupJob], conjbs = [], daeset = []\<rparr>"
    by (simp add: staleJobLayer_def exampleLayer_fetch)
  have f1: "GetNamespace backupLayer = None"
    and f2: "errChan (sentErrors backupLayer []) everyOrder = []"
    by (simp_all add: backupLayer_def exampleLayer_fetch)
  have g1: "GetNamespace staleJobLayer = None"
    and g2: "errChan (sentErrors staleJobLayer []) everyOrder = []"
    by (simp_all add: staleJobLayer_def exampleLayer_fetch)
  have f4: "map_of (findControllers (pods ?f)) ''backup-001'' = Some ''Job''"
    and g4: "map_of (findControllers (pods ?g)) ''backup-001'' = Some ''Job''"
    by (simp_all add: f g backup_facts)
  have f5: "find (\<lambda>jb. Name jb = ''backup-001'') (jbs ?f) = Some backupJob"
    and g5: "find (\<lambda>jb. Name jb = ''backup-001'') (jbs ?g) = Some backupJob"
    by (simp_all add: f g backup_facts)
  have 6: "?ref \<in> set (OwnerReferences backupJob)"
    by (simp add: backup_facts)
  have f10: "\<not> namedAsOwner ?f ''backup-001''" and g10: "\<not> namedAsOwner ?g ''backup-001''"
    by (simp_all add: f g namedAsOwner_def ownerNames_def backup_facts)
  have f11: "covers [''backup-001''] (findControllers (pods ?f))"
    and g11: "covers [''backup-001''] (findControllers (pods ?g))"
    by (simp_all add: f g covers_def backup_facts)
  have present: "\<exists>cnj \<in> set (conjbs ?f). Name cnj = refName ?ref"
    by (simp add: f backup_facts)
  have only: "namedOnlyAs ?f (refName ?ref) ''CronJob'' \<and>
      map_of (findControllers (pods ?f)) (refName ?ref) \<in> {None, Some ''CronJob''}"
    by (simp add: f namedOnlyAs_def backup_facts)
  have cron: "find (\<lambda>c. Name c = refName ?ref) (conjbs ?f) = Some backupCronJob"
    by (simp add: f backup_facts)
  have absent: "\<forall>r \<in> set (OwnerReferences backupJob).
      isController r \<longrightarrow> \<not> (\<exists>cnj \<in> set (conjbs ?g). Name cnj = refName r)"
    by (simp add: g)
  have self: "FilterPodsForSelector backupLayer (TemplateLabels backupCronJob) (pods ?f) = [backupPod]"
    unfolding f FilterPodsForSelector_def
    by (simp add: backup_facts backupLayer_def exampleLayer_matches backupPod_def examplePod_def)
  have sel: "FilterPodsForSelector staleJobLayer (TemplateLabels backupJob) (pods ?g) = [backupPod]"
    unfolding g FilterPodsForSelector_def
    by (simp add: backup_facts staleJobLayer_def exampleLayer_matches backupPod_def examplePod_def)
  note run = job_follows_fetched_cron_job
         [OF f1 f2 refl refl refl f4 f5 6 backup_facts(5) backup_facts(6) f10 f11]
  from run present
  have a: "map_of (resolveControllers ?f [''backup-001''] (findControllers (pods ?f)))
             ''backup-001'' = None"
    by blast
  from run present only
  have b: "map_of (resolveControllers ?f [''backup-001''] (findControllers (pods ?f)))
             (refName ?ref) = Some ''CronJob''"
    by blast
  from run present only
  have "\<exists>cnj w. find (\<lambda>c. Name c = refName ?ref) (conjbs ?f) = Some cnj \<and>
          filter (\<lambda>w. WorkloadName w = refName ?ref)
            (fst (fetchWorkloads backupLayer [] everyOrder [''backup-001''])) = [w] \<and>
          WorkloadType w = ''CronJob'' \<and>
          map SourcePod (Pods w) = FilterPodsForSelector backupLayer (TemplateLabels cnj) (pods ?f)"
    by blast
  then have c: "\<exists>w. filter (\<lambda>w. WorkloadName w = ''backup'')
            (fst (fetchWorkloads backupLayer [] everyOrder [''backup-001''])) = [w] \<and>
          WorkloadType w = ''CronJob'' \<and> map SourcePod (Pods w) = [backupPod]"
    unfolding cron using self by (auto simp: backup_facts)
  from job_follows_fetched_cron_job
         [OF g1 g2 refl refl refl g4 g5 6 backup_facts(5) backup_facts(6) g10 g11] absent
  have d: "map_of (resolveControllers ?g [''backup-001''] (findControllers (pods ?g)))
             ''backup-001'' = Some ''Job'' \<and>
           (\<exists>w. filter (\<lambda>w. WorkloadName w = ''backup-001'')
                   (fst (fetchWorkloads staleJobLayer [] everyOrder [''backup-001''])) = [w] \<and>
                WorkloadType w = ''Job'' \<and>
                map SourcePod (Pods w) =
                  FilterPodsForSelector staleJobLayer (TemplateLabels backupJob) (pods ?g))"
    by blast
  from a b [unfolded backup_facts(7)] c d [unfolded sel] show ?thesis
    by blast
qed

text \<open>
  Counterexample to claim C2 as stated: the job \<open>foo\<close> is in the index as a job, its
  one controller reference is to the cron-job \<open>nightly\<close>, no cron-job was fetched, and
  the returned list holds no workload of kind \<open>Job\<close>. The replica-set \<open>foo-abc\<close>
  names the deployment \<open>foo\<close> as its controller, and the entry of the name \<open>foo\<close>
  becomes that of the deployment, in either order of the loop.
\<close>

theorem job_named_like_a_deployment:
  "findControllers (pods (fetchAll fooLayer [])) = [(''foo'', ''Job''), (''foo-abc'', ''ReplicaSet'')] \<and>
   jbs (fetchAll fooLayer []) = [fooJob] \<and>
   conjbs (fetchAll fooLayer []) = [] \<and>
   Name fooJob = ''foo'' \<and>
   OwnerReferences fooJob = [controllerRef ''CronJob'' ''nightly''] \<and>
   isController (controllerRef ''CronJob'' ''nightly'') \<and>
   map (\<lambda>w. (WorkloadName w, WorkloadType w))
     (fst (fetchWorkloads fooLayer [] everyOrder [''foo'', ''foo-abc''])) = [(''foo'', ''Deployment'')] \<and>
   map (\<lambda>w. (WorkloadName w, WorkloadType w))
     (fst (fetchWorkloads fooLayer [] everyOrder [''foo-abc'', ''foo''])) = [(''foo'', ''Deployment'')]"
proof -
  have f: "fetchAll fooLayer [] =
      \<lparr>pods = [fooJobPod, fooPod], repcon = [], dep = [fooDeployment], repset = [fooReplicaSet],
       depcon = [], fulset = [], jbs = [fooJob], conjbs = [], daeset = []\<rparr>"
    by (simp add: fooLayer_def exampleLayer_fetch)
  have scan: "findControllers [fooJobPod, fooPod] = [(''foo'', ''Job''), (''foo-abc'', ''ReplicaSet'')]"
    by code_simp
  have jb: "Name fooJob = ''foo''" "OwnerReferences fooJob = [controllerRef ''CronJob'' ''nightly'']"
    by (simp_all add: fooJob_def exampleController_def)
  have c: "isController (controllerRef ''CronJob'' ''nightly'')"
    by (simp add: isController_def controllerRef_def)
  have out1: "map (\<lambda>w. (WorkloadName w, WorkloadType w))
     (fst (fetchWorkloads fooLayer [] everyOrder [''foo'', ''foo-abc''])) = [(''foo'', ''Deployment'')]"
    by code_simp
  have out2: "map (\<lambda>w. (WorkloadName w, WorkloadType w))
     (fst (fetchWorkloads fooLayer [] everyOrder [''foo-abc'', ''foo''])) = [(''foo'', ''Deployment'')]"
    by code_simp
  show ?thesis
    by (simp add: f scan jb c out1 out2)
qed

section \<open>Orphan completion: claim C7\<close>

text \<open>
  Claim C7. For a name that is not yet a key of the index, the orphan completion adds a
  kind as follows, the first case that applies: \<open>Deployment\<close> if a fetched deployment
  of that name passes the selector check; \<open>ReplicaSet\<close> if a fetched replica-set of
  that name has zero owner references and passes the check; then \<open>DeploymentConfig\<close>,
  \<open>ReplicationController\<close> (zero owner references required), \<open>StatefulSet\<close> and
  \<open>DaemonSet\<close> likewise; and nothing otherwise. So a replica-set or
  replication-controller is added only with zero owner references, and the other four
  kinds whatever their owner references are. The selector check passes when no selector
  was supplied or the selector string does not parse, and else tests the labels of the
  pod template.
\<close>

theorem orphan_completion_adds:
  assumes "map_of controllers n = None"
    and "selector = parseSelector layer labelSelector"
  shows "map_of (addOrphans selector f controllers) n =
           (if \<exists>c \<in> set (dep f). Name c = n \<and> selectorCheck selector c
            then Some ''Deployment''
            else if \<exists>c \<in> set (repset f). Name c = n \<and> length (OwnerReferences c) = 0 \<and>
                      selectorCheck selector c
            then Some ''ReplicaSet''
            else if \<exists>c \<in> set (depcon f). Name c = n \<and> selectorCheck selector c
            then Some ''DeploymentConfig''
            else if \<exists>c \<in> set (repcon f). Name c = n \<and> length (OwnerReferences c) = 0 \<and>
                      selectorCheck selector c
            then Some ''ReplicationController''
            else if \<exists>c \<in> set (fulset f). Name c = n \<and> selectorCheck selector c
            then Some ''StatefulSet''
            else if \<exists>c \<in> set (daeset f). Name c = n \<and> selectorCheck selector c
            then Some ''DaemonSet''
            else None) \<and>
         (\<forall>c. selectorCheck selector c \<longleftrightarrow>
            labelSelector = '''' \<or>
            (case labelsParse layer labelSelector of
               Inl selErr \<Rightarrow> True
             | Inr sel \<Rightarrow> sel (TemplateLabels c)))"
proof
  show "map_of (addOrphans selector f controllers) n =
           (if \<exists>c \<in> set (dep f). Name c = n \<and> selectorCheck selector c
            then Some ''Deployment''
            else if \<exists>c \<in> set (repset f). Name c = n \<and> length (OwnerReferences c) = 0 \<and>
                      selectorCheck selector c
            then Some ''ReplicaSet''
            else if \<exists>c \<in> set (depcon f). Name c = n \<and> selectorCheck selector c
            then Some ''DeploymentConfig''
            else if \<exists>c \<in> set (repcon f). Name c = n \<and> length (OwnerReferences c) = 0 \<and>
                      selectorCheck selector c
            then Some ''ReplicationController''
            else if \<exists>c \<in> set (fulset f). Name c = n \<and> selectorCheck selector c
            then Some ''StatefulSet''
            else if \<exists>c \<in> set (daeset f). Name c = n \<and> selectorCheck selector c
            then Some ''DaemonSet''
            else None)"
    using addOrphans_lookup [of selector f controllers n]
    by (simp only: assms(1) option.case length_0_conv)
  show "\<forall>c. selectorCheck selector c \<longleftrightarrow>
            labelSelector = '''' \<or>
            (case labelsParse layer labelSelector of
               Inl selErr \<Rightarrow> True
             | Inr sel \<Rightarrow> sel (TemplateLabels c))"
    by (simp add: assms(2) selectorCheck_def parseSelector_def split: sum.splits)
qed

theorem orphan_completion_adds_witness:
  "map_of (addOrphans (parseSelector orphanLayer []) orphanFetched []) ''managed''
     = Some ''Deployment'' \<and>
   OwnerReferences managedDeployment \<noteq> [] \<and>
   map_of (addOrphans (parseSelector orphanLayer []) orphanFetched []) ''app1-abc123'' = None \<and>
   map_of (addOrphans (parseSelector orphanLayer []) orphanFetched []) ''bare''
     = Some ''ReplicaSet'' \<and>
   map_of (addOrphans (parseSelector selectingLayer ''app=app1'') selectedFetched []) ''app1''
     = Some ''Deployment'' \<and>
   map_of (addOrphans (parseSelector selectingLayer ''app=app1'') selectedFetched []) ''managed''
     = None"
proof -
  let ?sel = "parseSelector orphanLayer []"
  have e: "map_of ([] :: ControllerIndex) n = None" for n by simp
  have c: "selectorCheck ?sel c" for c
    by (simp add: parseSelector_def selectorCheck_def)
  have names: "Name managedDeployment = ''managed''" "Name app1ReplicaSet = ''app1-abc123''"
    "Name bareReplicaSet = ''bare''"
    by (simp_all add: managedDeployment_def app1ReplicaSet_def bareReplicaSet_def
          exampleController_def)
  have refs: "OwnerReferences managedDeployment \<noteq> []" "OwnerReferences app1ReplicaSet \<noteq> []"
    "OwnerReferences bareReplicaSet = []"
    by (simp_all add: managedDeployment_def app1ReplicaSet_def bareReplicaSet_def
          exampleController_def)
  have lists: "dep orphanFetched = [managedDeployment]"
    "repset orphanFetched = [app1ReplicaSet, bareReplicaSet]"
    "depcon orphanFetched = []" "repcon orphanFetched = []" "fulset orphanFetched = []"
    "daeset orphanFetched = []"
    by (simp_all add: orphanFetched_def)
  from orphan_completion_adds [OF e refl, where n = "''managed''" and layer = orphanLayer
      and labelSelector = "[]" and f = orphanFetched]
  have 1: "map_of (addOrphans ?sel orphanFetched []) ''managed'' = Some ''Deployment''"
    by (simp add: lists names c)
  from orphan_completion_adds [OF e refl, where n = "''app1-abc123''" and layer = orphanLayer
      and labelSelector = "[]" and f = orphanFetched]
  have 2: "map_of (addOrphans ?sel orphanFetched []) ''app1-abc123'' = None"
    by (simp add: lists names refs c)
  from orphan_completion_adds [OF e refl, where n = "''bare''" and layer = orphanLayer
      and labelSelector = "[]" and f = orphanFetched]
  have 3: "map_of (addOrphans ?sel orphanFetched []) ''bare'' = Some ''ReplicaSet''"
    by (simp add: lists names refs c)
  let ?app = "parseSelector selectingLayer ''app=app1''"
  have s: "selectorCheck ?app c \<longleftrightarrow> (''app'', ''app1'') \<in> set (TemplateLabels c)" for c
    by (simp add: parseSelector_def selectorCheck_def selectingLayer_def)
  have sel: "dep selectedFetched = [app1Deployment, managedDeployment]"
    "repset selectedFetched = []" "depcon selectedFetched = []" "repcon selectedFetched = []"
    "fulset selectedFetched = []" "daeset selectedFetched = []"
    by (simp_all add: selectedFetched_def)
  have tl: "Name app1Deployment = ''app1''"
    "TemplateLabels app1Deployment = [(''app'', ''app1'')]" "TemplateLabels managedDeployment = []"
    by (simp_all add: app1Deployment_def managedDeployment_def exampleController_def)
  from orphan_completion_adds [OF e refl, where n = "''app1''" and layer = selectingLayer
      and labelSelector = "''app=app1''" and f = selectedFetched]
  have 4: "map_of (addOrphans ?app selectedFetched []) ''app1'' = Some ''Deployment''"
    by (simp add: sel names tl s)
  from orphan_completion_adds [OF e refl, where n = "''managed''" and layer = selectingLayer
      and labelSelector = "''app=app1''" and f = selectedFetched]
  have 5: "map_of (addOrphans ?app selectedFetched []) ''managed'' = None"
    by (simp add: sel names tl s)
  from 1 2 3 4 5 refs(1) show ?thesis by simp
qed

section \<open>Errors of the fetches: claim C6\<close>

lemma fetchWorkloads_sent_error:
  "GetNamespace layer = None \<Longrightarrow> errChan (sentErrors layer labelSelector) sched = err # rest \<Longrightarrow>
     fetchWorkloads layer labelSelector sched order = ([], Some err)"
  by (simp add: fetchWorkloads_def)

lemma fetchDaemonSets_sends_nothing: "snd (fetchDaemonSets layer) = None"
  by (simp add: fetchDaemonSets_def loggedOnly_def skipped_def split: sum.splits)

lemma errChan_mem: "err \<in> set (errChan sent sched) \<Longrightarrow> Some err \<in> set sent"
  by (auto simp: errChan_def split: if_splits option.splits)

lemma errChan_sent:
  "i \<in> set sched \<Longrightarrow> i < length sent \<Longrightarrow> sent ! i = Some err \<Longrightarrow> errChan sent sched \<noteq> []"
  by (induction sched) (auto simp: errChan_def)

text \<open>
  What holds of the fetches that do send: once any goroutine that ran has sent an error,
  \<open>fetchWorkloads\<close> returns an empty list with one of the errors sent.
\<close>

lemma fetchWorkloads_all_or_nothing:
  assumes "GetNamespace layer = None" and "i \<in> set sched"
    and "i < length (sentErrors layer labelSelector)"
    and "sentErrors layer labelSelector ! i = Some err"
  shows "\<exists>e. Some e \<in> set (sentErrors layer labelSelector) \<and>
             fetchWorkloads layer labelSelector sched order = ([], Some e)"
proof -
  from errChan_sent [OF assms(2,3,4)] obtain e rest
    where ch: "errChan (sentErrors layer labelSelector) sched = e # rest"
    by (cases "errChan (sentErrors layer labelSelector) sched") auto
  then have "e \<in> set (errChan (sentErrors layer labelSelector) sched)" by simp
  from errChan_mem [OF this] fetchWorkloads_sent_error [OF assms(1) ch] show ?thesis
    by blast
qed

text \<open>
  Claim C6 at a failing input. The lister of the daemon-sets returns an error, the
  daemon-sets are not excluded, and every other fetch succeeds: \<open>fetchWorkloads\<close> returns
  the workloads it built from the other fetches, here that of the one pod, with no error.
  When it is the lister of the jobs that fails, the error is returned with an empty list,
  as the claim says.
\<close>

theorem daemon_set_error_is_not_returned:
  "GetDaemonSets (source daemonSetErrorLayer) = Inl (ApiError ''daemon-sets unavailable'') \<and>
   isWorkloadIncluded daemonSetErrorLayer DaemonSetType \<and>
   map WorkloadName (fst (fetchWorkloads daemonSetErrorLayer [] everyOrder [''orphan-pod'']))
     = [''orphan-pod''] \<and>
   snd (fetchWorkloads daemonSetErrorLayer [] everyOrder [''orphan-pod'']) = None \<and>
   GetJobs (k8s jobErrorLayer) = Inl (ApiError ''jobs unavailable'') \<and>
   fetchWorkloads jobErrorLayer [] everyOrder [''orphan-pod'']
     = ([], Some (ApiError ''jobs unavailable''))"
proof -
  have 1: "GetDaemonSets (source daemonSetErrorLayer) = Inl (ApiError ''daemon-sets unavailable'')"
    by (simp add: daemonSetErrorLayer_def source_def exampleLayer_def)
  have 2: "isWorkloadIncluded daemonSetErrorLayer DaemonSetType"
    by (simp add: daemonSetErrorLayer_def isWorkloadIncluded_def exampleLayer_def)
  have 3: "map WorkloadName (fst (fetchWorkloads daemonSetErrorLayer [] everyOrder [''orphan-pod'']))
     = [''orphan-pod'']"
    by code_simp
  have 4: "snd (fetchWorkloads daemonSetErrorLayer [] everyOrder [''orphan-pod'']) = None"
    by code_simp
  have 5: "GetJobs (k8s jobErrorLayer) = Inl (ApiError ''jobs unavailable'')"
    by (simp add: jobErrorLayer_def exampleLayer_def)
  have 6: "fetchWorkloads jobErrorLayer [] everyOrder [''orphan-pod'']
     = ([], Some (ApiError ''jobs unavailable''))"
    by code_simp
  from 1 2 3 4 5 6 show ?thesis by blast
qed

section \<open>The single workload: claims C8 and C9\<close>

text \<open>
  Claim C8, as the code has it. When the namespace is accessible and no fetch sent an
  error, \<open>fetchWorkload\<close> returns the Not-Found condition that \<open>kubernetes.NewNotFound\<close>
  builds, which \<open>IsNotFound\<close> tells from every other error,

  \<^item> if the index holds no entry for the requested name: so for a name that is neither
    the name of a fetched pod without owner references, nor named by a controller
    reference of a fetched pod, replica-set, replication-controller or job, nor the name
    of a fetched controller that the orphan completion would add;

  \<^item> if the branch of the \<open>switch\<close> is that of one of the nine kinds and no object of
    that kind with the requested name was fetched.

  A result without error is not the empty workload the function starts with: it is a
  workload named as requested, built for an entry of the index, and in a branch of the
  nine kinds it has the kind of the branch and an object of that kind and name was
  fetched. The default branch, for a kind that is none of the nine, never answers
  Not-Found: an entry of the index is enough for a result without error, with the pods
  that have an owner reference of the requested name, which may be none.
\<close>

theorem unresolved_name_is_NotFound:
  assumes "GetNamespace layer = None"
    and "errChan (sentErrorsFor layer workloadName workloadType) sched = []"
    and "f = fetchOne layer workloadName workloadType"
    and "controllers = resolvedControllersFor f order"
    and "result = fetchWorkload layer workloadName workloadType sched order"
    and "notFound = (Some emptyWorkload, Some (NewNotFound workloadName ''Kiali'' ''Workload''))"
    and "objects =
           [(''Deployment'', namedObject workloadName (dep f)),
            (''ReplicaSet'', find (\<lambda>c. Name c = workloadName) (repset f)),
            (''ReplicationController'', find (\<lambda>c. Name c = workloadName) (repcon f)),
            (''DeploymentConfig'', namedObject workloadName (depcon f)),
            (''StatefulSet'', namedObject workloadName (fulset f)),
            (''Job'', find (\<lambda>c. Name c = workloadName) (jbs f)),
            (''CronJob'', find (\<lambda>c. Name c = workloadName) (conjbs f)),
            (''DaemonSet'', namedObject workloadName (daeset f))]"
  shows "(map_of controllers workloadName = None \<longrightarrow> result = notFound) \<and>
         (workloadName \<notin> set (ownerNames (pods f)) \<and>
          workloadName \<notin> set (map Name (filter (\<lambda>p. OwnerReferences p = []) (pods f))) \<and>
          \<not> namedAsOwner f workloadName \<and> workloadName \<notin> set (orphanNamesFor f) \<longrightarrow>
            map_of controllers workloadName = None) \<and>
         (\<forall>ctype. map_of controllers workloadName = Some ctype \<longrightarrow>
            (\<forall>(kind, obj) \<in> set objects.
               controllerTypeFor workloadType ctype = kind \<longrightarrow>
                 (obj = None \<longrightarrow> result = notFound) \<and>
                 (obj \<noteq> None \<longrightarrow>
                    (\<exists>w. result = (Some w, None) \<and> WorkloadName w = workloadName \<and>
                         WorkloadType w = kind))) \<and>
            (controllerTypeFor workloadType ctype = ''Pod'' \<longrightarrow>
               (find (\<lambda>p. Name p = workloadName) (pods f) = None \<longrightarrow> result = notFound) \<and>
               (find (\<lambda>p. Name p = workloadName) (pods f) \<noteq> None \<longrightarrow>
                  (\<exists>w. result = (Some w, None) \<and> WorkloadName w = workloadName \<and>
                       WorkloadType w = ''Pod''))) \<and>
            (controllerTypeFor workloadType ctype \<notin> set (''Pod'' # map fst objects) \<longrightarrow>
               (\<exists>w. result = (Some w, None) \<and> WorkloadName w = workloadName \<and>
                    WorkloadType w = ctype \<and>
                    map SourcePod (Pods w) =
                      FilterPodsForController workloadName
                        (if \<not> snd (orderLookup ctype) then ''ReplicaSet'' else ctype) (pods f)))) \<and>
         IsNotFound (NewNotFound workloadName ''Kiali'' ''Workload'') \<and>
         (\<forall>msg. \<not> IsNotFound (ApiError msg)) \<and>
         (snd result = None \<longrightarrow>
            (\<exists>w. fst result = Some w \<and> WorkloadName w = workloadName \<and>
                 (workloadName \<noteq> [] \<longrightarrow> w \<noteq> emptyWorkload) \<and>
                 map_of controllers workloadName \<noteq> None)) \<and>
         (snd result \<noteq> None \<longrightarrow> result = notFound)"
proof -
  note run = fetchWorkload_ok [OF assms(1,2), of order, folded assms(3), folded assms(4),
      folded assms(5), folded assms(6)]
  have c1: "map_of controllers workloadName = None \<longrightarrow> result = notFound"
    by (simp add: run)
  have c2: "workloadName \<notin> set (ownerNames (pods f)) \<and>
          workloadName \<notin> set (map Name (filter (\<lambda>p. OwnerReferences p = []) (pods f))) \<and>
          \<not> namedAsOwner f workloadName \<and> workloadName \<notin> set (orphanNamesFor f) \<longrightarrow>
            map_of controllers workloadName = None"
  proof
    assume h: "workloadName \<notin> set (ownerNames (pods f)) \<and>
        workloadName \<notin> set (map Name (filter (\<lambda>p. OwnerReferences p = []) (pods f))) \<and>
        \<not> namedAsOwner f workloadName \<and> workloadName \<notin> set (orphanNamesFor f)"
    then have scan: "map_of (findControllers (pods f)) workloadName = None"
      by (auto simp: findControllers_unnamed)
    from h have "\<not> namedAsOwner f workloadName" by blast
    from resolveControllers_kept [OF this, of "findControllers (pods f)" order] scan
    have "map_of (resolveControllers f order (findControllers (pods f))) workloadName = None"
      by simp
    with h show "map_of controllers workloadName = None"
      by (simp add: assms(4) resolvedControllersFor_def addOrphansFor_other)
  qed
  have named: "Name c = workloadName" if "namedObject workloadName obj = Some c" for obj c
    using namedObject_Some [OF that] by simp
  have found: "Name c = workloadName" if "find (\<lambda>c. Name c = workloadName) objs = Some c"
    for objs :: "Controller list" and c
    using find_mem [OF that] by simp
  have branch: "controllerTypeFor workloadType ctype = K \<longrightarrow>
      (obj = None \<longrightarrow> result = notFound) \<and>
      (obj \<noteq> None \<longrightarrow>
         (\<exists>w. result = (Some w, None) \<and> WorkloadName w = workloadName \<and> WorkloadType w = K))"
    if "map_of controllers workloadName = Some ctype"
      and "buildWorkloadFor layer f workloadName K ctype =
             map_option (\<lambda>c. selectorWorkload layer K c (pods f)) obj"
      and "\<And>c. obj = Some c \<Longrightarrow> Name c = workloadName"
    for obj K ctype
  proof (cases obj)
    case None
    with that(1,2) show ?thesis by (auto simp: run)
  next
    case (Some c)
    with that show ?thesis by (auto simp: run)
  qed
  have known: "\<forall>(kind, obj) \<in> set objects.
               controllerTypeFor workloadType ctype = kind \<longrightarrow>
                 (obj = None \<longrightarrow> result = notFound) \<and>
                 (obj \<noteq> None \<longrightarrow>
                    (\<exists>w. result = (Some w, None) \<and> WorkloadName w = workloadName \<and>
                         WorkloadType w = kind))"
    if entry: "map_of controllers workloadName = Some ctype" for ctype
  proof -
    note b1 = branch [OF entry buildWorkloadFor_known(1) [where ctype = ctype] named]
      and b2 = branch [OF entry buildWorkloadFor_known(2) [where ctype = ctype] found]
      and b3 = branch [OF entry buildWorkloadFor_known(3) [where ctype = ctype] found]
      and b4 = branch [OF entry buildWorkloadFor_known(4) [where ctype = ctype] named]
      and b5 = branch [OF entry buildWorkloadFor_known(5) [where ctype = ctype] named]
      and b6 = branch [OF entry buildWorkloadFor_known(7) [where ctype = ctype] found]
      and b7 = branch [OF entry buildWorkloadFor_known(8) [where ctype = ctype] found]
      and b8 = branch [OF entry buildWorkloadFor_known(9) [where ctype = ctype] named]
    show ?thesis
      unfolding assms(7) list.set ball_simps prod.case
      by (intro conjI TrueI b1 b2 b3 b4 b5 b6 b7 b8)
  qed
  have pod: "controllerTypeFor workloadType ctype = ''Pod'' \<longrightarrow>
               (find (\<lambda>p. Name p = workloadName) (pods f) = None \<longrightarrow> result = notFound) \<and>
               (find (\<lambda>p. Name p = workloadName) (pods f) \<noteq> None \<longrightarrow>
                  (\<exists>w. result = (Some w, None) \<and> WorkloadName w = workloadName \<and>
                       WorkloadType w = ''Pod''))"
    if entry: "map_of controllers workloadName = Some ctype" for ctype
  proof
    assume k: "controllerTypeFor workloadType ctype = ''Pod''"
    show "(find (\<lambda>p. Name p = workloadName) (pods f) = None \<longrightarrow> result = notFound) \<and>
               (find (\<lambda>p. Name p = workloadName) (pods f) \<noteq> None \<longrightarrow>
                  (\<exists>w. result = (Some w, None) \<and> WorkloadName w = workloadName \<and>
                       WorkloadType w = ''Pod''))"
    proof (cases "find (\<lambda>p. Name p = workloadName) (pods f)")
      case None
      with entry k show ?thesis by (simp add: run buildWorkloadFor_known)
    next
      case (Some p)
      from find_mem [OF Some] have "Name p = workloadName" by simp
      with Some entry k show ?thesis
        by (simp add: run buildWorkloadFor_known kind_defs)
    qed
  qed
  have custom: "controllerTypeFor workloadType ctype \<notin> set (''Pod'' # map fst objects) \<longrightarrow>
               (\<exists>w. result = (Some w, None) \<and> WorkloadName w = workloadName \<and>
                    WorkloadType w = ctype \<and>
                    map SourcePod (Pods w) =
                      FilterPodsForController workloadName
                        (if \<not> snd (orderLookup ctype) then ''ReplicaSet'' else ctype) (pods f))"
    if entry: "map_of controllers workloadName = Some ctype" for ctype
  proof
    assume "controllerTypeFor workloadType ctype \<notin> set (''Pod'' # map fst objects)"
    then have "controllerTypeFor workloadType ctype \<notin>
        set [''Deployment'', ''ReplicaSet'', ''ReplicationController'', ''DeploymentConfig'',
             ''StatefulSet'', ''Pod'', ''Job'', ''CronJob'', ''DaemonSet'']"
      by (simp add: assms(7))
    from buildWorkloadFor_custom [OF this] entry
    show "\<exists>w. result = (Some w, None) \<and> WorkloadName w = workloadName \<and>
                    WorkloadType w = ctype \<and>
                    map SourcePod (Pods w) =
                      FilterPodsForController workloadName
                        (if \<not> snd (orderLookup ctype) then ''ReplicaSet'' else ctype) (pods f)"
      by (simp add: run kind_defs)
  qed
  have c3: "\<forall>ctype. map_of controllers workloadName = Some ctype \<longrightarrow>
            (\<forall>(kind, obj) \<in> set objects.
               controllerTypeFor workloadType ctype = kind \<longrightarrow>
                 (obj = None \<longrightarrow> result = notFound) \<and>
                 (obj \<noteq> None \<longrightarrow>
                    (\<exists>w. result = (Some w, None) \<and> WorkloadName w = workloadName \<and>
                         WorkloadType w = kind))) \<and>
            (controllerTypeFor workloadType ctype = ''Pod'' \<longrightarrow>
               (find (\<lambda>p. Name p = workloadName) (pods f) = None \<longrightarrow> result = notFound) \<and>
               (find (\<lambda>p. Name p = workloadName) (pods f) \<noteq> None \<longrightarrow>
                  (\<exists>w. result = (Some w, None) \<and> WorkloadName w = workloadName \<and>
                       WorkloadType w = ''Pod''))) \<and>
            (controllerTypeFor workloadType ctype \<notin> set (''Pod'' # map fst objects) \<longrightarrow>
               (\<exists>w. result = (Some w, None) \<and> WorkloadName w = workloadName \<and>
                    WorkloadType w = ctype \<and>
                    map SourcePod (Pods w) =
                      FilterPodsForController workloadName
                        (if \<not> snd (orderLookup ctype) then ''ReplicaSet'' else ctype) (pods f)))"
    by (intro allI impI conjI known pod custom)
  have c4: "IsNotFound (NewNotFound workloadName ''Kiali'' ''Workload'')"
    by (simp add: NewNotFound_def)
  have c5: "\<forall>msg. \<not> IsNotFound (ApiError msg)"
    by simp
  have c6: "snd result = None \<longrightarrow>
            (\<exists>w. fst result = Some w \<and> WorkloadName w = workloadName \<and>
                 (workloadName \<noteq> [] \<longrightarrow> w \<noteq> emptyWorkload) \<and>
                 map_of controllers workloadName \<noteq> None)"
  proof
    assume ok: "snd result = None"
    show "\<exists>w. fst result = Some w \<and> WorkloadName w = workloadName \<and>
                 (workloadName \<noteq> [] \<longrightarrow> w \<noteq> emptyWorkload) \<and>
                 map_of controllers workloadName \<noteq> None"
    proof (cases "map_of controllers workloadName")
      case None
      with ok show ?thesis by (simp add: run assms(6))
    next
      case entry: (Some ctype)
      show ?thesis
      proof (cases "buildWorkloadFor layer f workloadName (controllerTypeFor workloadType ctype) ctype")
        case None
        with entry ok show ?thesis by (simp add: run assms(6))
      next
        case (Some w)
        from buildWorkloadFor_name [OF Some] have n: "WorkloadName w = workloadName" .
        from Some entry have res: "result = (Some (attachProxyStatus layer w), None)"
          by (simp add: run)
        have "WorkloadName (attachProxyStatus layer w) = workloadName"
          by (simp add: n)
        moreover have "WorkloadName emptyWorkload = []"
          by (simp add: emptyWorkload_def)
        ultimately have "workloadName \<noteq> [] \<longrightarrow> attachProxyStatus layer w \<noteq> emptyWorkload"
          by metis
        with res n entry show ?thesis by simp
      qed
    qed
  qed
  have c7: "snd result \<noteq> None \<longrightarrow> result = notFound"
  proof
    assume err: "snd result \<noteq> None"
    show "result = notFound"
    proof (cases "map_of controllers workloadName")
      case None
      then show ?thesis by (simp add: run)
    next
      case entry: (Some ctype)
      show ?thesis
      proof (cases "buildWorkloadFor layer f workloadName (controllerTypeFor workloadType ctype) ctype")
        case None
        with entry show ?thesis by (simp add: run)
      next
        case (Some w)
        with entry err show ?thesis by (simp add: run)
      qed
    qed
  qed
  show ?thesis
    by (intro conjI c1 c2 c3 c4 c5 c6 c7)
qed

theorem unresolved_name_is_NotFound_witness:
  "map_of (resolvedControllersFor (fetchOne orphanLayer ''ghost'' []) [''orphan-pod'']) ''ghost''
     = None \<and>
   fetchWorkload orphanLayer ''ghost'' [] everyOrder [''orphan-pod''] =
     (Some emptyWorkload, Some (NewNotFound ''ghost'' ''Kiali'' ''Workload'')) \<and>
   map_of (resolvedControllersFor (fetchOne parentlessLayer ''app1'' []) [''app1-abc123'']) ''app1''
     = Some ''Deployment'' \<and>
   dep (fetchOne parentlessLayer ''app1'' []) = None \<and>
   fetchWorkload parentlessLayer ''app1'' [] everyOrder [''app1-abc123''] =
     (Some emptyWorkload, Some (NewNotFound ''app1'' ''Kiali'' ''Workload'')) \<and>
   (\<exists>w. fetchWorkload orphanLayer ''orphan-pod'' [] everyOrder [''orphan-pod''] = (Some w, None) \<and>
        WorkloadName w = ''orphan-pod'' \<and> WorkloadType w = ''Pod'')"
proof -
  let ?g = "fetchOne orphanLayer ''ghost'' []"
  let ?o = "fetchOne orphanLayer ''orphan-pod'' []"
  let ?p = "fetchOne parentlessLayer ''app1'' []"
  have o1: "GetNamespace orphanLayer = None"
    and o2: "errChan (sentErrorsFor orphanLayer n []) everyOrder = []" for n
    by (simp_all add: orphanLayer_def exampleLayer_fetchOne)
  have p1: "GetNamespace parentlessLayer = None"
    and p2: "errChan (sentErrorsFor parentlessLayer ''app1'' []) everyOrder = []"
    by (simp_all add: parentlessLayer_def exampleLayer_fetchOne)
  have g: "?g = \<lparr>pods = [orphanPod], repcon = [], dep = None, repset = [], depcon = None,
                 fulset = None, jbs = [], conjbs = [], daeset = None\<rparr>"
    and o: "?o = \<lparr>pods = [orphanPod], repcon = [], dep = None, repset = [], depcon = None,
                 fulset = None, jbs = [], conjbs = [], daeset = None\<rparr>"
    by (simp_all add: orphanLayer_def exampleLayer_fetchOne)
  have p: "?p = \<lparr>pods = app1Pods, repcon = [], dep = None, repset = [app1ReplicaSet],
                 depcon = None, fulset = None, jbs = [], conjbs = [], daeset = None\<rparr>"
    by (simp add: parentlessLayer_def exampleLayer_fetchOne)
  have pod: "Name orphanPod = ''orphan-pod''" "OwnerReferences orphanPod = []"
    by (simp_all add: orphanPod_def examplePod_def)
  have h: "''ghost'' \<notin> set (ownerNames (pods ?g)) \<and>
           ''ghost'' \<notin> set (map Name (filter (\<lambda>p. OwnerReferences p = []) (pods ?g))) \<and>
           \<not> namedAsOwner ?g ''ghost'' \<and> ''ghost'' \<notin> set (orphanNamesFor ?g)"
    by (simp add: g ownerNames_def namedAsOwner_def orphanNamesFor_def pod)
  note ghost = unresolved_name_is_NotFound [OF o1 o2 refl refl refl refl refl,
      of "''ghost''" "[''orphan-pod'']"]
  from ghost [THEN conjunct2, THEN conjunct1] h
  have none: "map_of (resolvedControllersFor ?g [''orphan-pod'']) ''ghost'' = None"
    by (rule mp)
  from ghost [THEN conjunct1] none
  have a: "fetchWorkload orphanLayer ''ghost'' [] everyOrder [''orphan-pod''] =
     (Some emptyWorkload, Some (NewNotFound ''ghost'' ''Kiali'' ''Workload''))"
    by (rule mp)
  have entry: "map_of (resolvedControllersFor ?p [''app1-abc123'']) ''app1'' = Some ''Deployment''"
    by code_simp
  have kind: "controllerTypeFor [] ''Deployment'' = ''Deployment''"
    by (simp add: controllerTypeFor_def)
  have gone: "dep ?p = None"
    by (simp add: p)
  note app1 = unresolved_name_is_NotFound [OF p1 p2 refl refl refl refl refl,
      of "[''app1-abc123'']"]
  from app1 [THEN conjunct2, THEN conjunct2, THEN conjunct1, rule_format, OF entry,
      THEN conjunct1]
  have "(namedObject ''app1'' (dep ?p) = None \<longrightarrow>
           fetchWorkload parentlessLayer ''app1'' [] everyOrder [''app1-abc123''] =
             (Some emptyWorkload, Some (NewNotFound ''app1'' ''Kiali'' ''Workload'')))"
    by (simp add: kind)
  then have b: "fetchWorkload parentlessLayer ''app1'' [] everyOrder [''app1-abc123''] =
     (Some emptyWorkload, Some (NewNotFound ''app1'' ''Kiali'' ''Workload''))"
    by (simp add: gone namedObject_def)
  have entry': "map_of (resolvedControllersFor ?o [''orphan-pod'']) ''orphan-pod'' = Some ''Pod''"
    by code_simp
  have kind': "controllerTypeFor [] ''Pod'' = ''Pod''"
    by (simp add: controllerTypeFor_def)
  note orphan = unresolved_name_is_NotFound [OF o1 o2 refl refl refl refl refl,
      of "''orphan-pod''" "[''orphan-pod'']"]
  from orphan [THEN conjunct2, THEN conjunct2, THEN conjunct1, rule_format, OF entry',
      THEN conjunct2, THEN conjunct1, rule_format, OF kind', THEN conjunct2]
  have c: "\<exists>w. fetchWorkload orphanLayer ''orphan-pod'' [] everyOrder [''orphan-pod'']
               = (Some w, None) \<and>
             WorkloadName w = ''orphan-pod'' \<and> WorkloadType w = ''Pod''"
    by (simp add: o pod)
  from none a entry gone b c show ?thesis
    by (intro conjI)
qed

text \<open>
  Counterexample to claim C8 as stated: in the namespace of the replica-set
  \<open>app1-abc123\<close> there is no deployment, no fetched controller or pod is named
  \<open>app1\<close>, and the request names the kind \<open>Rollout\<close>. The index holds \<open>app1\<close> as
  the owner that the replica-set names, the \<open>switch\<close> takes its default branch, and the
  result is a workload \<open>app1\<close> without pods and without error, not the Not-Found
  condition.
\<close>

theorem custom_kind_of_missing_workload_succeeds:
  "fetchOne parentlessLayer ''app1'' ''Rollout'' =
     \<lparr>pods = app1Pods, repcon = [], dep = None, repset = [app1ReplicaSet], depcon = None,
      fulset = None, jbs = [], conjbs = [], daeset = None\<rparr> \<and>
   GetDeployment (k8s parentlessLayer) ''app1'' = Inl (NotFound ''app1'' ''apps'' ''deployments'') \<and>
   ''app1'' \<notin> set (map Name app1Pods) \<and>
   Name app1ReplicaSet \<noteq> ''app1'' \<and>
   snd (fetchWorkload parentlessLayer ''app1'' ''Rollout'' everyOrder [''app1-abc123'']) = None \<and>
   map_option WorkloadName
     (fst (fetchWorkload parentlessLayer ''app1'' ''Rollout'' everyOrder [''app1-abc123'']))
     = Some ''app1'' \<and>
   map_option Pods
     (fst (fetchWorkload parentlessLayer ''app1'' ''Rollout'' everyOrder [''app1-abc123'']))
     = Some []"
proof -
  have f: "fetchOne parentlessLayer ''app1'' ''Rollout'' =
     \<lparr>pods = app1Pods, repcon = [], dep = None, repset = [app1ReplicaSet], depcon = None,
      fulset = None, jbs = [], conjbs = [], daeset = None\<rparr>"
    by code_simp
  have d: "GetDeployment (k8s parentlessLayer) ''app1'' = Inl (NotFound ''app1'' ''apps'' ''deployments'')"
    by (simp add: parentlessLayer_def exampleLayer_def exampleClient_def)
  have n: "''app1'' \<notin> set (map Name app1Pods)" "Name app1ReplicaSet \<noteq> ''app1''"
    by (simp_all add: app1Pods_def examplePod_def app1ReplicaSet_def exampleController_def)
  have r1: "snd (fetchWorkload parentlessLayer ''app1'' ''Rollout'' everyOrder [''app1-abc123'']) = None"
    by code_simp
  have r2: "map_option WorkloadName
     (fst (fetchWorkload parentlessLayer ''app1'' ''Rollout'' everyOrder [''app1-abc123'']))
     = Some ''app1''"
    by code_simp
  have r3: "map_option Pods
     (fst (fetchWorkload parentlessLayer ''app1'' ''Rollout'' everyOrder [''app1-abc123'']))
     = Some []"
    by code_simp
  from f d n r1 r2 r3 show ?thesis
    by (intro conjI)
qed

text \<open>
  Claim C9. When the namespace is accessible, no fetch sent an error, a non-empty
  \<open>workloadType\<close> was passed and the index resolves the requested name to a different
  kind, the branch of the \<open>switch\<close> is that of \<open>workloadType\<close>, not that of the kind
  resolved. For each of the eight controller kinds the branch looks the requested name up
  among the fetched objects of the kind \<open>workloadType\<close>: when there is none the result is
  the Not-Found condition, whatever was fetched of the kind resolved; when there is one,
  the result is a workload of the requested name and of kind \<open>workloadType\<close>, with the
  template labels of that object and the pods they select. The branch of \<open>Pod\<close> looks
  for a fetched pod of the requested name in the same way. For a \<open>workloadType\<close> that is
  none of the nine kinds the default branch runs, whatever the kind resolved: it always
  returns a workload, which it builds with the kind resolved, as the source comments.
\<close>

theorem workloadType_selects_branch:
  assumes "GetNamespace layer = None"
    and "errChan (sentErrorsFor layer workloadName workloadType) sched = []"
    and "f = fetchOne layer workloadName workloadType"
    and "map_of (resolvedControllersFor f order) workloadName = Some ctype"
    and "workloadType \<noteq> ''''" and "ctype \<noteq> workloadType"
    and "result = fetchWorkload layer workloadName workloadType sched order"
  shows "(\<forall>(kind, obj) \<in> set
            [(''Deployment'', namedObject workloadName (dep f)),
             (''ReplicaSet'', find (\<lambda>c. Name c = workloadName) (repset f)),
             (''ReplicationController'', find (\<lambda>c. Name c = workloadName) (repcon f)),
             (''DeploymentConfig'', namedObject workloadName (depcon f)),
             (''StatefulSet'', namedObject workloadName (fulset f)),
             (''Job'', find (\<lambda>c. Name c = workloadName) (jbs f)),
             (''CronJob'', find (\<lambda>c. Name c = workloadName) (conjbs f)),
             (''DaemonSet'', namedObject workloadName (daeset f))].
            workloadType = kind \<longrightarrow>
              (case obj of
                 None \<Rightarrow>
                   result = (Some emptyWorkload, Some (NewNotFound workloadName ''Kiali'' ''Workload''))
               | Some c \<Rightarrow>
                   (\<exists>w. result = (Some w, None) \<and>
                        WorkloadName w = workloadName \<and>
                        WorkloadType w = workloadType \<and> WorkloadType w \<noteq> ctype \<and>
                        WorkloadLabels w = TemplateLabels c \<and>
                        map SourcePod (Pods w) =
                          FilterPodsForSelector layer (TemplateLabels c) (pods f)))) \<and>
         (workloadType = ''Pod'' \<longrightarrow>
            (case find (\<lambda>p. Name p = workloadName) (pods f) of
               None \<Rightarrow>
                 result = (Some emptyWorkload, Some (NewNotFound workloadName ''Kiali'' ''Workload''))
             | Some p \<Rightarrow>
                 (\<exists>w. result = (Some w, None) \<and>
                      WorkloadName w = workloadName \<and>
                      WorkloadType w = workloadType \<and> WorkloadType w \<noteq> ctype \<and>
                      map SourcePod (Pods w) = [p]))) \<and>
         (workloadType \<notin> set [''Deployment'', ''ReplicaSet'', ''ReplicationController'',
              ''DeploymentConfig'', ''StatefulSet'', ''Pod'', ''Job'', ''CronJob'', ''DaemonSet''] \<longrightarrow>
            (\<exists>w. result = (Some w, None) \<and>
                 WorkloadName w = workloadName \<and> WorkloadType w = ctype \<and>
                 map SourcePod (Pods w) =
                   FilterPodsForController workloadName
                     (if \<not> snd (orderLookup ctype) then ''ReplicaSet'' else ctype) (pods f)))"
proof -
  have kind: "controllerTypeFor workloadType ctype = workloadType"
    using assms(5,6) by (simp add: controllerTypeFor_def)
  have run: "result =
           (case buildWorkloadFor layer f workloadName workloadType ctype of
              Some w \<Rightarrow> (Some (attachProxyStatus layer w), None)
            | None \<Rightarrow> (Some emptyWorkload, Some (NewNotFound workloadName ''Kiali'' ''Workload'')))"
    using fetchWorkload_ok [OF assms(1,2), of order] assms(4)
    by (simp add: assms(3,7) kind)
  have controller: "workloadType = K \<longrightarrow>
      (case obj of
         None \<Rightarrow>
           result = (Some emptyWorkload, Some (NewNotFound workloadName ''Kiali'' ''Workload''))
       | Some c \<Rightarrow>
           (\<exists>w. result = (Some w, None) \<and>
                WorkloadName w = workloadName \<and>
                WorkloadType w = workloadType \<and> WorkloadType w \<noteq> ctype \<and>
                WorkloadLabels w = TemplateLabels c \<and>
                map SourcePod (Pods w) = FilterPodsForSelector layer (TemplateLabels c) (pods f)))"
    if "buildWorkloadFor layer f workloadName K ctype =
          map_option (\<lambda>c. selectorWorkload layer K c (pods f)) obj"
      and "\<And>c. obj = Some c \<Longrightarrow> Name c = workloadName"
    for obj K
  proof (cases obj)
    case None
    with that(1) show ?thesis by (auto simp: run)
  next
    case (Some c)
    with that assms(6) show ?thesis by (auto simp: run)
  qed
  have named: "Name c = workloadName" if "namedObject workloadName obj = Some c" for obj c
    using namedObject_Some [OF that] by simp
  have found: "Name c = workloadName" if "find (\<lambda>c. Name c = workloadName) objs = Some c"
    for objs :: "Controller list" and c
    using find_mem [OF that] by simp
  show ?thesis
  proof (intro conjI)
    show "\<forall>(kind, obj) \<in> set
            [(''Deployment'', namedObject workloadName (dep f)),
             (''ReplicaSet'', find (\<lambda>c. Name c = workloadName) (repset f)),
             (''ReplicationController'', find (\<lambda>c. Name c = workloadName) (repcon f)),
             (''DeploymentConfig'', namedObject workloadName (depcon f)),
             (''StatefulSet'', namedObject workloadName (fulset f)),
             (''Job'', find (\<lambda>c. Name c = workloadName) (jbs f)),
             (''CronJob'', find (\<lambda>c. Name c = workloadName) (conjbs f)),
             (''DaemonSet'', namedObject workloadName (daeset f))].
            workloadType = kind \<longrightarrow>
              (case obj of
                 None \<Rightarrow>
                   result = (Some emptyWorkload, Some (NewNotFound workloadName ''Kiali'' ''Workload''))
               | Some c \<Rightarrow>
                   (\<exists>w. result = (Some w, None) \<and>
                        WorkloadName w = workloadName \<and>
                        WorkloadType w = workloadType \<and> WorkloadType w \<noteq> ctype \<and>
                        WorkloadLabels w = TemplateLabels c \<and>
                        map SourcePod (Pods w) =
                          FilterPodsForSelector layer (TemplateLabels c) (pods f)))"
    proof -
      note c1 = controller [OF buildWorkloadFor_known(1) [where ctype = ctype] named]
        and c2 = controller [OF buildWorkloadFor_known(2) [where ctype = ctype] found]
        and c3 = controller [OF buildWorkloadFor_known(3) [where ctype = ctype] found]
        and c4 = controller [OF buildWorkloadFor_known(4) [where ctype = ctype] named]
        and c5 = controller [OF buildWorkloadFor_known(5) [where ctype = ctype] named]
        and c6 = controller [OF buildWorkloadFor_known(7) [where ctype = ctype] found]
        and c7 = controller [OF buildWorkloadFor_known(8) [where ctype = ctype] found]
        and c8 = controller [OF buildWorkloadFor_known(9) [where ctype = ctype] named]
      show ?thesis
        unfolding list.set ball_simps prod.case
        by (intro conjI TrueI c1 c2 c3 c4 c5 c6 c7 c8)
    qed
    show "workloadType = ''Pod'' \<longrightarrow>
            (case find (\<lambda>p. Name p = workloadName) (pods f) of
               None \<Rightarrow>
                 result = (Some emptyWorkload, Some (NewNotFound workloadName ''Kiali'' ''Workload''))
             | Some p \<Rightarrow>
                 (\<exists>w. result = (Some w, None) \<and>
                      WorkloadName w = workloadName \<and>
                      WorkloadType w = workloadType \<and> WorkloadType w \<noteq> ctype \<and>
                      map SourcePod (Pods w) = [p]))"
    proof
      assume pod: "workloadType = ''Pod''"
      show "case find (\<lambda>p. Name p = workloadName) (pods f) of
               None \<Rightarrow>
                 result = (Some emptyWorkload, Some (NewNotFound workloadName ''Kiali'' ''Workload''))
             | Some p \<Rightarrow>
                 (\<exists>w. result = (Some w, None) \<and>
                      WorkloadName w = workloadName \<and>
                      WorkloadType w = workloadType \<and> WorkloadType w \<noteq> ctype \<and>
                      map SourcePod (Pods w) = [p])"
      proof (cases "find (\<lambda>p. Name p = workloadName) (pods f)")
        case None
        with pod show ?thesis by (simp add: run buildWorkloadFor_known)
      next
        case (Some p)
        from find_mem [OF Some] have "Name p = workloadName" by simp
        with Some pod assms(6) show ?thesis
          by (simp add: run buildWorkloadFor_known kind_defs)
      qed
    qed
    show "workloadType \<notin> set [''Deployment'', ''ReplicaSet'', ''ReplicationController'',
              ''DeploymentConfig'', ''StatefulSet'', ''Pod'', ''Job'', ''CronJob'', ''DaemonSet''] \<longrightarrow>
            (\<exists>w. result = (Some w, None) \<and>
                 WorkloadName w = workloadName \<and> WorkloadType w = ctype \<and>
                 map SourcePod (Pods w) =
                   FilterPodsForController workloadName
                     (if \<not> snd (orderLookup ctype) then ''ReplicaSet'' else ctype) (pods f))"
    proof
      assume "workloadType \<notin> set [''Deployment'', ''ReplicaSet'', ''ReplicationController'',
              ''DeploymentConfig'', ''StatefulSet'', ''Pod'', ''Job'', ''CronJob'', ''DaemonSet'']"
      from buildWorkloadFor_custom [OF this]
      show "\<exists>w. result = (Some w, None) \<and>
                 WorkloadName w = workloadName \<and> WorkloadType w = ctype \<and>
                 map SourcePod (Pods w) =
                   FilterPodsForController workloadName
                     (if \<not> snd (orderLookup ctype) then ''ReplicaSet'' else ctype) (pods f)"
        by (simp add: run kind_defs)
    qed
  qed
qed

theorem workloadType_selects_branch_witness:
  "map_of (resolvedControllersFor (fetchOne webLayer ''web'' ''Deployment'') [''web'']) ''web''
     = Some ''ReplicaSet'' \<and>
   (\<exists>w. fetchWorkload webLayer ''web'' ''Deployment'' everyOrder [''web''] = (Some w, None) \<and>
        WorkloadType w = ''Deployment'' \<and> map SourcePod (Pods w) = [webPod]) \<and>
   map_of (resolvedControllersFor (fetchOne webLayer ''web'' ''StatefulSet'') [''web'']) ''web''
     = Some ''ReplicaSet'' \<and>
   fetchWorkload webLayer ''web'' ''StatefulSet'' everyOrder [''web''] =
     (Some emptyWorkload, Some (NewNotFound ''web'' ''Kiali'' ''Workload'')) \<and>
   map_of (resolvedControllersFor (fetchOne webLayer ''web'' ''Rollout'') [''web'']) ''web''
     = Some ''ReplicaSet'' \<and>
   (\<exists>w. fetchWorkload webLayer ''web'' ''Rollout'' everyOrder [''web''] = (Some w, None) \<and>
        WorkloadType w = ''ReplicaSet'' \<and> map SourcePod (Pods w) = [webPod])"
proof -
  let ?d = "fetchOne webLayer ''web'' ''Deployment''"
  let ?s = "fetchOne webLayer ''web'' ''StatefulSet''"
  let ?r = "fetchOne webLayer ''web'' ''Rollout''"
  have 1: "GetNamespace webLayer = None"
    by (simp add: webLayer_def exampleLayer_fetchOne)
  have 2: "errChan (sentErrorsFor webLayer ''web'' hint) everyOrder = []" for hint
    by (simp add: webLayer_def exampleLayer_fetchOne)
  have d: "?d = \<lparr>pods = [webPod], repcon = [], dep = Some webDeployment, repset = [],
                 depcon = None, fulset = None, jbs = [], conjbs = [], daeset = None\<rparr>"
    by (simp add: webLayer_def exampleLayer_fetchOne webDeployment_def exampleController_def)
  have s: "?s = \<lparr>pods = [webPod], repcon = [], dep = None, repset = [],
                 depcon = None, fulset = None, jbs = [], conjbs = [], daeset = None\<rparr>"
    by code_simp
  have r: "?r = \<lparr>pods = [webPod], repcon = [], dep = None, repset = [webReplicaSet],
                 depcon = None, fulset = None, jbs = [], conjbs = [], daeset = None\<rparr>"
    by code_simp
  have d4: "map_of (resolvedControllersFor ?d [''web'']) ''web'' = Some ''ReplicaSet''"
    and s4: "map_of (resolvedControllersFor ?s [''web'']) ''web'' = Some ''ReplicaSet''"
    and r4: "map_of (resolvedControllersFor ?r [''web'']) ''web'' = Some ''ReplicaSet''"
    by code_simp+
  have web: "Name webDeployment = ''web''" "TemplateLabels webDeployment = [(''app'', ''web'')]"
    by (simp_all add: webDeployment_def exampleController_def)
  have sel: "FilterPodsForSelector webLayer [(''app'', ''web'')] [webPod] = [webPod]"
    by (simp add: FilterPodsForSelector_def webLayer_def exampleLayer_matches webPod_def
          examplePod_def)
  have own: "FilterPodsForController ''web'' ''ReplicaSet'' [webPod] = [webPod]"
    by (simp add: FilterPodsForController_def webPod_def examplePod_def controllerRef_def)
  from workloadType_selects_branch [OF 1 2 refl d4 _ _ refl]
  have a: "\<exists>w. fetchWorkload webLayer ''web'' ''Deployment'' everyOrder [''web''] = (Some w, None) \<and>
        WorkloadType w = ''Deployment'' \<and> map SourcePod (Pods w) = [webPod]"
    unfolding d by (auto simp: namedObject_def web sel)
  from workloadType_selects_branch [OF 1 2 refl s4 _ _ refl]
  have b: "fetchWorkload webLayer ''web'' ''StatefulSet'' everyOrder [''web''] =
     (Some emptyWorkload, Some (NewNotFound ''web'' ''Kiali'' ''Workload''))"
    unfolding s by (simp add: namedObject_def)
  from workloadType_selects_branch [OF 1 2 refl r4 _ _ refl]
  have c: "\<exists>w. fetchWorkload webLayer ''web'' ''Rollout'' everyOrder [''web''] = (Some w, None) \<and>
        WorkloadType w = ''ReplicaSet'' \<and> map SourcePod (Pods w) = [webPod]"
    unfolding r by (auto simp: orderLookup_table own)
  from d4 a s4 b r4 c show ?thesis by blast
qed

section \<open>Replica-sets whose deployment was not fetched: claim C10\<close>





end
